theory Spec2Isabelle
  imports Complex_Main "HOL-Library.Monad_Syntax"
begin

section \<open>Field gathering with threading (fbpic/particles/gathering/threading_methods.py)\<close>

text \<open>
  The four kernels of the module are embedded: \<open>gather_field_numba_linear\<close>,
  \<open>gather_envelope_field_numba_linear\<close>, \<open>gather_field_numba_cubic\<close> and
  \<open>gather_envelope_field_numba_cubic\<close>.

  Numbers: a Python float is a \<open>real\<close> and a Python complex is a \<open>complex\<close>, so
  every statement below is one of exact arithmetic; rounding, NaN and the range of
  \<open>int64\<close> are outside the model. \<open>int(math.floor(c))\<close> is \<open>\<lfloor>c\<rfloor>\<close>.

  The arrays of the particles (positions, outputs, chunk indices) and the lists of grids
  are lists read and written with \<open>py_get\<close> and \<open>py_set\<close>: an index \<open>i\<close> with
  \<open>- len \<le> i < 0\<close> counts from the end. For any other index outside \<open>[0, len)\<close>
  Python raises and the compiled kernel touches memory outside the array; the model gives
  such a call no result, the value \<open>None\<close>. The loops of the kernels run over
  \<open>range(x.shape[0])\<close> or over the chunk ranges, so this happens only when the arrays
  of a call differ in length or the chunk indices point outside them.
\<close>

subsection \<open>Arrays\<close>

definition py_get :: "'a list \<Rightarrow> int \<Rightarrow> 'a option" where
  "py_get xs i =
     (let n = int (length xs) in
      if 0 \<le> i \<and> i < n then Some (xs ! nat i)
      else if - n \<le> i \<and> i < 0 then Some (xs ! nat (i + n))
      else None)"

definition py_set :: "'a list \<Rightarrow> int \<Rightarrow> 'a \<Rightarrow> 'a list option" where
  "py_set xs i v =
     (let n = int (length xs) in
      if 0 \<le> i \<and> i < n then Some (xs[nat i := v])
      else if - n \<le> i \<and> i < 0 then Some (xs[nat (i + n) := v])
      else None)"

text \<open>A grid is a two-dimensional array of complex numbers, indexed \<open>[iz, ir]\<close>.\<close>

type_synonym grid = "complex list list"

text \<open>
  The grids are read by the per-mode routines, which lines 19--24 compile with
  \<open>numba.njit\<close>: a negative index counts from the end and no bound is checked, so a
  read outside the array raises nothing and returns whatever the memory holds there,
  here the value \<open>mem g iz ir\<close> of an arbitrary function of the array and the index.
\<close>

type_synonym memory = "grid \<Rightarrow> int \<Rightarrow> int \<Rightarrow> complex"

definition grid_read :: "memory \<Rightarrow> grid \<Rightarrow> int \<Rightarrow> int \<Rightarrow> complex" where
  "grid_read mem g iz ir =
     (case py_get g iz of
        None \<Rightarrow> mem g iz ir
      | Some row \<Rightarrow> (case py_get row ir of None \<Rightarrow> mem g iz ir | Some v \<Rightarrow> v))"

text \<open>A loop over a list of indices whose body may raise.\<close>

fun for_each :: "('a \<Rightarrow> 's \<Rightarrow> 's option) \<Rightarrow> 'a list \<Rightarrow> 's \<Rightarrow> 's option" where
  "for_each body [] s = Some s"
| "for_each body (a # as) s =
     (case body a s of None \<Rightarrow> None | Some s' \<Rightarrow> for_each body as s')"

subsection \<open>Geometry and the cylindrical conversion\<close>

record geometry =
  invdz :: real
  zmin :: real
  Nz :: int
  invdr :: real
  rmin :: real
  Nr :: int

text \<open>
  Lines 93--100 (and 257--264, 459--466, 602--609, the same text in each kernel):
  the radius and the cosine and sine of the angle of a particle.
\<close>

definition cyl_conv :: "real \<Rightarrow> real \<Rightarrow> real \<times> real \<times> real" where
  "cyl_conv xj yj =
     (let rj = sqrt (xj\<^sup>2 + yj\<^sup>2) in
      if rj \<noteq> 0 then (let invr = 1 / rj in (rj, xj * invr, yj * invr))
      else (rj, 1, 0))"

text \<open>Lines 107--108: the position of the particle in cell units.\<close>

definition r_cell :: "geometry \<Rightarrow> real \<Rightarrow> real" where
  "r_cell G rj = invdr G * (rj - rmin G) - 0.5"

definition z_cell :: "geometry \<Rightarrow> real \<Rightarrow> real" where
  "z_cell G zj = invdz G * (zj - zmin G) - 0.5"

subsection \<open>Linear shape\<close>

text \<open>
  Lines 110--118: the original indices of the lower and upper cell and the linear
  weights along one axis, \<open>(i_lower, i_upper, S_lower, S_upper)\<close>.
\<close>

definition linear_weights :: "real \<Rightarrow> int \<times> int \<times> real \<times> real" where
  "linear_weights c =
     (let i_lower = \<lfloor>c\<rfloor>;
          i_upper = i_lower + 1;
          S_lower = of_int i_upper - c;
          S_upper = c - of_int i_lower
      in (i_lower, i_upper, S_lower, S_upper))"

text \<open>
  Lines 119--133: the guard weight and the radial boundary treatment, returning
  \<open>(ir_lower, ir_upper, Sr_lower, Sr_guard)\<close>.
\<close>

definition radial_bounds :: "int \<Rightarrow> int \<Rightarrow> int \<Rightarrow> real \<Rightarrow> int \<times> int \<times> real \<times> real" where
  "radial_bounds nr ir_lower ir_upper Sr_lower =
     (let Sr_guard = 0;
          (Sr_guard, Sr_lower, ir_lower) =
             (if ir_lower < 0 then (Sr_lower, 0, 0) else (Sr_guard, Sr_lower, ir_lower));
          ir_lower = (if ir_lower > nr - 1 then nr - 1 else ir_lower);
          ir_upper = (if ir_upper > nr - 1 then nr - 1 else ir_upper)
      in (ir_lower, ir_upper, Sr_lower, Sr_guard))"

text \<open>
  Lines 134--144: the periodic boundary in z. Each index is shifted by \<open>Nz\<close> at most
  once in each direction; nothing is tested afterwards.
\<close>

definition axial_bounds :: "int \<Rightarrow> int \<Rightarrow> int \<Rightarrow> int \<times> int" where
  "axial_bounds nz iz_lower iz_upper =
     (let iz_lower = (if iz_lower < 0 then iz_lower + nz else iz_lower);
          iz_upper = (if iz_upper < 0 then iz_upper + nz else iz_upper);
          iz_lower = (if iz_lower > nz - 1 then iz_lower - nz else iz_lower);
          iz_upper = (if iz_upper > nz - 1 then iz_upper - nz else iz_upper)
      in (iz_lower, iz_upper))"

text \<open>
  The ten values that every call of the per-mode routine receives
  (\<open>iz_lower, iz_upper, ir_lower, ir_upper, S_ll, S_lu, S_lg, S_ul, S_uu, S_ug\<close>).
\<close>

record linear_stencil =
  iz_lower :: int
  iz_upper :: int
  ir_lower :: int
  ir_upper :: int
  S_ll :: real
  S_lu :: real
  S_lg :: real
  S_ul :: real
  S_uu :: real
  S_ug :: real

text \<open>Lines 107--152 (and 269--314): from the radius and z of a particle to its stencil.\<close>

definition linear_shape :: "geometry \<Rightarrow> real \<Rightarrow> real \<Rightarrow> linear_stencil" where
  "linear_shape G rj zj =
     (case linear_weights (r_cell G rj) of (ir_l, ir_u, Sr_lower, Sr_upper) \<Rightarrow>
      case linear_weights (z_cell G zj) of (iz_l, iz_u, Sz_lower, Sz_upper) \<Rightarrow>
      case radial_bounds (Nr G) ir_l ir_u Sr_lower of (ir_l, ir_u, Sr_lower, Sr_guard) \<Rightarrow>
      case axial_bounds (Nz G) iz_l iz_u of (iz_l, iz_u) \<Rightarrow>
        \<lparr> iz_lower = iz_l, iz_upper = iz_u, ir_lower = ir_l, ir_upper = ir_u,
          S_ll = Sz_lower * Sr_lower, S_lu = Sz_lower * Sr_upper,
          S_lg = Sz_lower * Sr_guard,
          S_ul = Sz_upper * Sr_lower, S_uu = Sz_upper * Sr_upper,
          S_ug = Sz_upper * Sr_guard \<rparr>)"

subsection \<open>Cubic shape\<close>

text \<open>
  Lines 477--488: the lowest index of the four-point stencil and the local coordinate,
  and the four values written to \<open>Sr[0..3]\<close> (or \<open>Sz[0..3]\<close>).
\<close>

definition cubic_lowest :: "real \<Rightarrow> int" where
  "cubic_lowest c = \<lfloor>c\<rfloor> - 1"

definition cubic_weights :: "real \<Rightarrow> real list" where
  "cubic_weights u =
     [ - 1 / 6 * (u - 2) ^ 3,
       1 / 6 * (3 * (u - 1) ^ 3 - 6 * (u - 1)\<^sup>2 + 4),
       1 / 6 * (3 * (2 - u) ^ 3 - 6 * (2 - u)\<^sup>2 + 4),
       - 1 / 6 * (1 - u) ^ 3 ]"

text \<open>
  The four assignments \<open>S[0] = ..., S[1] = ..., S[2] = ..., S[3] = ...\<close> into the
  scratch array of the thread.
\<close>

definition write_weights :: "real list \<Rightarrow> real list \<Rightarrow> real list option" where
  "write_weights S ws = do {
     S \<leftarrow> py_set S 0 (ws ! 0);
     S \<leftarrow> py_set S 1 (ws ! 1);
     S \<leftarrow> py_set S 2 (ws ! 2);
     py_set S 3 (ws ! 3) }"

subsection \<open>The per-mode routines\<close>

text \<open>
  The kernels add the contribution of one azimuthal mode through four routines imported
  from \<open>inline_functions\<close>, a module that is not among the sources. The kernels are
  embedded with the routine as a parameter, any function of the arguments that the
  kernel hands over; a routine that gives no result has the value \<open>None\<close>.
\<close>

type_synonym vec3 = "real \<times> real \<times> real"

type_synonym grid3 = "grid \<times> grid \<times> grid"

type_synonym linear_mode_gather =
  "int \<Rightarrow> vec3 \<Rightarrow> complex \<Rightarrow> grid3 \<Rightarrow> linear_stencil \<Rightarrow> vec3 option"

type_synonym linear_envelope_mode_gather =
  "int \<Rightarrow> complex \<Rightarrow> complex \<Rightarrow> grid \<Rightarrow> linear_stencil \<Rightarrow> complex option"

type_synonym cubic_mode_gather =
  "int \<Rightarrow> vec3 \<Rightarrow> complex \<Rightarrow> grid3 \<Rightarrow> int \<Rightarrow> int \<Rightarrow> real list \<Rightarrow> real list \<Rightarrow> int \<Rightarrow> int
     \<Rightarrow> vec3 option"

type_synonym cubic_envelope_mode_gather =
  "int \<Rightarrow> complex \<Rightarrow> complex \<Rightarrow> grid \<Rightarrow> int \<Rightarrow> int \<Rightarrow> real list \<Rightarrow> real list \<Rightarrow> int \<Rightarrow> int
     \<Rightarrow> complex option"

text \<open>
  Modelled from the spec: the sum over the stencil that \<open>add_linear_gather_for_mode\<close>
  and \<open>add_linear_envelope_gather_for_mode\<close> of \<open>inline_functions\<close> compute; that
  module is not among the sources. The spec (4.3): the running sum becomes
  \<open>sum + phase_factor * \<Sum> (weight_point * grid_value_at_point)\<close>, summed over all
  stencil points; (4.1) the weight of a point below the axis is dropped, not
  reflected, so the guard weights \<open>S_lg\<close>, \<open>S_ug\<close> are not used. The grid values
  are read with \<open>grid_read\<close>: the routine is compiled (lines 19--22) and tests no
  index, so the sum is defined for every stencil, also one that points outside the grid.
\<close>

definition linear_stencil_sum :: "memory \<Rightarrow> grid \<Rightarrow> linear_stencil \<Rightarrow> complex" where
  "linear_stencil_sum mem g st =
     of_real (S_ll st) * grid_read mem g (iz_lower st) (ir_lower st)
     + of_real (S_lu st) * grid_read mem g (iz_lower st) (ir_upper st)
     + of_real (S_ul st) * grid_read mem g (iz_upper st) (ir_lower st)
     + of_real (S_uu st) * grid_read mem g (iz_upper st) (ir_upper st)"

text \<open>
  Modelled from the spec: \<open>add_linear_envelope_gather_for_mode\<close> (missing from the
  sources). The running sum \<open>F\<close> gets the phase factor times the sum over the stencil.
\<close>

definition add_linear_envelope_gather_for_mode :: "memory \<Rightarrow> linear_envelope_mode_gather" where
  "add_linear_envelope_gather_for_mode mem m F exptheta_m a_m st =
     Some (F + exptheta_m * linear_stencil_sum mem a_m st)"

text \<open>
  Modelled from the spec: \<open>add_linear_gather_for_mode\<close> (missing from the sources). For
  the vector fields three running sums are kept, one per component. The sums of the
  kernel are floats, written to arrays of floats, so the real part of the contribution
  of the spec is what is added.
\<close>

definition add_linear_gather_for_mode :: "memory \<Rightarrow> linear_mode_gather" where
  "add_linear_gather_for_mode mem m F exptheta_m grids st =
     (case F of (Fr, Ft, Fz) \<Rightarrow> case grids of (Fr_grid, Ft_grid, Fz_grid) \<Rightarrow>
        Some (Fr + Re (exptheta_m * linear_stencil_sum mem Fr_grid st),
              Ft + Re (exptheta_m * linear_stencil_sum mem Ft_grid st),
              Fz + Re (exptheta_m * linear_stencil_sum mem Fz_grid st)))"

text \<open>
  Modelled from the spec: one term of the sum that \<open>add_cubic_gather_for_mode\<close> and
  \<open>add_cubic_envelope_gather_for_mode\<close> of \<open>inline_functions\<close> compute. The sixteen
  stencil points are \<open>(iz_lowest + k, ir_lowest + l)\<close> with weight \<open>Sz[k] * Sr[l]\<close>; the
  spec (4.1) clamps a radial index to \<open>Nr - 1\<close> at the outer edge, and has no branch at
  the axis and no axial wraparound for the cubic order. The grid value is read with
  \<open>grid_read\<close>, the routine being compiled (lines 20--24); the weights are read from
  the scratch arrays, which have four entries in every call of the kernels.
\<close>

definition cubic_point :: "memory \<Rightarrow> grid \<Rightarrow> int \<Rightarrow> int \<Rightarrow> real list \<Rightarrow> real list
     \<Rightarrow> int \<Rightarrow> int \<times> int \<Rightarrow> complex option" where
  "cubic_point mem g ir_lowest iz_lowest Sr Sz nr kl =
     (case kl of (k, l) \<Rightarrow> do {
        wz \<leftarrow> py_get Sz k;
        wr \<leftarrow> py_get Sr l;
        Some (of_real (wz * wr)
              * grid_read mem g (iz_lowest + k) (min (ir_lowest + l) (nr - 1))) })"

text \<open>
  Modelled from the spec: the sum over all stencil points, which has no value only when
  a scratch array has fewer than four entries.
\<close>

fun sum_options :: "complex option list \<Rightarrow> complex option" where
  "sum_options [] = Some 0"
| "sum_options (v # vs) = do { a \<leftarrow> v; b \<leftarrow> sum_options vs; Some (a + b) }"

text \<open>
  Modelled from the spec: the sum \<open>\<Sum> (weight_point * grid_value_at_point)\<close> over the
  four by four points of the cubic stencil.
\<close>

definition cubic_stencil_sum :: "memory \<Rightarrow> grid \<Rightarrow> int \<Rightarrow> int \<Rightarrow> real list
     \<Rightarrow> real list \<Rightarrow> int \<Rightarrow> complex option" where
  "cubic_stencil_sum mem g ir_lowest iz_lowest Sr Sz nr =
     sum_options (map (cubic_point mem g ir_lowest iz_lowest Sr Sz nr)
       (List.product [0, 1, 2, 3] [0, 1, 2, 3]))"

text \<open>
  Modelled from the spec: \<open>add_cubic_envelope_gather_for_mode\<close> (missing from the
  sources); \<open>nz\<close> is not used, the cubic order having no axial wraparound.
\<close>

definition add_cubic_envelope_gather_for_mode :: "memory \<Rightarrow> cubic_envelope_mode_gather" where
  "add_cubic_envelope_gather_for_mode mem m F exptheta_m a_m ir_lowest iz_lowest Sr Sz nr nz = do {
     s \<leftarrow> cubic_stencil_sum mem a_m ir_lowest iz_lowest Sr Sz nr;
     Some (F + exptheta_m * s) }"

text \<open>
  Modelled from the spec: \<open>add_cubic_gather_for_mode\<close> (missing from the sources), with
  three real running sums as in the linear case.
\<close>

definition add_cubic_gather_for_mode :: "memory \<Rightarrow> cubic_mode_gather" where
  "add_cubic_gather_for_mode mem m F exptheta_m grids ir_lowest iz_lowest Sr Sz nr nz =
     (case F of (Fr, Ft, Fz) \<Rightarrow> case grids of (Fr_grid, Ft_grid, Fz_grid) \<Rightarrow> do {
        sr \<leftarrow> cubic_stencil_sum mem Fr_grid ir_lowest iz_lowest Sr Sz nr;
        st' \<leftarrow> cubic_stencil_sum mem Ft_grid ir_lowest iz_lowest Sr Sz nr;
        sz \<leftarrow> cubic_stencil_sum mem Fz_grid ir_lowest iz_lowest Sr Sz nr;
        Some (Fr + Re (exptheta_m * sr), Ft + Re (exptheta_m * st'), Fz + Re (exptheta_m * sz)) })"

subsection \<open>gather_field_numba_linear\<close>

record eb_grids =
  Er_m0 :: grid
  Et_m0 :: grid
  Ez_m0 :: grid
  Er_m1 :: grid
  Et_m1 :: grid
  Ez_m1 :: grid
  Br_m0 :: grid
  Bt_m0 :: grid
  Bz_m0 :: grid
  Br_m1 :: grid
  Bt_m1 :: grid
  Bz_m1 :: grid

text \<open>The six arrays that the kernel modifies; they are taken to be distinct arrays.\<close>

text \<open>The names of the arrays carry a suffix: \<open>Ex\<close> is a constant of HOL.\<close>

record eb_out =
  Ex_out :: "real list"
  Ey_out :: "real list"
  Ez_out :: "real list"
  Bx_out :: "real list"
  By_out :: "real list"
  Bz_out :: "real list"

text \<open>Lines 102: \<open>exptheta_m1 = cos - 1.j*sin\<close>.\<close>

definition exptheta1 :: "real \<Rightarrow> real \<Rightarrow> complex" where
  "exptheta1 cs sn = of_real cs - \<i> * of_real sn"

text \<open>Lines 88--196, the body of the loop for the particle \<open>i\<close>.\<close>

definition gather_linear_body :: "linear_mode_gather \<Rightarrow> geometry \<Rightarrow> eb_grids
     \<Rightarrow> real list \<Rightarrow> real list \<Rightarrow> real list \<Rightarrow> int \<Rightarrow> eb_out \<Rightarrow> eb_out option" where
  "gather_linear_body add G g x y z i out = do {
     xj \<leftarrow> py_get x i;
     yj \<leftarrow> py_get y i;
     zj \<leftarrow> py_get z i;
     (rj, cs, sn) \<leftarrow> Some (cyl_conv xj yj);
     let exptheta_m0 = 1;
     let exptheta_m1 = exptheta1 cs sn;
     let st = linear_shape G rj zj;
     F \<leftarrow> add 0 (0, 0, 0) exptheta_m0 (Er_m0 g, Et_m0 g, Ez_m0 g) st;
     (Fr, Ft, Fz) \<leftarrow> add 1 F exptheta_m1 (Er_m1 g, Et_m1 g, Ez_m1 g) st;
     ex' \<leftarrow> py_set (Ex_out out) i (cs * Fr - sn * Ft);
     ey' \<leftarrow> py_set (Ey_out out) i (sn * Fr + cs * Ft);
     ez' \<leftarrow> py_set (Ez_out out) i Fz;
     F \<leftarrow> add 0 (0, 0, 0) exptheta_m0 (Br_m0 g, Bt_m0 g, Bz_m0 g) st;
     (Fr, Ft, Fz) \<leftarrow> add 1 F exptheta_m1 (Br_m1 g, Bt_m1 g, Bz_m1 g) st;
     bx' \<leftarrow> py_set (Bx_out out) i (cs * Fr - sn * Ft);
     by' \<leftarrow> py_set (By_out out) i (sn * Fr + cs * Ft);
     bz' \<leftarrow> py_set (Bz_out out) i Fz;
     Some \<lparr> Ex_out = ex', Ey_out = ey', Ez_out = ez', Bx_out = bx', By_out = by', Bz_out = bz' \<rparr> }"

text \<open>Line 84: \<open>for i in prange(x.shape[0])\<close>, run in the order of the indices.\<close>

definition gather_field_numba_linear :: "linear_mode_gather \<Rightarrow> geometry \<Rightarrow> eb_grids
     \<Rightarrow> real list \<Rightarrow> real list \<Rightarrow> real list \<Rightarrow> eb_out \<Rightarrow> eb_out option" where
  "gather_field_numba_linear add G g x y z out =
     for_each (gather_linear_body add G g x y z) [0 .. int (length x) - 1] out"

subsection \<open>gather_envelope_field_numba_linear\<close>

text \<open>The grids of all modes, indexed by the mode: arrays of dimension \<open>(2*Nm-1, Nz, Nr)\<close>.\<close>

record envelope_grids =
  a_grids :: "grid list"
  grad_a_r :: "grid list"
  grad_a_t :: "grid list"
  grad_a_z :: "grid list"

record envelope_out =
  a2_out :: "real list"
  grad_a2_x :: "real list"
  grad_a2_y :: "real list"
  grad_a2_z :: "real list"

text \<open>Lines 330--332: the complex factor of the mode \<open>m\<close>.\<close>

definition exptheta :: "real \<Rightarrow> real \<Rightarrow> int \<Rightarrow> complex" where
  "exptheta cs sn m =
     (let exptheta_m = (of_real cs - \<i> * of_real sn) ^ nat \<bar>m\<bar> in
      if m < 0 then cnj exptheta_m else exptheta_m)"

text \<open>
  Lines 323--350, the body of the loop over the modes. The running sums are
  \<open>(F, Fr, Ft, Fz)\<close>; without \<open>gather_gradient\<close> the source leaves \<open>Fr, Ft, Fz\<close>
  unassigned and never reads them, and the model carries them unchanged.
\<close>

definition envelope_mode_linear :: "linear_envelope_mode_gather \<Rightarrow> envelope_grids \<Rightarrow> bool
     \<Rightarrow> real \<Rightarrow> real \<Rightarrow> linear_stencil \<Rightarrow> int
     \<Rightarrow> complex \<times> complex \<times> complex \<times> complex \<Rightarrow> (complex \<times> complex \<times> complex \<times> complex) option" where
  "envelope_mode_linear add g gather_gradient cs sn st m acc =
     (case acc of (F, Fr, Ft, Fz) \<Rightarrow> do {
        a_m \<leftarrow> py_get (a_grids g) m;
        grads \<leftarrow> (if gather_gradient then do {
                    grad_a_r_m \<leftarrow> py_get (grad_a_r g) m;
                    grad_a_t_m \<leftarrow> py_get (grad_a_t g) m;
                    grad_a_z_m \<leftarrow> py_get (grad_a_z g) m;
                    Some (grad_a_r_m, grad_a_t_m, grad_a_z_m) }
                  else Some ([], [], []));
        let exptheta_m = exptheta cs sn m;
        F \<leftarrow> add m F exptheta_m a_m st;
        if gather_gradient then
          (case grads of (grad_a_r_m, grad_a_t_m, grad_a_z_m) \<Rightarrow> do {
             Fr \<leftarrow> add m Fr exptheta_m grad_a_r_m st;
             Ft \<leftarrow> add m Ft exptheta_m grad_a_t_m st;
             Fz \<leftarrow> add m Fz exptheta_m grad_a_z_m st;
             Some (F, Fr, Ft, Fz) })
        else Some (F, Fr, Ft, Fz) })"

text \<open>
  Lines 352--371 (and 662--681): the conversion to \<open>a^2\<close> and its gradient and the
  writes to the particle arrays. \<open>F2\<close> is the value of \<open>F\<close> after \<open>F = F * F.conjugate()\<close>;
  the gradient is converted with the value of \<open>F\<close> before that assignment, as in the
  source, where the conversion comes first.
\<close>

definition envelope_store :: "bool \<Rightarrow> bool \<Rightarrow> real \<Rightarrow> real \<Rightarrow> int
     \<Rightarrow> complex \<times> complex \<times> complex \<times> complex \<Rightarrow> envelope_out \<Rightarrow> envelope_out option" where
  "envelope_store gather_gradient average_a2 cs sn i acc out =
     (case acc of (F, Fr, Ft, Fz) \<Rightarrow> do {
        let F2 = F * cnj F;
        out \<leftarrow> (if gather_gradient then do {
                  let Fx = of_real cs * Fr - of_real sn * Ft;
                  let Fy = of_real sn * Fr + of_real cs * Ft;
                  let Fx' = 2 * Re (Fx * cnj F);
                  let Fy' = 2 * Re (Fy * cnj F);
                  let Fz' = 2 * Re (Fz * cnj F);
                  gx \<leftarrow> py_set (grad_a2_x out) i Fx';
                  gy \<leftarrow> py_set (grad_a2_y out) i Fy';
                  gz \<leftarrow> py_set (grad_a2_z out) i Fz';
                  Some (out \<lparr> grad_a2_x := gx, grad_a2_y := gy, grad_a2_z := gz \<rparr>) }
                else Some out);
        if average_a2 then do {
          old \<leftarrow> py_get (a2_out out) i;
          new \<leftarrow> py_set (a2_out out) i (Re (0.5 * (of_real old + F2)));
          Some (out \<lparr> a2_out := new \<rparr>) }
        else do {
          new \<leftarrow> py_set (a2_out out) i (Re F2);
          Some (out \<lparr> a2_out := new \<rparr>) } })"

text \<open>Lines 249--371, the body of the loop for the particle \<open>i\<close>.\<close>

definition gather_envelope_linear_body :: "linear_envelope_mode_gather \<Rightarrow> geometry
     \<Rightarrow> envelope_grids \<Rightarrow> int list \<Rightarrow> bool \<Rightarrow> bool
     \<Rightarrow> real list \<Rightarrow> real list \<Rightarrow> real list \<Rightarrow> int \<Rightarrow> envelope_out \<Rightarrow> envelope_out option" where
  "gather_envelope_linear_body add G g m_array gather_gradient average_a2 x y z i out = do {
     xj \<leftarrow> py_get x i;
     yj \<leftarrow> py_get y i;
     zj \<leftarrow> py_get z i;
     (rj, cs, sn) \<leftarrow> Some (cyl_conv xj yj);
     let st = linear_shape G rj zj;
     acc \<leftarrow> for_each (envelope_mode_linear add g gather_gradient cs sn st) m_array (0, 0, 0, 0);
     envelope_store gather_gradient average_a2 cs sn i acc out }"

definition gather_envelope_field_numba_linear :: "linear_envelope_mode_gather \<Rightarrow> geometry
     \<Rightarrow> envelope_grids \<Rightarrow> int list \<Rightarrow> real list \<Rightarrow> real list \<Rightarrow> real list
     \<Rightarrow> envelope_out \<Rightarrow> bool \<Rightarrow> bool \<Rightarrow> envelope_out option" where
  "gather_envelope_field_numba_linear add G g m_array x y z out gather_gradient average_a2 =
     for_each (gather_envelope_linear_body add G g m_array gather_gradient average_a2 x y z)
       [0 .. int (length x) - 1] out"

subsection \<open>gather_field_numba_cubic\<close>

text \<open>
  \<open>np.empty(4)\<close>: an array of length 4 whose contents are whatever the memory holds,
  here the values of an arbitrary function.
\<close>

definition np_empty :: "(nat \<Rightarrow> real) \<Rightarrow> nat \<Rightarrow> real list" where
  "np_empty junk n = map junk [0 ..< n]"

text \<open>
  Lines 473--488 (and 614--629): the shape factors are written into the scratch arrays
  \<open>Sr\<close>, \<open>Sz\<close> of the thread; the result is \<open>(ir_lowest, iz_lowest, Sr, Sz)\<close>.
\<close>

definition cubic_shape :: "geometry \<Rightarrow> real \<Rightarrow> real \<Rightarrow> real list \<Rightarrow> real list
     \<Rightarrow> (int \<times> int \<times> real list \<times> real list) option" where
  "cubic_shape G rj zj Sr Sz = do {
     let rc = r_cell G rj;
     let zc = z_cell G zj;
     let ir_lowest = cubic_lowest rc;
     let r_local = rc - of_int ir_lowest;
     Sr \<leftarrow> write_weights Sr (cubic_weights r_local);
     let iz_lowest = cubic_lowest zc;
     let z_local = zc - of_int iz_lowest;
     Sz \<leftarrow> write_weights Sz (cubic_weights z_local);
     Some (ir_lowest, iz_lowest, Sr, Sz) }"

text \<open>
  Lines 454--528, the body of the inner loop for the particle \<open>i\<close>; the state is the
  scratch arrays of the thread and the output arrays.
\<close>

definition gather_cubic_body :: "cubic_mode_gather \<Rightarrow> geometry \<Rightarrow> eb_grids
     \<Rightarrow> real list \<Rightarrow> real list \<Rightarrow> real list \<Rightarrow> int
     \<Rightarrow> real list \<times> real list \<times> eb_out \<Rightarrow> (real list \<times> real list \<times> eb_out) option" where
  "gather_cubic_body add G g x y z i s =
     (case s of (Sr, Sz, out) \<Rightarrow> do {
        xj \<leftarrow> py_get x i;
        yj \<leftarrow> py_get y i;
        zj \<leftarrow> py_get z i;
        (rj, cs, sn) \<leftarrow> Some (cyl_conv xj yj);
        let exptheta_m0 = 1;
        let exptheta_m1 = exptheta1 cs sn;
        (ir_lowest, iz_lowest, Sr, Sz) \<leftarrow> cubic_shape G rj zj Sr Sz;
        F \<leftarrow> add 0 (0, 0, 0) exptheta_m0 (Er_m0 g, Et_m0 g, Ez_m0 g)
               ir_lowest iz_lowest Sr Sz (Nr G) (Nz G);
        (Fr, Ft, Fz) \<leftarrow> add 1 F exptheta_m1 (Er_m1 g, Et_m1 g, Ez_m1 g)
               ir_lowest iz_lowest Sr Sz (Nr G) (Nz G);
        ex' \<leftarrow> py_set (Ex_out out) i (cs * Fr - sn * Ft);
        ey' \<leftarrow> py_set (Ey_out out) i (sn * Fr + cs * Ft);
        ez' \<leftarrow> py_set (Ez_out out) i Fz;
        F \<leftarrow> add 0 (0, 0, 0) exptheta_m0 (Br_m0 g, Bt_m0 g, Bz_m0 g)
               ir_lowest iz_lowest Sr Sz (Nr G) (Nz G);
        (Fr, Ft, Fz) \<leftarrow> add 1 F exptheta_m1 (Br_m1 g, Bt_m1 g, Bz_m1 g)
               ir_lowest iz_lowest Sr Sz (Nr G) (Nz G);
        bx' \<leftarrow> py_set (Bx_out out) i (cs * Fr - sn * Ft);
        by' \<leftarrow> py_set (By_out out) i (sn * Fr + cs * Ft);
        bz' \<leftarrow> py_set (Bz_out out) i Fz;
        Some (Sr, Sz, \<lparr> Ex_out = ex', Ey_out = ey', Ez_out = ez', Bx_out = bx', By_out = by', Bz_out = bz' \<rparr>) })"

text \<open>
  Lines 442--449: the work of the thread \<open>nt\<close>. It allocates its scratch arrays and
  loops over \<open>range(ptcl_chunk_indices[nt], ptcl_chunk_indices[nt+1])\<close>; the scratch
  arrays are dropped at the end. \<open>junk nt\<close> gives the contents of the fresh arrays.
\<close>

definition gather_cubic_chunk :: "cubic_mode_gather \<Rightarrow> geometry \<Rightarrow> eb_grids
     \<Rightarrow> real list \<Rightarrow> real list \<Rightarrow> real list \<Rightarrow> (int \<Rightarrow> (nat \<Rightarrow> real) \<times> (nat \<Rightarrow> real)) \<Rightarrow> int list
     \<Rightarrow> int \<Rightarrow> eb_out \<Rightarrow> eb_out option" where
  "gather_cubic_chunk add G g x y z junk ptcl_chunk_indices nt out = do {
     let Sr = np_empty (fst (junk nt)) 4;
     let Sz = np_empty (snd (junk nt)) 4;
     lo \<leftarrow> py_get ptcl_chunk_indices nt;
     hi \<leftarrow> py_get ptcl_chunk_indices (nt + 1);
     (Sr, Sz, out) \<leftarrow> for_each (gather_cubic_body add G g x y z) [lo .. hi - 1] (Sr, Sz, out);
     Some out }"

text \<open>Line 440: \<open>for nt in prange(nthreads)\<close>, the threads run one after the other.\<close>

definition gather_field_numba_cubic :: "cubic_mode_gather \<Rightarrow> geometry \<Rightarrow> eb_grids
     \<Rightarrow> real list \<Rightarrow> real list \<Rightarrow> real list \<Rightarrow> eb_out
     \<Rightarrow> (int \<Rightarrow> (nat \<Rightarrow> real) \<times> (nat \<Rightarrow> real)) \<Rightarrow> int \<Rightarrow> int list \<Rightarrow> eb_out option" where
  "gather_field_numba_cubic add G g x y z out junk nthreads ptcl_chunk_indices =
     for_each (gather_cubic_chunk add G g x y z junk ptcl_chunk_indices) [0 .. nthreads - 1] out"

subsection \<open>gather_envelope_field_numba_cubic\<close>

text \<open>Lines 639--660, the body of the loop over the modes.\<close>

definition envelope_mode_cubic :: "cubic_envelope_mode_gather \<Rightarrow> geometry \<Rightarrow> envelope_grids
     \<Rightarrow> bool \<Rightarrow> real \<Rightarrow> real \<Rightarrow> int \<Rightarrow> int \<Rightarrow> real list \<Rightarrow> real list \<Rightarrow> int
     \<Rightarrow> complex \<times> complex \<times> complex \<times> complex \<Rightarrow> (complex \<times> complex \<times> complex \<times> complex) option" where
  "envelope_mode_cubic add G g gather_gradient cs sn ir_lowest iz_lowest Sr Sz m acc =
     (case acc of (F, Fr, Ft, Fz) \<Rightarrow> do {
        a_m \<leftarrow> py_get (a_grids g) m;
        grads \<leftarrow> (if gather_gradient then do {
                    grad_a_r_m \<leftarrow> py_get (grad_a_r g) m;
                    grad_a_t_m \<leftarrow> py_get (grad_a_t g) m;
                    grad_a_z_m \<leftarrow> py_get (grad_a_z g) m;
                    Some (grad_a_r_m, grad_a_t_m, grad_a_z_m) }
                  else Some ([], [], []));
        let exptheta_m = exptheta cs sn m;
        F \<leftarrow> add m F exptheta_m a_m ir_lowest iz_lowest Sr Sz (Nr G) (Nz G);
        if gather_gradient then
          (case grads of (grad_a_r_m, grad_a_t_m, grad_a_z_m) \<Rightarrow> do {
             Fr \<leftarrow> add m Fr exptheta_m grad_a_r_m ir_lowest iz_lowest Sr Sz (Nr G) (Nz G);
             Ft \<leftarrow> add m Ft exptheta_m grad_a_t_m ir_lowest iz_lowest Sr Sz (Nr G) (Nz G);
             Fz \<leftarrow> add m Fz exptheta_m grad_a_z_m ir_lowest iz_lowest Sr Sz (Nr G) (Nz G);
             Some (F, Fr, Ft, Fz) })
        else Some (F, Fr, Ft, Fz) })"

text \<open>Lines 597--681, the body of the inner loop for the particle \<open>i\<close>.\<close>

definition gather_envelope_cubic_body :: "cubic_envelope_mode_gather \<Rightarrow> geometry
     \<Rightarrow> envelope_grids \<Rightarrow> int list \<Rightarrow> bool \<Rightarrow> bool
     \<Rightarrow> real list \<Rightarrow> real list \<Rightarrow> real list \<Rightarrow> int
     \<Rightarrow> real list \<times> real list \<times> envelope_out \<Rightarrow> (real list \<times> real list \<times> envelope_out) option" where
  "gather_envelope_cubic_body add G g m_array gather_gradient average_a2 x y z i s =
     (case s of (Sr, Sz, out) \<Rightarrow> do {
        xj \<leftarrow> py_get x i;
        yj \<leftarrow> py_get y i;
        zj \<leftarrow> py_get z i;
        (rj, cs, sn) \<leftarrow> Some (cyl_conv xj yj);
        (ir_lowest, iz_lowest, Sr, Sz) \<leftarrow> cubic_shape G rj zj Sr Sz;
        acc \<leftarrow> for_each (envelope_mode_cubic add G g gather_gradient cs sn ir_lowest iz_lowest Sr Sz)
                 m_array (0, 0, 0, 0);
        out \<leftarrow> envelope_store gather_gradient average_a2 cs sn i acc out;
        Some (Sr, Sz, out) })"

definition gather_envelope_cubic_chunk :: "cubic_envelope_mode_gather \<Rightarrow> geometry
     \<Rightarrow> envelope_grids \<Rightarrow> int list \<Rightarrow> bool \<Rightarrow> bool
     \<Rightarrow> real list \<Rightarrow> real list \<Rightarrow> real list \<Rightarrow> (int \<Rightarrow> (nat \<Rightarrow> real) \<times> (nat \<Rightarrow> real)) \<Rightarrow> int list
     \<Rightarrow> int \<Rightarrow> envelope_out \<Rightarrow> envelope_out option" where
  "gather_envelope_cubic_chunk add G g m_array gather_gradient average_a2 x y z junk
       ptcl_chunk_indices nt out = do {
     let Sr = np_empty (fst (junk nt)) 4;
     let Sz = np_empty (snd (junk nt)) 4;
     lo \<leftarrow> py_get ptcl_chunk_indices nt;
     hi \<leftarrow> py_get ptcl_chunk_indices (nt + 1);
     (Sr, Sz, out) \<leftarrow>
        for_each (gather_envelope_cubic_body add G g m_array gather_gradient average_a2 x y z)
          [lo .. hi - 1] (Sr, Sz, out);
     Some out }"

definition gather_envelope_field_numba_cubic :: "cubic_envelope_mode_gather \<Rightarrow> geometry
     \<Rightarrow> envelope_grids \<Rightarrow> int list \<Rightarrow> real list \<Rightarrow> real list \<Rightarrow> real list \<Rightarrow> envelope_out
     \<Rightarrow> (int \<Rightarrow> (nat \<Rightarrow> real) \<times> (nat \<Rightarrow> real)) \<Rightarrow> int \<Rightarrow> int list \<Rightarrow> bool \<Rightarrow> bool
     \<Rightarrow> envelope_out option" where
  "gather_envelope_field_numba_cubic add G g m_array x y z out junk nthreads ptcl_chunk_indices
       gather_gradient average_a2 =
     for_each (gather_envelope_cubic_chunk add G g m_array gather_gradient average_a2 x y z junk
                 ptcl_chunk_indices) [0 .. nthreads - 1] out"

subsection \<open>Preconditions and running sums\<close>

text \<open>
  The docstring asks for \<open>ptcl_chunk_indices\<close> of size \<open>nthreads + 1\<close>, the indices
  between which each thread loops: a division of the particles \<open>[0, N)\<close> into
  contiguous ranges.
\<close>

definition chunk_partition :: "int list \<Rightarrow> int \<Rightarrow> int \<Rightarrow> bool" where
  "chunk_partition ptcl_chunk_indices nthreads N \<longleftrightarrow>
     0 \<le> nthreads \<and> int (length ptcl_chunk_indices) = nthreads + 1
     \<and> ptcl_chunk_indices ! 0 = 0 \<and> ptcl_chunk_indices ! nat nthreads = N
     \<and> sorted ptcl_chunk_indices"

text \<open>
  Lines 156--168 and 179--191 (linear), 492--502 and 513--523 (cubic): the running sums
  \<open>(Fr, Ft, Fz)\<close> of one vector field after the modes 0 and 1, named here to state
  what the kernels write.
\<close>

definition linear_sums :: "linear_mode_gather \<Rightarrow> grid3 \<Rightarrow> grid3 \<Rightarrow> real \<Rightarrow> real
     \<Rightarrow> linear_stencil \<Rightarrow> vec3 option" where
  "linear_sums add g0 g1 cs sn st = do {
     F \<leftarrow> add 0 (0, 0, 0) 1 g0 st;
     add 1 F (exptheta1 cs sn) g1 st }"

definition cubic_sums :: "cubic_mode_gather \<Rightarrow> grid3 \<Rightarrow> grid3 \<Rightarrow> real \<Rightarrow> real
     \<Rightarrow> int \<Rightarrow> int \<Rightarrow> real list \<Rightarrow> real list \<Rightarrow> int \<Rightarrow> int \<Rightarrow> vec3 option" where
  "cubic_sums add g0 g1 cs sn ir_lowest iz_lowest Sr Sz nr nz = do {
     F \<leftarrow> add 0 (0, 0, 0) 1 g0 ir_lowest iz_lowest Sr Sz nr nz;
     add 1 F (exptheta1 cs sn) g1 ir_lowest iz_lowest Sr Sz nr nz }"

text \<open>
  The six values that the cubic kernel computes for a particle at \<open>(xj, yj, zj)\<close>, as a
  function of the position and the grids alone: the shape factors of lines 477--488
  without the scratch arrays, the sums and the conversion to Cartesian components.
\<close>

definition cubic_particle_fields :: "cubic_mode_gather \<Rightarrow> geometry \<Rightarrow> eb_grids
     \<Rightarrow> real \<Rightarrow> real \<Rightarrow> real \<Rightarrow> (real \<times> real \<times> real \<times> real \<times> real \<times> real) option" where
  "cubic_particle_fields add G g xj yj zj =
     (case cyl_conv xj yj of (rj, cs, sn) \<Rightarrow> do {
        let ir_lowest = cubic_lowest (r_cell G rj);
        let iz_lowest = cubic_lowest (z_cell G zj);
        let Sr = cubic_weights (r_cell G rj - of_int ir_lowest);
        let Sz = cubic_weights (z_cell G zj - of_int iz_lowest);
        (Fr, Ft, Fz) \<leftarrow> cubic_sums add (Er_m0 g, Et_m0 g, Ez_m0 g) (Er_m1 g, Et_m1 g, Ez_m1 g)
                         cs sn ir_lowest iz_lowest Sr Sz (Nr G) (Nz G);
        (Gr, Gt, Gz) \<leftarrow> cubic_sums add (Br_m0 g, Bt_m0 g, Bz_m0 g) (Br_m1 g, Bt_m1 g, Bz_m1 g)
                         cs sn ir_lowest iz_lowest Sr Sz (Nr G) (Nz G);
        Some (cs * Fr - sn * Ft, sn * Fr + cs * Ft, Fz, cs * Gr - sn * Gt, sn * Gr + cs * Gt, Gz) })"

text \<open>
  Lines 256--350 and 601--660: the running sums \<open>(F, Fr, Ft, Fz)\<close> of the envelope
  kernels for a particle at \<open>(xj, yj, zj)\<close> after the loop over the modes.
\<close>

definition envelope_linear_sums :: "linear_envelope_mode_gather \<Rightarrow> geometry \<Rightarrow> envelope_grids
     \<Rightarrow> int list \<Rightarrow> bool \<Rightarrow> real \<Rightarrow> real \<Rightarrow> real
     \<Rightarrow> (complex \<times> complex \<times> complex \<times> complex) option" where
  "envelope_linear_sums add G g m_array gather_gradient xj yj zj =
     (case cyl_conv xj yj of (rj, cs, sn) \<Rightarrow>
        for_each (envelope_mode_linear add g gather_gradient cs sn (linear_shape G rj zj))
          m_array (0, 0, 0, 0))"

definition envelope_cubic_sums :: "cubic_envelope_mode_gather \<Rightarrow> geometry \<Rightarrow> envelope_grids
     \<Rightarrow> int list \<Rightarrow> bool \<Rightarrow> real \<Rightarrow> real \<Rightarrow> real \<Rightarrow> real list \<Rightarrow> real list
     \<Rightarrow> (complex \<times> complex \<times> complex \<times> complex) option" where
  "envelope_cubic_sums add G g m_array gather_gradient xj yj zj Sr Sz =
     (case cyl_conv xj yj of (rj, cs, sn) \<Rightarrow> do {
        (ir_lowest, iz_lowest, Sr, Sz) \<leftarrow> cubic_shape G rj zj Sr Sz;
        for_each (envelope_mode_cubic add G g gather_gradient cs sn ir_lowest iz_lowest Sr Sz)
          m_array (0, 0, 0, 0) })"

subsection \<open>Concrete inputs\<close>

text \<open>A grid of four by four cells of unit size, and a field that is uniform on it.\<close>

definition example_geometry :: geometry where
  "example_geometry = \<lparr> invdz = 1, zmin = 0, Nz = 4, invdr = 1, rmin = 0, Nr = 4 \<rparr>"

definition uniform_grid :: "complex \<Rightarrow> grid" where
  "uniform_grid v = [[v, v, v, v], [v, v, v, v], [v, v, v, v], [v, v, v, v]]"

definition example_eb_grids :: eb_grids where
  "example_eb_grids =
     \<lparr> Er_m0 = uniform_grid 2, Et_m0 = uniform_grid 0, Ez_m0 = uniform_grid 0,
       Er_m1 = uniform_grid 0, Et_m1 = uniform_grid 0, Ez_m1 = uniform_grid 0,
       Br_m0 = uniform_grid 0, Bt_m0 = uniform_grid 0, Bz_m0 = uniform_grid 0,
       Br_m1 = uniform_grid 0, Bt_m1 = uniform_grid 0, Bz_m1 = uniform_grid 0 \<rparr>"

text \<open>What the memory outside the grids holds in the examples.\<close>

definition example_memory :: memory where
  "example_memory g iz ir = 2"

definition example_eb_out :: eb_out where
  "example_eb_out = \<lparr> Ex_out = [9], Ey_out = [9], Ez_out = [9], Bx_out = [9], By_out = [9], Bz_out = [9] \<rparr>"

text \<open>
  Two particles at radius 2, one on the x axis and one on the y axis, in the middle of
  the example grid, and the cubic weights of the local coordinate \<open>3/2\<close>.
\<close>

definition example_weights :: "real list" where
  "example_weights = [1 / 48, 23 / 48, 23 / 48, 1 / 48]"

definition example_x :: "real list" where "example_x = [2, 0]"

definition example_y :: "real list" where "example_y = [0, 2]"

definition example_z :: "real list" where "example_z = [2, 2]"

definition example_eb_out2 :: eb_out where
  "example_eb_out2 =
     \<lparr> Ex_out = [9, 9], Ey_out = [9, 9], Ez_out = [9, 9],
       Bx_out = [9, 9], By_out = [9, 9], Bz_out = [9, 9] \<rparr>"

text \<open>
  The linear stencil of these particles, and envelope grids for the modes 0, 1 and -1:
  the amplitude of the mode 0 is \<open>sqrt 3\<close> everywhere and its radial gradient is 1; the
  stored intensity of each particle is 5.
\<close>

definition example_stencil :: linear_stencil where
  "example_stencil =
     \<lparr> iz_lower = 1, iz_upper = 2, ir_lower = 1, ir_upper = 2,
       S_ll = 1 / 4, S_lu = 1 / 4, S_lg = 0, S_ul = 1 / 4, S_uu = 1 / 4, S_ug = 0 \<rparr>"

definition example_envelope_grids :: envelope_grids where
  "example_envelope_grids =
     \<lparr> a_grids = [uniform_grid (of_real (sqrt 3)), uniform_grid 0, uniform_grid 0],
       grad_a_r = [uniform_grid 1, uniform_grid 0, uniform_grid 0],
       grad_a_t = [uniform_grid 0, uniform_grid 0, uniform_grid 0],
       grad_a_z = [uniform_grid 0, uniform_grid 0, uniform_grid 0] \<rparr>"

definition example_m_array :: "int list" where
  "example_m_array = [0, 1, - 1]"

definition example_envelope_out :: envelope_out where
  "example_envelope_out =
     \<lparr> a2_out = [5, 5], grad_a2_x = [9, 9], grad_a2_y = [9, 9], grad_a2_z = [9, 9] \<rparr>"

text \<open>The arrays that the kernels return on these inputs.\<close>

definition example_envelope_result :: envelope_out where
  "example_envelope_result =
     \<lparr> a2_out = [4, 4], grad_a2_x = [2 * sqrt 3, 0], grad_a2_y = [0, 2 * sqrt 3],
       grad_a2_z = [0, 0] \<rparr>"

definition example_envelope_result2 :: envelope_out where
  "example_envelope_result2 =
     \<lparr> a2_out = [7 / 2, 7 / 2], grad_a2_x = [2 * sqrt 3, 0], grad_a2_y = [0, 2 * sqrt 3],
       grad_a2_z = [0, 0] \<rparr>"

definition example_envelope_body_result :: envelope_out where
  "example_envelope_body_result =
     \<lparr> a2_out = [4, 5], grad_a2_x = [2 * sqrt 3, 9], grad_a2_y = [0, 9], grad_a2_z = [0, 9] \<rparr>"

definition example_eb_result :: eb_out where
  "example_eb_result =
     \<lparr> Ex_out = [2, 0], Ey_out = [0, 2], Ez_out = [0, 0],
       Bx_out = [0, 0], By_out = [0, 0], Bz_out = [0, 0] \<rparr>"

text \<open>
  A particle on the axis far below \<open>zmin\<close>: the arrays of the envelope kernel for one
  particle, and what the linear kernels return for it when the memory outside the grids
  holds \<open>example_memory\<close>.
\<close>

definition example_envelope_out1 :: envelope_out where
  "example_envelope_out1 =
     \<lparr> a2_out = [5], grad_a2_x = [9], grad_a2_y = [9], grad_a2_z = [9] \<rparr>"

definition example_far_result :: eb_out where
  "example_far_result =
     \<lparr> Ex_out = [2], Ey_out = [2], Ez_out = [2], Bx_out = [2], By_out = [2], Bz_out = [2] \<rparr>"

definition example_envelope_far_result :: envelope_out where
  "example_envelope_far_result =
     \<lparr> a2_out = [7], grad_a2_x = [18], grad_a2_y = [18], grad_a2_z = [18] \<rparr>"



text \<open>
  Two particles at radius 2 in the middle of the example grid, the first at the angle with
  \<open>cos = 3/5\<close> and \<open>sin = 4/5\<close>, the second on the y axis; grids whose radial,
  azimuthal and axial components all differ from zero, and the arrays that the kernels
  return on them. For the first particle the sums of the E field are
  \<open>(Fr, Ft, Fz) = (5, 1, 3)\<close> and those of the B field \<open>(1, 2, 4)\<close>; the sums of the
  envelope are \<open>F = sqrt 3\<close> and \<open>(Fr, Ft, Fz) = (1, 2, 3)\<close>.
\<close>

definition oblique_x :: "real list" where "oblique_x = [6 / 5, 0]"

definition oblique_y :: "real list" where "oblique_y = [8 / 5, 2]"

definition oblique_eb_grids :: eb_grids where
  "oblique_eb_grids =
     \<lparr> Er_m0 = uniform_grid 2, Et_m0 = uniform_grid 1, Ez_m0 = uniform_grid 3,
       Er_m1 = uniform_grid 5, Et_m1 = uniform_grid 0, Ez_m1 = uniform_grid 0,
       Br_m0 = uniform_grid 1, Bt_m0 = uniform_grid 2, Bz_m0 = uniform_grid 4,
       Br_m1 = uniform_grid 0, Bt_m1 = uniform_grid 0, Bz_m1 = uniform_grid 0 \<rparr>"

definition oblique_eb_result :: eb_out where
  "oblique_eb_result =
     \<lparr> Ex_out = [11 / 5, - 1], Ey_out = [23 / 5, 2], Ez_out = [3, 3],
       Bx_out = [- 1, - 2], By_out = [2, 1], Bz_out = [4, 4] \<rparr>"

definition oblique_envelope_grids :: envelope_grids where
  "oblique_envelope_grids =
     \<lparr> a_grids = [uniform_grid (of_real (sqrt 3)), uniform_grid 0, uniform_grid 0],
       grad_a_r = [uniform_grid 1, uniform_grid 0, uniform_grid 0],
       grad_a_t = [uniform_grid 2, uniform_grid 0, uniform_grid 0],
       grad_a_z = [uniform_grid 3, uniform_grid 0, uniform_grid 0] \<rparr>"

definition oblique_envelope_result :: envelope_out where
  "oblique_envelope_result =
     \<lparr> a2_out = [3, 3], grad_a2_x = [- (2 * sqrt 3), - (4 * sqrt 3)],
       grad_a2_y = [4 * sqrt 3, 2 * sqrt 3], grad_a2_z = [6 * sqrt 3, 6 * sqrt 3] \<rparr>"

text \<open>The contents of the fresh scratch arrays of every thread in the examples.\<close>

definition example_junk :: "int \<Rightarrow> (nat \<Rightarrow> real) \<times> (nat \<Rightarrow> real)" where
  "example_junk nt = (\<lambda>k. 7, \<lambda>k. 8)"

section \<open>Properties\<close>

subsection \<open>Arrays and index arithmetic\<close>

lemma py_get_nonneg: "0 \<le> i \<Longrightarrow> i < int (length xs) \<Longrightarrow> py_get xs i = Some (xs ! nat i)"
  by (simp add: py_get_def)

lemma py_get_eq_None: "py_get xs i = None \<longleftrightarrow> i < - int (length xs) \<or> int (length xs) \<le> i"
  by (auto simp: py_get_def Let_def)

lemma py_set_eq_None: "py_set xs i v = None \<longleftrightarrow> i < - int (length xs) \<or> int (length xs) \<le> i"
  by (auto simp: py_set_def Let_def)

lemma py_get_negative:
  "- int (length xs) \<le> i \<Longrightarrow> i < 0 \<Longrightarrow> py_get xs i = py_get xs (i + int (length xs))"
  by (simp add: py_get_def)

lemma py_set_length: "py_set xs i v = Some xs' \<Longrightarrow> length xs' = length xs"
  by (auto simp: py_set_def Let_def split: if_splits)

lemma py_get_py_set_same: "py_set xs i v = Some xs' \<Longrightarrow> py_get xs' i = Some v"
  by (auto simp: py_set_def py_get_def Let_def split: if_splits)

lemma py_get_py_set_other:
  "py_set xs j v = Some xs' \<Longrightarrow> 0 \<le> j \<Longrightarrow> 0 \<le> k \<Longrightarrow> k \<noteq> j \<Longrightarrow> py_get xs' k = py_get xs k"
  by (auto simp: py_set_def py_get_def Let_def split: if_splits)

lemma py_set_Some_get: "py_set xs i v = Some xs' \<Longrightarrow> \<exists>old. py_get xs i = Some old"
  by (auto simp: py_set_def py_get_def Let_def split: if_splits)

lemma py_set_nonneg: "0 \<le> i \<Longrightarrow> i < int (length xs) \<Longrightarrow> py_set xs i v = Some (xs[nat i := v])"
  by (simp add: py_set_def)

lemma axial_bounds_once:
  "1 \<le> nz \<Longrightarrow> axial_bounds nz l u =
     ((if l < 0 then l + nz else if l > nz - 1 then l - nz else l),
      (if u < 0 then u + nz else if u > nz - 1 then u - nz else u))"
  by (simp add: axial_bounds_def Let_def)

lemma wrap_mod: "1 \<le> (nz::int) \<Longrightarrow> - nz \<le> l \<Longrightarrow> l \<le> 2 * nz - 1 \<Longrightarrow>
  (if l < 0 then l + nz else if l > nz - 1 then l - nz else l) = l mod nz"
proof -
  assume nz: "1 \<le> nz" and lo: "- nz \<le> l" and hi: "l \<le> 2 * nz - 1"
  have a: "l < 0 \<Longrightarrow> l mod nz = l + nz"
  proof -
    assume "l < 0"
    then have "(l + nz) mod nz = l + nz" using lo nz by (intro mod_pos_pos_trivial) auto
    then show ?thesis by simp
  qed
  have b: "nz - 1 < l \<Longrightarrow> l mod nz = l - nz"
  proof -
    assume "nz - 1 < l"
    then have "(l - nz) mod nz = l - nz" using hi nz by (intro mod_pos_pos_trivial) auto
    then show ?thesis by simp
  qed
  have c: "\<not> l < 0 \<Longrightarrow> \<not> nz - 1 < l \<Longrightarrow> l mod nz = l"
    by (intro mod_pos_pos_trivial) auto
  show ?thesis using a b c by auto
qed

lemma linear_shape_axial:
  "(iz_lower (linear_shape G rj zj), iz_upper (linear_shape G rj zj)) =
     axial_bounds (Nz G) \<lfloor>z_cell G zj\<rfloor> (\<lfloor>z_cell G zj\<rfloor> + 1)"
  by (simp add: linear_shape_def linear_weights_def Let_def split: prod.splits)

lemma shift_once_cases:
  assumes "1 \<le> (n::int)"
    and "r = (if k < 0 then k + n else if k > n - 1 then k - n else k)"
  shows "(- n \<le> k \<and> k \<le> 2 * n - 1 \<longrightarrow> r = k mod n \<and> 0 \<le> r \<and> r \<le> n - 1)
       \<and> (k < - n \<longrightarrow> r = k + n \<and> r < 0)
       \<and> (2 * n - 1 < k \<longrightarrow> r = k - n \<and> n - 1 < r)"
proof -
  have a: "r = k mod n \<and> 0 \<le> r \<and> r \<le> n - 1" if "- n \<le> k" "k \<le> 2 * n - 1"
  proof -
    have "r = k mod n" using wrap_mod [OF assms(1) that] assms(2) by simp
    then show ?thesis
      using pos_mod_sign [of n k] pos_mod_bound [of n k] assms(1) by simp
  qed
  have b: "k < - n \<longrightarrow> r = k + n \<and> r < 0" using assms by simp
  have c: "2 * n - 1 < k \<longrightarrow> r = k - n \<and> n - 1 < r" using assms by simp
  show ?thesis using a b c by blast
qed

lemma linear_shape_axial_once:
  assumes "1 \<le> Nz G"
  shows "iz_lower (linear_shape G rj zj)
           = (if \<lfloor>z_cell G zj\<rfloor> < 0 then \<lfloor>z_cell G zj\<rfloor> + Nz G
              else if \<lfloor>z_cell G zj\<rfloor> > Nz G - 1 then \<lfloor>z_cell G zj\<rfloor> - Nz G
              else \<lfloor>z_cell G zj\<rfloor>)"
    and "iz_upper (linear_shape G rj zj)
           = (if \<lfloor>z_cell G zj\<rfloor> + 1 < 0 then \<lfloor>z_cell G zj\<rfloor> + 1 + Nz G
              else if \<lfloor>z_cell G zj\<rfloor> + 1 > Nz G - 1 then \<lfloor>z_cell G zj\<rfloor> + 1 - Nz G
              else \<lfloor>z_cell G zj\<rfloor> + 1)"
proof -
  define l where "l = \<lfloor>z_cell G zj\<rfloor>"
  have "(iz_lower (linear_shape G rj zj), iz_upper (linear_shape G rj zj))
      = ((if l < 0 then l + Nz G else if l > Nz G - 1 then l - Nz G else l),
         (if l + 1 < 0 then l + 1 + Nz G else if l + 1 > Nz G - 1 then l + 1 - Nz G else l + 1))"
    unfolding linear_shape_axial l_def [symmetric] by (rule axial_bounds_once [OF assms])
  then show "iz_lower (linear_shape G rj zj)
           = (if \<lfloor>z_cell G zj\<rfloor> < 0 then \<lfloor>z_cell G zj\<rfloor> + Nz G
              else if \<lfloor>z_cell G zj\<rfloor> > Nz G - 1 then \<lfloor>z_cell G zj\<rfloor> - Nz G
              else \<lfloor>z_cell G zj\<rfloor>)"
    and "iz_upper (linear_shape G rj zj)
           = (if \<lfloor>z_cell G zj\<rfloor> + 1 < 0 then \<lfloor>z_cell G zj\<rfloor> + 1 + Nz G
              else if \<lfloor>z_cell G zj\<rfloor> + 1 > Nz G - 1 then \<lfloor>z_cell G zj\<rfloor> + 1 - Nz G
              else \<lfloor>z_cell G zj\<rfloor> + 1)"
    unfolding l_def by simp_all
qed


lemma write_weights_length4:
  "length S = 4 \<Longrightarrow> write_weights S [w0, w1, w2, w3] = Some [w0, w1, w2, w3]"
proof -
  assume "length S = 4"
  then obtain s0 s1 s2 s3 where "S = [s0, s1, s2, s3]"
    by (auto simp: length_Suc_conv numeral_eq_Suc)
  then show ?thesis by (simp add: write_weights_def py_set_def)
qed

lemma cubic_shape_length4:
  "length Sr = 4 \<Longrightarrow> length Sz = 4 \<Longrightarrow>
   cubic_shape G rj zj Sr Sz =
     Some (cubic_lowest (r_cell G rj), cubic_lowest (z_cell G zj),
           cubic_weights (r_cell G rj - of_int (cubic_lowest (r_cell G rj))),
           cubic_weights (z_cell G zj - of_int (cubic_lowest (z_cell G zj))))"
  by (simp add: cubic_shape_def Let_def write_weights_length4 cubic_weights_def)

subsection \<open>Loops\<close>

lemma for_each_append:
  "for_each body (as @ bs) s =
     (case for_each body as s of None \<Rightarrow> None | Some s' \<Rightarrow> for_each body bs s')"
  by (induction as arbitrary: s) (auto split: option.splits)

lemma for_each_invariant:
  assumes "\<And>i s s'. I s \<Longrightarrow> body i s = Some s' \<Longrightarrow> I s'"
  shows "I s \<Longrightarrow> for_each body is s = Some s' \<Longrightarrow> I s'"
proof (induction "is" arbitrary: s)
  case Nil
  then show ?case by simp
next
  case (Cons i "is")
  then show ?case using assms by (auto split: option.splits)
qed

lemma upto_join:
  "lo \<le> mid \<Longrightarrow> mid \<le> hi \<Longrightarrow> [lo .. hi - 1] = [lo .. mid - 1] @ [mid .. hi - 1]"
proof -
  assume a: "lo \<le> mid" "mid \<le> hi"
  show ?thesis
  proof (cases "mid = hi")
    case True
    then show ?thesis by simp
  next
    case False
    with a have "mid \<le> hi - 1" by simp
    with a show ?thesis using upto_split1 [of lo mid "hi - 1"] by simp
  qed
qed

lemma for_each_frame:
  assumes "\<And>j s s'. j \<in> set js \<Longrightarrow> body j s = Some s' \<Longrightarrow> rd s' = rd s"
  shows "for_each body js s = Some s' \<Longrightarrow> rd s' = rd s"
  using assms
proof (induction js arbitrary: s)
  case Nil
  then show ?case by simp
next
  case (Cons j js)
  from Cons.prems(1) obtain s1 where s1: "body j s = Some s1" "for_each body js s1 = Some s'"
    by (auto split: option.splits)
  have "rd s1 = rd s" using Cons.prems(2) [of j s s1] s1(1) by simp
  moreover have "rd s' = rd s1"
  proof (rule Cons.IH [OF s1(2)])
    fix k t t' assume "k \<in> set js" "body k t = Some t'"
    then show "rd t' = rd t" using Cons.prems(2) [of k t t'] by simp
  qed
  ultimately show ?case by simp
qed

text \<open>The state in which the loop over the particles reaches the particle \<open>i\<close>.\<close>

lemma for_each_upto_at:
  assumes "for_each body [0 .. n - 1] s = Some s'" and "0 \<le> i" and "i < n"
  shows "\<exists>s1 s2. for_each body [0 .. i - 1] s = Some s1 \<and> body i s1 = Some s2
            \<and> for_each body [i + 1 .. n - 1] s2 = Some s'"
proof -
  have "[0 .. n - 1] = [0 .. i - 1] @ i # [i + 1 .. n - 1]"
    using assms(2,3) by (intro upto_split3) auto
  then show ?thesis
    using assms(1) by (auto simp: for_each_append split: option.splits)
qed

lemma for_each_total:
  assumes "\<forall>i s. i \<in> set is \<longrightarrow> I s \<longrightarrow> (\<exists>s'. body i s = Some s' \<and> I s')"
  shows "I s \<Longrightarrow> \<exists>s'. for_each body is s = Some s' \<and> I s'"
  using assms
proof (induction "is" arbitrary: s)
  case Nil
  then show ?case by simp
next
  case (Cons i "is")
  from Cons.prems obtain s1 where s1: "body i s = Some s1" "I s1"
    by (meson list.set_intros(1))
  have "\<exists>s'. for_each body is s1 = Some s' \<and> I s'"
    by (rule Cons.IH [OF s1(2)]) (use Cons.prems(2) in auto)
  then show ?case using s1 by simp
qed

subsection \<open>The scratch arrays of a thread\<close>

lemma np_empty_length: "length (np_empty junk n) = n"
  by (simp add: np_empty_def)

lemma gather_cubic_body_scratch:
  assumes "length Sr = 4" "length Sz = 4" "length Sr' = 4" "length Sz' = 4"
  shows "gather_cubic_body add G g x y z i (Sr, Sz, out)
         = gather_cubic_body add G g x y z i (Sr', Sz', out)"
  using assms by (simp add: gather_cubic_body_def cubic_shape_length4)

lemma gather_cubic_body_length:
  assumes "length Sr = 4" "length Sz = 4"
    and "gather_cubic_body add G g x y z i (Sr, Sz, out) = Some (Sr', Sz', out')"
  shows "length Sr' = 4 \<and> length Sz' = 4"
  using assms
  by (auto simp: gather_cubic_body_def cubic_shape_length4 cubic_weights_def Let_def
      split: Option.bind_splits prod.splits)

lemma gather_cubic_chunk_range:
  assumes "0 \<le> nt" "nt + 1 < int (length idx)"
  shows "gather_cubic_chunk add G g x y z junk idx nt out
       = map_option (\<lambda>s. snd (snd s))
           (for_each (gather_cubic_body add G g x y z) [idx ! nat nt .. idx ! nat (nt + 1) - 1]
              (np_empty (fst (junk nt)) 4, np_empty (snd (junk nt)) 4, out))"
proof -
  have "py_get idx nt = Some (idx ! nat nt)" "py_get idx (nt + 1) = Some (idx ! nat (nt + 1))"
    using assms by (simp_all add: py_get_def)
  then show ?thesis
    by (cases "for_each (gather_cubic_body add G g x y z) [idx ! nat nt .. idx ! nat (nt + 1) - 1]
              (np_empty (fst (junk nt)) 4, np_empty (snd (junk nt)) 4, out)")
       (auto simp: gather_cubic_chunk_def Let_def)
qed

lemma chunk_loop_length:
  fixes body :: "int \<Rightarrow> real list \<times> real list \<times> 'o \<Rightarrow> (real list \<times> real list \<times> 'o) option"
  assumes len: "\<forall>i Sr Sz out Sr' Sz' out'. length Sr = 4 \<longrightarrow> length Sz = 4 \<longrightarrow>
        body i (Sr, Sz, out) = Some (Sr', Sz', out') \<longrightarrow> length Sr' = 4 \<and> length Sz' = 4"
    and "length Sr = 4" "length Sz = 4"
    and "for_each body is (Sr, Sz, out) = Some (Sr', Sz', out')"
  shows "length Sr' = 4 \<and> length Sz' = 4"
proof -
  let ?I = "\<lambda>s :: real list \<times> real list \<times> 'o. length (fst s) = 4 \<and> length (fst (snd s)) = 4"
  have "?I (Sr', Sz', out')"
  proof (rule for_each_invariant [where I = ?I and body = body])
    show "?I (Sr, Sz, out)" using assms(2,3) by simp
    show "for_each body is (Sr, Sz, out) = Some (Sr', Sz', out')" by (rule assms(4))
  next
    fix i :: int and s s' :: "real list \<times> real list \<times> 'o"
    assume "?I s" "body i s = Some s'"
    then show "?I s'"
      using len [rule_format, of "fst s" "fst (snd s)" i "snd (snd s)" "fst s'" "fst (snd s')"
          "snd (snd s')"]
      by simp
  qed
  then show ?thesis by simp
qed

lemma chunk_loop_scratch:
  fixes body :: "int \<Rightarrow> real list \<times> real list \<times> 'o \<Rightarrow> (real list \<times> real list \<times> 'o) option"
  assumes scratch: "\<forall>i Sr Sz Sr' Sz' out. length Sr = 4 \<longrightarrow> length Sz = 4 \<longrightarrow>
        length Sr' = 4 \<longrightarrow> length Sz' = 4 \<longrightarrow> body i (Sr, Sz, out) = body i (Sr', Sz', out)"
    and "length Sr = 4" "length Sz = 4" "length Sr' = 4" "length Sz' = 4"
  shows "map_option (\<lambda>s. snd (snd s)) (for_each body is (Sr, Sz, out))
       = map_option (\<lambda>s. snd (snd s)) (for_each body is (Sr', Sz', out))"
proof (cases "is")
  case Nil
  then show ?thesis by simp
next
  case (Cons i js)
  then show ?thesis
    using scratch [rule_format, OF assms(2-5), of i out] by simp
qed

lemma chunk_range_join:
  fixes body :: "int \<Rightarrow> real list \<times> real list \<times> 'o \<Rightarrow> (real list \<times> real list \<times> 'o) option"
  assumes scratch: "\<forall>i Sr Sz Sr' Sz' out. length Sr = 4 \<longrightarrow> length Sz = 4 \<longrightarrow>
        length Sr' = 4 \<longrightarrow> length Sz' = 4 \<longrightarrow> body i (Sr, Sz, out) = body i (Sr', Sz', out)"
    and len: "\<forall>i Sr Sz out Sr' Sz' out'. length Sr = 4 \<longrightarrow> length Sz = 4 \<longrightarrow>
        body i (Sr, Sz, out) = Some (Sr', Sz', out') \<longrightarrow> length Sr' = 4 \<and> length Sz' = 4"
    and "lo \<le> mid" "mid \<le> hi"
    and "length Sr = 4" "length Sz = 4" "length Sr1 = 4" "length Sz1 = 4"
    and "length Sr2 = 4" "length Sz2 = 4"
  shows "map_option (\<lambda>s. snd (snd s)) (for_each body [lo .. hi - 1] (Sr, Sz, out))
       = (case map_option (\<lambda>s. snd (snd s)) (for_each body [lo .. mid - 1] (Sr1, Sz1, out)) of
            None \<Rightarrow> None
          | Some out1 \<Rightarrow>
              map_option (\<lambda>s. snd (snd s)) (for_each body [mid .. hi - 1] (Sr2, Sz2, out1)))"
proof -
  let ?p = "map_option (\<lambda>s :: real list \<times> real list \<times> 'o. snd (snd s))"
  have split: "for_each body [lo .. hi - 1] (Sr, Sz, out)
      = (case for_each body [lo .. mid - 1] (Sr, Sz, out) of None \<Rightarrow> None
         | Some s' \<Rightarrow> for_each body [mid .. hi - 1] s')"
    using upto_join [OF assms(3,4)] by (simp add: for_each_append)
  have first: "?p (for_each body [lo .. mid - 1] (Sr, Sz, out))
      = ?p (for_each body [lo .. mid - 1] (Sr1, Sz1, out))"
    by (rule chunk_loop_scratch [where body = body, OF scratch assms(5-8)])
  show ?thesis
  proof (cases "for_each body [lo .. mid - 1] (Sr, Sz, out)")
    case None
    then show ?thesis using split first by (auto split: option.splits)
  next
    case (Some s')
    obtain a b out1 where s': "s' = (a, b, out1)" by (cases s')
    have l: "length a = 4 \<and> length b = 4"
      using chunk_loop_length [where body = body, OF len assms(5,6)] Some s' by blast
    have second: "?p (for_each body [mid .. hi - 1] (a, b, out1))
        = ?p (for_each body [mid .. hi - 1] (Sr2, Sz2, out1))"
      using l assms(9,10) by (intro chunk_loop_scratch [where body = body, OF scratch]) auto
    have f1: "?p (for_each body [lo .. mid - 1] (Sr1, Sz1, out)) = Some out1"
      using first Some s' by simp
    have lhs: "?p (for_each body [lo .. hi - 1] (Sr, Sz, out))
        = ?p (for_each body [mid .. hi - 1] (a, b, out1))"
      using split Some s' by simp
    show ?thesis by (simp only: lhs f1 second option.case)
  qed
qed

lemma chunk_threads:
  fixes body :: "int \<Rightarrow> real list \<times> real list \<times> 'o \<Rightarrow> (real list \<times> real list \<times> 'o) option"
  assumes scratch: "\<forall>i Sr Sz Sr' Sz' out. length Sr = 4 \<longrightarrow> length Sz = 4 \<longrightarrow>
        length Sr' = 4 \<longrightarrow> length Sz' = 4 \<longrightarrow> body i (Sr, Sz, out) = body i (Sr', Sz', out)"
    and len: "\<forall>i Sr Sz out Sr' Sz' out'. length Sr = 4 \<longrightarrow> length Sz = 4 \<longrightarrow>
        body i (Sr, Sz, out) = Some (Sr', Sz', out') \<longrightarrow> length Sr' = 4 \<and> length Sz' = 4"
    and chunk: "\<forall>nt out. 0 \<le> nt \<longrightarrow> nt + 1 < int (length idx) \<longrightarrow>
        chunk nt out = map_option (\<lambda>s. snd (snd s))
           (for_each body [idx ! nat nt .. idx ! nat (nt + 1) - 1]
              (np_empty (fst (junk nt)) 4, np_empty (snd (junk nt)) 4, out))"
    and "sorted idx" "Suc n \<le> length idx" "length Sr = 4" "length Sz = 4"
  shows "for_each chunk [0 .. int n - 1] out
       = map_option (\<lambda>s. snd (snd s)) (for_each body [idx ! 0 .. idx ! n - 1] (Sr, Sz, out))"
  using assms(5)
proof (induction n)
  case 0
  then show ?case by simp
next
  case (Suc n)
  let ?p = "map_option (\<lambda>s :: real list \<times> real list \<times> 'o. snd (snd s))"
  have ih: "for_each chunk [0 .. int n - 1] out
       = ?p (for_each body [idx ! 0 .. idx ! n - 1] (Sr, Sz, out))"
    using Suc by simp
  have up: "[0 .. int (Suc n) - 1] = [0 .. int n - 1] @ [int n]"
    using upto_rec2 [of 0 "int n"] by simp
  have c: "chunk (int n) out'
       = ?p (for_each body [idx ! n .. idx ! Suc n - 1]
              (np_empty (fst (junk (int n))) 4, np_empty (snd (junk (int n))) 4, out'))" for out'
    using chunk [rule_format, of "int n" out'] Suc.prems by (simp add: nat_add_distrib)
  have le: "idx ! 0 \<le> idx ! n" "idx ! n \<le> idx ! Suc n"
    using assms(4) Suc.prems by (auto intro: sorted_nth_mono)
  have join: "?p (for_each body [idx ! 0 .. idx ! Suc n - 1] (Sr, Sz, out))
       = (case ?p (for_each body [idx ! 0 .. idx ! n - 1] (Sr, Sz, out)) of
            None \<Rightarrow> None
          | Some out1 \<Rightarrow> ?p (for_each body [idx ! n .. idx ! Suc n - 1]
              (np_empty (fst (junk (int n))) 4, np_empty (snd (junk (int n))) 4, out1)))"
    by (rule chunk_range_join [where body = body, OF scratch len le assms(6,7) assms(6,7)])
       (simp_all add: np_empty_length)
  show ?case
    unfolding up for_each_append ih join
    by (auto simp: c split: option.splits)
qed

lemma gather_envelope_cubic_body_scratch:
  assumes "length Sr = 4" "length Sz = 4" "length Sr' = 4" "length Sz' = 4"
  shows "gather_envelope_cubic_body add G g m_array gather_gradient average_a2 x y z i
           (Sr, Sz, out)
         = gather_envelope_cubic_body add G g m_array gather_gradient average_a2 x y z i
           (Sr', Sz', out)"
  using assms by (simp add: gather_envelope_cubic_body_def cubic_shape_length4)

lemma gather_envelope_cubic_body_length:
  assumes "length Sr = 4" "length Sz = 4"
    and "gather_envelope_cubic_body add G g m_array gather_gradient average_a2 x y z i
           (Sr, Sz, out) = Some (Sr', Sz', out')"
  shows "length Sr' = 4 \<and> length Sz' = 4"
  using assms
  by (auto simp: gather_envelope_cubic_body_def cubic_shape_length4 cubic_weights_def Let_def
      split: Option.bind_splits prod.splits)

lemma gather_envelope_cubic_chunk_range:
  assumes "0 \<le> nt" "nt + 1 < int (length idx)"
  shows "gather_envelope_cubic_chunk add G g m_array gather_gradient average_a2 x y z junk idx
           nt out
       = map_option (\<lambda>s. snd (snd s))
           (for_each (gather_envelope_cubic_body add G g m_array gather_gradient average_a2 x y z)
              [idx ! nat nt .. idx ! nat (nt + 1) - 1]
              (np_empty (fst (junk nt)) 4, np_empty (snd (junk nt)) 4, out))"
proof -
  have "py_get idx nt = Some (idx ! nat nt)" "py_get idx (nt + 1) = Some (idx ! nat (nt + 1))"
    using assms by (simp_all add: py_get_def)
  then show ?thesis
    by (cases "for_each
              (gather_envelope_cubic_body add G g m_array gather_gradient average_a2 x y z)
              [idx ! nat nt .. idx ! nat (nt + 1) - 1]
              (np_empty (fst (junk nt)) 4, np_empty (snd (junk nt)) 4, out)")
       (auto simp: gather_envelope_cubic_chunk_def Let_def)
qed

subsection \<open>Writes of the envelope kernels\<close>

lemma envelope_store_Some:
  assumes "envelope_store gather_gradient average_a2 cs sn i (F, Fr, Ft, Fz) out = Some out'"
  shows "(\<exists>old. py_get (a2_out out) i = Some old
            \<and> py_get (a2_out out') i
                = Some (if average_a2 then 0.5 * (old + Re (F * cnj F)) else Re (F * cnj F)))
    \<and> (if gather_gradient then
          py_get (grad_a2_x out') i
            = Some (2 * Re ((of_real cs * Fr - of_real sn * Ft) * cnj F))
          \<and> py_get (grad_a2_y out') i
            = Some (2 * Re ((of_real sn * Fr + of_real cs * Ft) * cnj F))
          \<and> py_get (grad_a2_z out') i = Some (2 * Re (Fz * cnj F))
        else grad_a2_x out' = grad_a2_x out \<and> grad_a2_y out' = grad_a2_y out
          \<and> grad_a2_z out' = grad_a2_z out)"
  using assms
  by (auto simp: envelope_store_def Let_def py_get_py_set_same
      split: Option.bind_splits if_splits dest: py_set_Some_get)

lemma envelope_store_other:
  assumes "envelope_store gather_gradient average_a2 cs sn j acc out = Some out'"
    and "0 \<le> j" "0 \<le> k" "k \<noteq> j"
  shows "py_get (a2_out out') k = py_get (a2_out out) k
    \<and> py_get (grad_a2_x out') k = py_get (grad_a2_x out) k
    \<and> py_get (grad_a2_y out') k = py_get (grad_a2_y out) k
    \<and> py_get (grad_a2_z out') k = py_get (grad_a2_z out) k"
  using assms
  by (auto simp: envelope_store_def Let_def py_get_py_set_other
      split: Option.bind_splits if_splits prod.splits)

subsection \<open>What the body of each kernel computes and writes\<close>

lemma gather_linear_body_Some:
  assumes "gather_linear_body add G g x y z i out = Some out'"
  shows "\<exists>xj yj zj rj cs sn Fr Ft Fz Gr Gt Gz.
      py_get x i = Some xj \<and> py_get y i = Some yj \<and> py_get z i = Some zj
      \<and> cyl_conv xj yj = (rj, cs, sn)
      \<and> linear_sums add (Er_m0 g, Et_m0 g, Ez_m0 g) (Er_m1 g, Et_m1 g, Ez_m1 g) cs sn
            (linear_shape G rj zj) = Some (Fr, Ft, Fz)
      \<and> linear_sums add (Br_m0 g, Bt_m0 g, Bz_m0 g) (Br_m1 g, Bt_m1 g, Bz_m1 g) cs sn
            (linear_shape G rj zj) = Some (Gr, Gt, Gz)
      \<and> py_get (Ex_out out') i = Some (cs * Fr - sn * Ft)
      \<and> py_get (Ey_out out') i = Some (sn * Fr + cs * Ft)
      \<and> py_get (Ez_out out') i = Some Fz
      \<and> py_get (Bx_out out') i = Some (cs * Gr - sn * Gt)
      \<and> py_get (By_out out') i = Some (sn * Gr + cs * Gt)
      \<and> py_get (Bz_out out') i = Some Gz"
proof -
  from assms obtain xj yj zj rj cs sn F Fr Ft Fz H Gr Gt Gz ex ey ez bx by' bz where
    f: "py_get x i = Some xj" "py_get y i = Some yj" "py_get z i = Some zj"
      "cyl_conv xj yj = (rj, cs, sn)"
      "add 0 (0, 0, 0) 1 (Er_m0 g, Et_m0 g, Ez_m0 g) (linear_shape G rj zj) = Some F"
      "add 1 F (exptheta1 cs sn) (Er_m1 g, Et_m1 g, Ez_m1 g) (linear_shape G rj zj)
         = Some (Fr, Ft, Fz)"
      "add 0 (0, 0, 0) 1 (Br_m0 g, Bt_m0 g, Bz_m0 g) (linear_shape G rj zj) = Some H"
      "add 1 H (exptheta1 cs sn) (Br_m1 g, Bt_m1 g, Bz_m1 g) (linear_shape G rj zj)
         = Some (Gr, Gt, Gz)"
      "py_set (Ex_out out) i (cs * Fr - sn * Ft) = Some ex"
      "py_set (Ey_out out) i (sn * Fr + cs * Ft) = Some ey"
      "py_set (Ez_out out) i Fz = Some ez"
      "py_set (Bx_out out) i (cs * Gr - sn * Gt) = Some bx"
      "py_set (By_out out) i (sn * Gr + cs * Gt) = Some by'"
      "py_set (Bz_out out) i Gz = Some bz"
      "out' = \<lparr> Ex_out = ex, Ey_out = ey, Ez_out = ez, Bx_out = bx, By_out = by', Bz_out = bz \<rparr>"
    by (auto simp: gather_linear_body_def Let_def split: Option.bind_split_asm prod.split_asm)
  have "linear_sums add (Er_m0 g, Et_m0 g, Ez_m0 g) (Er_m1 g, Et_m1 g, Ez_m1 g) cs sn
            (linear_shape G rj zj) = Some (Fr, Ft, Fz)"
    "linear_sums add (Br_m0 g, Bt_m0 g, Bz_m0 g) (Br_m1 g, Bt_m1 g, Bz_m1 g) cs sn
            (linear_shape G rj zj) = Some (Gr, Gt, Gz)"
    using f(5-8) by (simp_all add: linear_sums_def)
  moreover have "py_get (Ex_out out') i = Some (cs * Fr - sn * Ft)"
      "py_get (Ey_out out') i = Some (sn * Fr + cs * Ft)"
      "py_get (Ez_out out') i = Some Fz"
      "py_get (Bx_out out') i = Some (cs * Gr - sn * Gt)"
      "py_get (By_out out') i = Some (sn * Gr + cs * Gt)"
      "py_get (Bz_out out') i = Some Gz"
    using f(9-15) by (simp_all add: py_get_py_set_same)
  ultimately show ?thesis using f(1-4) by blast
qed

lemma gather_cubic_body_Some:
  assumes "gather_cubic_body add G g x y z i (Sr, Sz, out) = Some (Sr', Sz', out')"
  shows "\<exists>xj yj zj rj cs sn ir_lowest iz_lowest Fr Ft Fz Gr Gt Gz.
      py_get x i = Some xj \<and> py_get y i = Some yj \<and> py_get z i = Some zj
      \<and> cyl_conv xj yj = (rj, cs, sn)
      \<and> cubic_shape G rj zj Sr Sz = Some (ir_lowest, iz_lowest, Sr', Sz')
      \<and> cubic_sums add (Er_m0 g, Et_m0 g, Ez_m0 g) (Er_m1 g, Et_m1 g, Ez_m1 g) cs sn
            ir_lowest iz_lowest Sr' Sz' (Nr G) (Nz G) = Some (Fr, Ft, Fz)
      \<and> cubic_sums add (Br_m0 g, Bt_m0 g, Bz_m0 g) (Br_m1 g, Bt_m1 g, Bz_m1 g) cs sn
            ir_lowest iz_lowest Sr' Sz' (Nr G) (Nz G) = Some (Gr, Gt, Gz)
      \<and> py_get (Ex_out out') i = Some (cs * Fr - sn * Ft)
      \<and> py_get (Ey_out out') i = Some (sn * Fr + cs * Ft)
      \<and> py_get (Ez_out out') i = Some Fz
      \<and> py_get (Bx_out out') i = Some (cs * Gr - sn * Gt)
      \<and> py_get (By_out out') i = Some (sn * Gr + cs * Gt)
      \<and> py_get (Bz_out out') i = Some Gz"
proof -
  from assms obtain xj yj zj rj cs sn ir_lowest iz_lowest F Fr Ft Fz H Gr Gt Gz
      ex ey ez bx by' bz where
    f: "py_get x i = Some xj" "py_get y i = Some yj" "py_get z i = Some zj"
      "cyl_conv xj yj = (rj, cs, sn)"
      "cubic_shape G rj zj Sr Sz = Some (ir_lowest, iz_lowest, Sr', Sz')"
      "add 0 (0, 0, 0) 1 (Er_m0 g, Et_m0 g, Ez_m0 g) ir_lowest iz_lowest Sr' Sz' (Nr G) (Nz G)
         = Some F"
      "add 1 F (exptheta1 cs sn) (Er_m1 g, Et_m1 g, Ez_m1 g) ir_lowest iz_lowest Sr' Sz'
         (Nr G) (Nz G) = Some (Fr, Ft, Fz)"
      "add 0 (0, 0, 0) 1 (Br_m0 g, Bt_m0 g, Bz_m0 g) ir_lowest iz_lowest Sr' Sz' (Nr G) (Nz G)
         = Some H"
      "add 1 H (exptheta1 cs sn) (Br_m1 g, Bt_m1 g, Bz_m1 g) ir_lowest iz_lowest Sr' Sz'
         (Nr G) (Nz G) = Some (Gr, Gt, Gz)"
      "py_set (Ex_out out) i (cs * Fr - sn * Ft) = Some ex"
      "py_set (Ey_out out) i (sn * Fr + cs * Ft) = Some ey"
      "py_set (Ez_out out) i Fz = Some ez"
      "py_set (Bx_out out) i (cs * Gr - sn * Gt) = Some bx"
      "py_set (By_out out) i (sn * Gr + cs * Gt) = Some by'"
      "py_set (Bz_out out) i Gz = Some bz"
      "out' = \<lparr> Ex_out = ex, Ey_out = ey, Ez_out = ez, Bx_out = bx, By_out = by', Bz_out = bz \<rparr>"
    by (auto simp: gather_cubic_body_def Let_def split: Option.bind_split_asm prod.split_asm)
  have "cubic_sums add (Er_m0 g, Et_m0 g, Ez_m0 g) (Er_m1 g, Et_m1 g, Ez_m1 g) cs sn
            ir_lowest iz_lowest Sr' Sz' (Nr G) (Nz G) = Some (Fr, Ft, Fz)"
    "cubic_sums add (Br_m0 g, Bt_m0 g, Bz_m0 g) (Br_m1 g, Bt_m1 g, Bz_m1 g) cs sn
            ir_lowest iz_lowest Sr' Sz' (Nr G) (Nz G) = Some (Gr, Gt, Gz)"
    using f(6-9) by (simp_all add: cubic_sums_def)
  moreover have "py_get (Ex_out out') i = Some (cs * Fr - sn * Ft)"
      "py_get (Ey_out out') i = Some (sn * Fr + cs * Ft)"
      "py_get (Ez_out out') i = Some Fz"
      "py_get (Bx_out out') i = Some (cs * Gr - sn * Gt)"
      "py_get (By_out out') i = Some (sn * Gr + cs * Gt)"
      "py_get (Bz_out out') i = Some Gz"
    using f(10-16) by (simp_all add: py_get_py_set_same)
  ultimately show ?thesis using f(1-5) by blast
qed

lemma gather_envelope_linear_body_Some:
  assumes "gather_envelope_linear_body add G g m_array gather_gradient average_a2 x y z i out
             = Some out'"
  shows "\<exists>xj yj zj rj cs sn acc.
      py_get x i = Some xj \<and> py_get y i = Some yj \<and> py_get z i = Some zj
      \<and> cyl_conv xj yj = (rj, cs, sn)
      \<and> for_each (envelope_mode_linear add g gather_gradient cs sn (linear_shape G rj zj))
            m_array (0, 0, 0, 0) = Some acc
      \<and> envelope_store gather_gradient average_a2 cs sn i acc out = Some out'"
proof -
  from assms obtain xj yj zj rj cs sn acc where
    "py_get x i = Some xj" "py_get y i = Some yj" "py_get z i = Some zj"
    "cyl_conv xj yj = (rj, cs, sn)"
    "for_each (envelope_mode_linear add g gather_gradient cs sn (linear_shape G rj zj))
            m_array (0, 0, 0, 0) = Some acc"
    "envelope_store gather_gradient average_a2 cs sn i acc out = Some out'"
    by (auto simp: gather_envelope_linear_body_def Let_def
        split: Option.bind_split_asm prod.split_asm)
  then show ?thesis by blast
qed

lemma gather_envelope_cubic_body_Some:
  assumes "gather_envelope_cubic_body add G g m_array gather_gradient average_a2 x y z i
             (Sr, Sz, out) = Some (Sr', Sz', out')"
  shows "\<exists>xj yj zj rj cs sn ir_lowest iz_lowest acc.
      py_get x i = Some xj \<and> py_get y i = Some yj \<and> py_get z i = Some zj
      \<and> cyl_conv xj yj = (rj, cs, sn)
      \<and> cubic_shape G rj zj Sr Sz = Some (ir_lowest, iz_lowest, Sr', Sz')
      \<and> for_each (envelope_mode_cubic add G g gather_gradient cs sn ir_lowest iz_lowest Sr' Sz')
            m_array (0, 0, 0, 0) = Some acc
      \<and> envelope_store gather_gradient average_a2 cs sn i acc out = Some out'"
proof -
  from assms obtain xj yj zj rj cs sn ir_lowest iz_lowest acc where
    "py_get x i = Some xj" "py_get y i = Some yj" "py_get z i = Some zj"
    "cyl_conv xj yj = (rj, cs, sn)"
    "cubic_shape G rj zj Sr Sz = Some (ir_lowest, iz_lowest, Sr', Sz')"
    "for_each (envelope_mode_cubic add G g gather_gradient cs sn ir_lowest iz_lowest Sr' Sz')
            m_array (0, 0, 0, 0) = Some acc"
    "envelope_store gather_gradient average_a2 cs sn i acc out = Some out'"
    by (auto simp: gather_envelope_cubic_body_def Let_def
        split: Option.bind_split_asm prod.split_asm)
  then show ?thesis by blast
qed

subsection \<open>The loop of the cubic kernel, seen from one particle\<close>

lemma gather_cubic_body_other:
  assumes "gather_cubic_body add G g x y z j (Sr, Sz, out) = Some (Sr', Sz', out')"
    and "0 \<le> j" "0 \<le> k" "k \<noteq> j"
  shows "py_get (Ex_out out') k = py_get (Ex_out out) k
    \<and> py_get (Ey_out out') k = py_get (Ey_out out) k
    \<and> py_get (Ez_out out') k = py_get (Ez_out out) k
    \<and> py_get (Bx_out out') k = py_get (Bx_out out) k
    \<and> py_get (By_out out') k = py_get (By_out out) k
    \<and> py_get (Bz_out out') k = py_get (Bz_out out) k"
proof -
  from assms(1) obtain ex ey ez bx by' bz v1 v2 v3 v4 v5 v6 where
    f: "py_set (Ex_out out) j v1 = Some ex" "py_set (Ey_out out) j v2 = Some ey"
       "py_set (Ez_out out) j v3 = Some ez" "py_set (Bx_out out) j v4 = Some bx"
       "py_set (By_out out) j v5 = Some by'" "py_set (Bz_out out) j v6 = Some bz"
       "out' = \<lparr> Ex_out = ex, Ey_out = ey, Ez_out = ez, Bx_out = bx, By_out = by', Bz_out = bz \<rparr>"
    by (auto simp: gather_cubic_body_def Let_def split: Option.bind_split_asm prod.split_asm)
  show ?thesis
    using f assms(2-4) by (simp add: py_get_py_set_other)
qed

lemma gather_cubic_body_fields:
  assumes "gather_cubic_body add G g x y z i (Sr, Sz, out) = Some (Sr', Sz', out')"
    and "length Sr = 4" "length Sz = 4" "0 \<le> i"
  shows "\<exists>ex ey ez bx by' bz.
      cubic_particle_fields add G g (x ! nat i) (y ! nat i) (z ! nat i)
        = Some (ex, ey, ez, bx, by', bz)
      \<and> py_get (Ex_out out') i = Some ex \<and> py_get (Ey_out out') i = Some ey
      \<and> py_get (Ez_out out') i = Some ez \<and> py_get (Bx_out out') i = Some bx
      \<and> py_get (By_out out') i = Some by' \<and> py_get (Bz_out out') i = Some bz"
proof -
  from gather_cubic_body_Some [OF assms(1)] obtain xj yj zj rj cs sn ir_lowest iz_lowest
      Fr Ft Fz Gr Gt Gz where
    f: "py_get x i = Some xj" "py_get y i = Some yj" "py_get z i = Some zj"
      "cyl_conv xj yj = (rj, cs, sn)"
      "cubic_shape G rj zj Sr Sz = Some (ir_lowest, iz_lowest, Sr', Sz')"
      "cubic_sums add (Er_m0 g, Et_m0 g, Ez_m0 g) (Er_m1 g, Et_m1 g, Ez_m1 g) cs sn
            ir_lowest iz_lowest Sr' Sz' (Nr G) (Nz G) = Some (Fr, Ft, Fz)"
      "cubic_sums add (Br_m0 g, Bt_m0 g, Bz_m0 g) (Br_m1 g, Bt_m1 g, Bz_m1 g) cs sn
            ir_lowest iz_lowest Sr' Sz' (Nr G) (Nz G) = Some (Gr, Gt, Gz)"
      "py_get (Ex_out out') i = Some (cs * Fr - sn * Ft)"
      "py_get (Ey_out out') i = Some (sn * Fr + cs * Ft)"
      "py_get (Ez_out out') i = Some Fz"
      "py_get (Bx_out out') i = Some (cs * Gr - sn * Gt)"
      "py_get (By_out out') i = Some (sn * Gr + cs * Gt)"
      "py_get (Bz_out out') i = Some Gz"
    by blast
  have xyz: "xj = x ! nat i" "yj = y ! nat i" "zj = z ! nat i"
    using f(1-3) assms(4) by (auto simp: py_get_def Let_def split: if_splits)
  have sh: "ir_lowest = cubic_lowest (r_cell G rj)" "iz_lowest = cubic_lowest (z_cell G zj)"
    "Sr' = cubic_weights (r_cell G rj - of_int (cubic_lowest (r_cell G rj)))"
    "Sz' = cubic_weights (z_cell G zj - of_int (cubic_lowest (z_cell G zj)))"
    using f(5) cubic_shape_length4 [OF assms(2,3), of G rj zj] by auto
  have "cubic_particle_fields add G g xj yj zj
      = Some (cs * Fr - sn * Ft, sn * Fr + cs * Ft, Fz, cs * Gr - sn * Gt, sn * Gr + cs * Gt, Gz)"
    using f(4,6,7) sh by (simp add: cubic_particle_fields_def Let_def)
  then show ?thesis using f(8-13) xyz by simp
qed

lemma gather_cubic_loop_at:
  assumes "for_each (gather_cubic_body add G g x y z) [0 .. N - 1] (Sr, Sz, out)
             = Some (Sr', Sz', out')"
    and "length Sr = 4" "length Sz = 4" "0 \<le> i" "i < N"
  shows "\<exists>ex ey ez bx by' bz.
      cubic_particle_fields add G g (x ! nat i) (y ! nat i) (z ! nat i)
        = Some (ex, ey, ez, bx, by', bz)
      \<and> py_get (Ex_out out') i = Some ex \<and> py_get (Ey_out out') i = Some ey
      \<and> py_get (Ez_out out') i = Some ez \<and> py_get (Bx_out out') i = Some bx
      \<and> py_get (By_out out') i = Some by' \<and> py_get (Bz_out out') i = Some bz"
proof -
  let ?b = "gather_cubic_body add G g x y z"
  let ?rd = "\<lambda>s :: real list \<times> real list \<times> eb_out.
      (py_get (Ex_out (snd (snd s))) i, py_get (Ey_out (snd (snd s))) i,
       py_get (Ez_out (snd (snd s))) i, py_get (Bx_out (snd (snd s))) i,
       py_get (By_out (snd (snd s))) i, py_get (Bz_out (snd (snd s))) i)"
  from for_each_upto_at [OF assms(1,4,5)] obtain s1 s2 where
    l: "for_each ?b [0 .. i - 1] (Sr, Sz, out) = Some s1" "?b i s1 = Some s2"
       "for_each ?b [i + 1 .. N - 1] s2 = Some (Sr', Sz', out')"
    by blast
  obtain Sr1 Sz1 out1 where s1: "s1 = (Sr1, Sz1, out1)" by (cases s1)
  obtain Sr2 Sz2 out2 where s2: "s2 = (Sr2, Sz2, out2)" by (cases s2)
  have len1: "length Sr1 = 4 \<and> length Sz1 = 4"
  proof (rule chunk_loop_length [where body = ?b and Sr = Sr and Sz = Sz and out = out
        and ?is = "[0 .. i - 1]" and out' = out1, OF _ assms(2,3)])
    show "\<forall>i Sr Sz out Sr' Sz' out'. length Sr = 4 \<longrightarrow> length Sz = 4 \<longrightarrow>
        ?b i (Sr, Sz, out) = Some (Sr', Sz', out') \<longrightarrow> length Sr' = 4 \<and> length Sz' = 4"
      by (intro allI impI) (rule gather_cubic_body_length)
    show "for_each ?b [0 .. i - 1] (Sr, Sz, out) = Some (Sr1, Sz1, out1)"
      using l(1) s1 by simp
  qed
  have after: "?rd (Sr', Sz', out') = ?rd s2"
  proof (rule for_each_frame [where rd = ?rd, OF _ l(3)])
    fix j :: int and s s' :: "real list \<times> real list \<times> eb_out"
    assume "j \<in> set [i + 1 .. N - 1]" "?b j s = Some s'"
    then show "?rd s' = ?rd s"
      using gather_cubic_body_other [of add G g x y z j "fst s" "fst (snd s)" "snd (snd s)"
          "fst s'" "fst (snd s')" "snd (snd s')" i] assms(4) by auto
  qed
  from gather_cubic_body_fields [of add G g x y z i Sr1 Sz1 out1 Sr2 Sz2 out2]
    l(2) s1 s2 len1 assms(4)
  obtain ex ey ez bx by' bz where
    "cubic_particle_fields add G g (x ! nat i) (y ! nat i) (z ! nat i)
        = Some (ex, ey, ez, bx, by', bz)"
    "py_get (Ex_out out2) i = Some ex" "py_get (Ey_out out2) i = Some ey"
    "py_get (Ez_out out2) i = Some ez" "py_get (Bx_out out2) i = Some bx"
    "py_get (By_out out2) i = Some by'" "py_get (Bz_out out2) i = Some bz"
    by auto
  then show ?thesis using after s2 by simp
qed

subsection \<open>The body of the envelope kernels, seen from its particle\<close>

lemma gather_envelope_linear_body_at:
  assumes "gather_envelope_linear_body add G g m_array gather_gradient average_a2 x y z i out
             = Some out'"
  shows "\<exists>xj yj zj rj cs sn F Fr Ft Fz old.
      py_get x i = Some xj \<and> py_get y i = Some yj \<and> py_get z i = Some zj
      \<and> cyl_conv xj yj = (rj, cs, sn)
      \<and> envelope_linear_sums add G g m_array gather_gradient xj yj zj = Some (F, Fr, Ft, Fz)
      \<and> py_get (a2_out out) i = Some old
      \<and> py_get (a2_out out') i
            = Some (if average_a2 then 0.5 * (old + Re (F * cnj F)) else Re (F * cnj F))
      \<and> (if gather_gradient then
            py_get (grad_a2_x out') i
              = Some (2 * Re ((of_real cs * Fr - of_real sn * Ft) * cnj F))
            \<and> py_get (grad_a2_y out') i
              = Some (2 * Re ((of_real sn * Fr + of_real cs * Ft) * cnj F))
            \<and> py_get (grad_a2_z out') i = Some (2 * Re (Fz * cnj F))
          else grad_a2_x out' = grad_a2_x out \<and> grad_a2_y out' = grad_a2_y out
            \<and> grad_a2_z out' = grad_a2_z out)"
proof -
  from gather_envelope_linear_body_Some [OF assms] obtain xj yj zj rj cs sn F Fr Ft Fz where
    p: "py_get x i = Some xj" "py_get y i = Some yj" "py_get z i = Some zj"
       "cyl_conv xj yj = (rj, cs, sn)"
       "for_each (envelope_mode_linear add g gather_gradient cs sn (linear_shape G rj zj))
            m_array (0, 0, 0, 0) = Some (F, Fr, Ft, Fz)"
       "envelope_store gather_gradient average_a2 cs sn i (F, Fr, Ft, Fz) out = Some out'"
    by (metis prod_cases4)
  have sums: "envelope_linear_sums add G g m_array gather_gradient xj yj zj = Some (F, Fr, Ft, Fz)"
    using p(4,5) by (simp add: envelope_linear_sums_def)
  show ?thesis
    using p(1-4) sums envelope_store_Some [OF p(6)] by blast
qed

lemma gather_envelope_cubic_body_at:
  assumes "gather_envelope_cubic_body add G g m_array gather_gradient average_a2 x y z i
             (Sr, Sz, out) = Some (Sr', Sz', out')"
  shows "\<exists>xj yj zj rj cs sn F Fr Ft Fz old.
      py_get x i = Some xj \<and> py_get y i = Some yj \<and> py_get z i = Some zj
      \<and> cyl_conv xj yj = (rj, cs, sn)
      \<and> envelope_cubic_sums add G g m_array gather_gradient xj yj zj Sr Sz
          = Some (F, Fr, Ft, Fz)
      \<and> py_get (a2_out out) i = Some old
      \<and> py_get (a2_out out') i
            = Some (if average_a2 then 0.5 * (old + Re (F * cnj F)) else Re (F * cnj F))
      \<and> (if gather_gradient then
            py_get (grad_a2_x out') i
              = Some (2 * Re ((of_real cs * Fr - of_real sn * Ft) * cnj F))
            \<and> py_get (grad_a2_y out') i
              = Some (2 * Re ((of_real sn * Fr + of_real cs * Ft) * cnj F))
            \<and> py_get (grad_a2_z out') i = Some (2 * Re (Fz * cnj F))
          else grad_a2_x out' = grad_a2_x out \<and> grad_a2_y out' = grad_a2_y out
            \<and> grad_a2_z out' = grad_a2_z out)"
proof -
  from gather_envelope_cubic_body_Some [OF assms] obtain xj yj zj rj cs sn ir_lowest iz_lowest
      F Fr Ft Fz where
    p: "py_get x i = Some xj" "py_get y i = Some yj" "py_get z i = Some zj"
       "cyl_conv xj yj = (rj, cs, sn)"
       "cubic_shape G rj zj Sr Sz = Some (ir_lowest, iz_lowest, Sr', Sz')"
       "for_each (envelope_mode_cubic add G g gather_gradient cs sn ir_lowest iz_lowest Sr' Sz')
            m_array (0, 0, 0, 0) = Some (F, Fr, Ft, Fz)"
       "envelope_store gather_gradient average_a2 cs sn i (F, Fr, Ft, Fz) out = Some out'"
    by (metis prod_cases4)
  have sums: "envelope_cubic_sums add G g m_array gather_gradient xj yj zj Sr Sz
      = Some (F, Fr, Ft, Fz)"
    using p(4-6) by (simp add: envelope_cubic_sums_def)
  show ?thesis
    using p(1-4) sums envelope_store_Some [OF p(7)] by blast
qed

lemma envelope_mode_linear_phase:
  assumes "envelope_mode_linear add g gather_gradient cs sn st m (F0, Fr0, Ft0, Fz0)
             = Some (F1, Fr1, Ft1, Fz1)"
  shows "\<exists>a_m. py_get (a_grids g) m = Some a_m
      \<and> add m F0 (if m < 0 then cnj ((of_real cs - \<i> * of_real sn) ^ nat \<bar>m\<bar>)
                   else (of_real cs - \<i> * of_real sn) ^ nat \<bar>m\<bar>) a_m st = Some F1"
  using assms
  by (auto simp: envelope_mode_linear_def exptheta_def Let_def
      split: Option.bind_split_asm prod.split_asm if_split_asm)

subsection \<open>The whole call of the linear envelope kernel, seen from one particle\<close>

lemma gather_envelope_linear_body_other:
  assumes "gather_envelope_linear_body add G g m_array gather_gradient average_a2 x y z j out
             = Some out'"
    and "0 \<le> j" "0 \<le> k" "k \<noteq> j"
  shows "py_get (a2_out out') k = py_get (a2_out out) k
    \<and> py_get (grad_a2_x out') k = py_get (grad_a2_x out) k
    \<and> py_get (grad_a2_y out') k = py_get (grad_a2_y out) k
    \<and> py_get (grad_a2_z out') k = py_get (grad_a2_z out) k"
proof -
  from gather_envelope_linear_body_Some [OF assms(1)] obtain cs sn acc where
    "envelope_store gather_gradient average_a2 cs sn j acc out = Some out'" by blast
  then show ?thesis by (rule envelope_store_other) (use assms in auto)
qed

lemma gather_envelope_linear_body_no_gradient:
  assumes "gather_envelope_linear_body add G g m_array False average_a2 x y z j out = Some out'"
  shows "grad_a2_x out' = grad_a2_x out \<and> grad_a2_y out' = grad_a2_y out
    \<and> grad_a2_z out' = grad_a2_z out"
proof -
  from gather_envelope_linear_body_Some [OF assms(1)] obtain cs sn F Fr Ft Fz where
    "envelope_store False average_a2 cs sn j (F, Fr, Ft, Fz) out = Some out'"
    by (metis prod_cases4)
  from envelope_store_Some [OF this] show ?thesis by simp
qed

lemma gather_envelope_linear_no_gradient:
  assumes "gather_envelope_field_numba_linear add G g m_array x y z out False average_a2
             = Some out'"
  shows "grad_a2_x out' = grad_a2_x out \<and> grad_a2_y out' = grad_a2_y out
    \<and> grad_a2_z out' = grad_a2_z out"
proof -
  let ?rd = "\<lambda>s. (grad_a2_x s, grad_a2_y s, grad_a2_z s)"
  have "?rd out' = ?rd out"
  proof (rule for_each_frame [where rd = ?rd])
    show "for_each (gather_envelope_linear_body add G g m_array False average_a2 x y z)
            [0 .. int (length x) - 1] out = Some out'"
      using assms by (simp add: gather_envelope_field_numba_linear_def)
  next
    fix j :: int and s s' :: envelope_out
    assume "gather_envelope_linear_body add G g m_array False average_a2 x y z j s = Some s'"
    then show "?rd s' = ?rd s"
      using gather_envelope_linear_body_no_gradient by blast
  qed
  then show ?thesis by simp
qed

lemma gather_envelope_linear_at:
  assumes "gather_envelope_field_numba_linear add G g m_array x y z out gather_gradient
             average_a2 = Some out'"
    and "0 \<le> i" "i < int (length x)"
  shows "\<exists>F Fr Ft Fz old cs sn.
      envelope_linear_sums add G g m_array gather_gradient (x ! nat i) (y ! nat i) (z ! nat i)
        = Some (F, Fr, Ft, Fz)
      \<and> cs = fst (snd (cyl_conv (x ! nat i) (y ! nat i)))
      \<and> sn = snd (snd (cyl_conv (x ! nat i) (y ! nat i)))
      \<and> py_get (a2_out out) i = Some old
      \<and> py_get (a2_out out') i
            = Some (if average_a2 then 0.5 * (old + Re (F * cnj F)) else Re (F * cnj F))
      \<and> (if gather_gradient then
            py_get (grad_a2_x out') i
              = Some (2 * Re ((of_real cs * Fr - of_real sn * Ft) * cnj F))
            \<and> py_get (grad_a2_y out') i
              = Some (2 * Re ((of_real sn * Fr + of_real cs * Ft) * cnj F))
            \<and> py_get (grad_a2_z out') i = Some (2 * Re (Fz * cnj F))
          else grad_a2_x out' = grad_a2_x out \<and> grad_a2_y out' = grad_a2_y out
            \<and> grad_a2_z out' = grad_a2_z out)"
proof -
  let ?b = "gather_envelope_linear_body add G g m_array gather_gradient average_a2 x y z"
  let ?rd = "\<lambda>s. (py_get (a2_out s) i, py_get (grad_a2_x s) i, py_get (grad_a2_y s) i,
                  py_get (grad_a2_z s) i)"
  from assms obtain s1 s2 where
    l: "for_each ?b [0 .. i - 1] out = Some s1" "?b i s1 = Some s2"
       "for_each ?b [i + 1 .. int (length x) - 1] s2 = Some out'"
    using for_each_upto_at [of ?b "int (length x)" out out' i]
    by (auto simp: gather_envelope_field_numba_linear_def)
  have before: "?rd s1 = ?rd out"
  proof (rule for_each_frame [where rd = ?rd, OF _ l(1)])
    fix j :: int and s s' :: envelope_out
    assume "j \<in> set [0 .. i - 1]" "?b j s = Some s'"
    then show "?rd s' = ?rd s"
      using gather_envelope_linear_body_other [of add G g m_array gather_gradient average_a2
          x y z j s s' i] assms(2) by auto
  qed
  have after: "?rd out' = ?rd s2"
  proof (rule for_each_frame [where rd = ?rd, OF _ l(3)])
    fix j :: int and s s' :: envelope_out
    assume "j \<in> set [i + 1 .. int (length x) - 1]" "?b j s = Some s'"
    then show "?rd s' = ?rd s"
      using gather_envelope_linear_body_other [of add G g m_array gather_gradient average_a2
          x y z j s s' i] assms(2) by auto
  qed
  from gather_envelope_linear_body_Some [OF l(2)] obtain xj yj zj rj cs sn F Fr Ft Fz where
    p: "py_get x i = Some xj" "py_get y i = Some yj" "py_get z i = Some zj"
       "cyl_conv xj yj = (rj, cs, sn)"
       "for_each (envelope_mode_linear add g gather_gradient cs sn (linear_shape G rj zj))
            m_array (0, 0, 0, 0) = Some (F, Fr, Ft, Fz)"
       "envelope_store gather_gradient average_a2 cs sn i (F, Fr, Ft, Fz) s1 = Some s2"
    by (metis prod_cases4)
  have xyz: "xj = x ! nat i" "yj = y ! nat i" "zj = z ! nat i"
    using p(1-3) assms(2) by (auto simp: py_get_def Let_def split: if_splits)
  have sums: "envelope_linear_sums add G g m_array gather_gradient (x ! nat i) (y ! nat i)
       (z ! nat i) = Some (F, Fr, Ft, Fz)"
    using p(4,5) xyz by (simp add: envelope_linear_sums_def)
  have cs: "cs = fst (snd (cyl_conv (x ! nat i) (y ! nat i)))"
    "sn = snd (snd (cyl_conv (x ! nat i) (y ! nat i)))"
    using p(4) xyz by simp_all
  note st = envelope_store_Some [OF p(6)]
  from st obtain old where old: "py_get (a2_out s1) i = Some old"
    "py_get (a2_out s2) i
       = Some (if average_a2 then 0.5 * (old + Re (F * cnj F)) else Re (F * cnj F))"
    by blast
  have a2: "py_get (a2_out out) i = Some old"
    "py_get (a2_out out') i
       = Some (if average_a2 then 0.5 * (old + Re (F * cnj F)) else Re (F * cnj F))"
    using old before after by simp_all
  have grad: "if gather_gradient then
            py_get (grad_a2_x out') i
              = Some (2 * Re ((of_real cs * Fr - of_real sn * Ft) * cnj F))
            \<and> py_get (grad_a2_y out') i
              = Some (2 * Re ((of_real sn * Fr + of_real cs * Ft) * cnj F))
            \<and> py_get (grad_a2_z out') i = Some (2 * Re (Fz * cnj F))
          else grad_a2_x out' = grad_a2_x out \<and> grad_a2_y out' = grad_a2_y out
            \<and> grad_a2_z out' = grad_a2_z out"
  proof (cases gather_gradient)
    case True
    then show ?thesis using st after by simp
  next
    case False
    then show ?thesis using gather_envelope_linear_no_gradient assms(1) by simp
  qed
  show ?thesis using sums cs a2 grad by blast
qed

subsection \<open>The whole call of the linear kernel, seen from one particle\<close>

lemma gather_linear_body_other:
  assumes "gather_linear_body add G g x y z j out = Some out'"
    and "0 \<le> j" "0 \<le> k" "k \<noteq> j"
  shows "py_get (Ex_out out') k = py_get (Ex_out out) k
    \<and> py_get (Ey_out out') k = py_get (Ey_out out) k
    \<and> py_get (Ez_out out') k = py_get (Ez_out out) k
    \<and> py_get (Bx_out out') k = py_get (Bx_out out) k
    \<and> py_get (By_out out') k = py_get (By_out out) k
    \<and> py_get (Bz_out out') k = py_get (Bz_out out) k"
proof -
  from assms(1) obtain ex ey ez bx by' bz v1 v2 v3 v4 v5 v6 where
    f: "py_set (Ex_out out) j v1 = Some ex" "py_set (Ey_out out) j v2 = Some ey"
       "py_set (Ez_out out) j v3 = Some ez" "py_set (Bx_out out) j v4 = Some bx"
       "py_set (By_out out) j v5 = Some by'" "py_set (Bz_out out) j v6 = Some bz"
       "out' = \<lparr> Ex_out = ex, Ey_out = ey, Ez_out = ez, Bx_out = bx, By_out = by', Bz_out = bz \<rparr>"
    by (auto simp: gather_linear_body_def Let_def split: Option.bind_split_asm prod.split_asm)
  show ?thesis
    using f assms(2-4) by (simp add: py_get_py_set_other)
qed

lemma gather_linear_at:
  assumes "gather_field_numba_linear add G g x y z out = Some out'"
    and "0 \<le> i" "i < int (length x)"
  shows "\<exists>rj cs sn Fr Ft Fz Gr Gt Gz.
      cyl_conv (x ! nat i) (y ! nat i) = (rj, cs, sn)
      \<and> linear_sums add (Er_m0 g, Et_m0 g, Ez_m0 g) (Er_m1 g, Et_m1 g, Ez_m1 g) cs sn
            (linear_shape G rj (z ! nat i)) = Some (Fr, Ft, Fz)
      \<and> linear_sums add (Br_m0 g, Bt_m0 g, Bz_m0 g) (Br_m1 g, Bt_m1 g, Bz_m1 g) cs sn
            (linear_shape G rj (z ! nat i)) = Some (Gr, Gt, Gz)
      \<and> py_get (Ex_out out') i = Some (cs * Fr - sn * Ft)
      \<and> py_get (Ey_out out') i = Some (sn * Fr + cs * Ft)
      \<and> py_get (Ez_out out') i = Some Fz
      \<and> py_get (Bx_out out') i = Some (cs * Gr - sn * Gt)
      \<and> py_get (By_out out') i = Some (sn * Gr + cs * Gt)
      \<and> py_get (Bz_out out') i = Some Gz"
proof -
  let ?b = "gather_linear_body add G g x y z"
  let ?rd = "\<lambda>s. (py_get (Ex_out s) i, py_get (Ey_out s) i, py_get (Ez_out s) i,
                  py_get (Bx_out s) i, py_get (By_out s) i, py_get (Bz_out s) i)"
  from assms obtain s1 s2 where
    l: "for_each ?b [0 .. i - 1] out = Some s1" "?b i s1 = Some s2"
       "for_each ?b [i + 1 .. int (length x) - 1] s2 = Some out'"
    using for_each_upto_at [of ?b "int (length x)" out out' i]
    by (auto simp: gather_field_numba_linear_def)
  have after: "?rd out' = ?rd s2"
  proof (rule for_each_frame [where rd = ?rd, OF _ l(3)])
    fix j :: int and s s' :: eb_out
    assume "j \<in> set [i + 1 .. int (length x) - 1]" "?b j s = Some s'"
    then show "?rd s' = ?rd s"
      using gather_linear_body_other [of add G g x y z j s s' i] assms(2) by auto
  qed
  from gather_linear_body_Some [OF l(2)] obtain xj yj zj rj cs sn Fr Ft Fz Gr Gt Gz where
    f: "py_get x i = Some xj" "py_get y i = Some yj" "py_get z i = Some zj"
      "cyl_conv xj yj = (rj, cs, sn)"
      "linear_sums add (Er_m0 g, Et_m0 g, Ez_m0 g) (Er_m1 g, Et_m1 g, Ez_m1 g) cs sn
            (linear_shape G rj zj) = Some (Fr, Ft, Fz)"
      "linear_sums add (Br_m0 g, Bt_m0 g, Bz_m0 g) (Br_m1 g, Bt_m1 g, Bz_m1 g) cs sn
            (linear_shape G rj zj) = Some (Gr, Gt, Gz)"
      "py_get (Ex_out s2) i = Some (cs * Fr - sn * Ft)"
      "py_get (Ey_out s2) i = Some (sn * Fr + cs * Ft)"
      "py_get (Ez_out s2) i = Some Fz"
      "py_get (Bx_out s2) i = Some (cs * Gr - sn * Gt)"
      "py_get (By_out s2) i = Some (sn * Gr + cs * Gt)"
      "py_get (Bz_out s2) i = Some Gz"
    by blast
  have xyz: "xj = x ! nat i" "yj = y ! nat i" "zj = z ! nat i"
    using f(1-3) assms(2) by (auto simp: py_get_def Let_def split: if_splits)
  show ?thesis
    using f(4-12) after unfolding xyz by simp
qed

subsection \<open>Calls of the linear kernels that return\<close>

lemma gather_linear_body_returns:
  assumes total: "\<forall>m F e grids st. add m F e grids st \<noteq> None"
    and i: "0 \<le> i" "i < int (length x)"
    and len: "length y = length x" "length z = length x"
      "length (Ex_out out) = length x" "length (Ey_out out) = length x"
      "length (Ez_out out) = length x" "length (Bx_out out) = length x"
      "length (By_out out) = length x" "length (Bz_out out) = length x"
  shows "\<exists>out'. gather_linear_body add G g x y z i out = Some out'
      \<and> length (Ex_out out') = length x \<and> length (Ey_out out') = length x
      \<and> length (Ez_out out') = length x \<and> length (Bx_out out') = length x
      \<and> length (By_out out') = length x \<and> length (Bz_out out') = length x"
proof -
  obtain rj cs sn where c: "cyl_conv (x ! nat i) (y ! nat i) = (rj, cs, sn)"
    by (cases "cyl_conv (x ! nat i) (y ! nat i)")
  let ?st = "linear_shape G rj (z ! nat i)"
  from total obtain F where F: "add 0 (0, 0, 0) 1 (Er_m0 g, Et_m0 g, Ez_m0 g) ?st = Some F"
    by (meson option.exhaust)
  from total obtain Fr Ft Fz where
    F1: "add 1 F (exptheta1 cs sn) (Er_m1 g, Et_m1 g, Ez_m1 g) ?st = Some (Fr, Ft, Fz)"
    by (metis option.exhaust prod_cases3)
  from total obtain H where H: "add 0 (0, 0, 0) 1 (Br_m0 g, Bt_m0 g, Bz_m0 g) ?st = Some H"
    by (meson option.exhaust)
  from total obtain Gr Gt Gz where
    H1: "add 1 H (exptheta1 cs sn) (Br_m1 g, Bt_m1 g, Bz_m1 g) ?st = Some (Gr, Gt, Gz)"
    by (metis option.exhaust prod_cases3)
  have g: "py_get x i = Some (x ! nat i)" "py_get y i = Some (y ! nat i)"
    "py_get z i = Some (z ! nat i)"
    using i len by (simp_all add: py_get_nonneg)
  have s: "py_set (Ex_out out) i v = Some ((Ex_out out)[nat i := v])"
    "py_set (Ey_out out) i v = Some ((Ey_out out)[nat i := v])"
    "py_set (Ez_out out) i v = Some ((Ez_out out)[nat i := v])"
    "py_set (Bx_out out) i v = Some ((Bx_out out)[nat i := v])"
    "py_set (By_out out) i v = Some ((By_out out)[nat i := v])"
    "py_set (Bz_out out) i v = Some ((Bz_out out)[nat i := v])" for v
    using i len by (simp_all add: py_set_nonneg)
  show ?thesis
    by (simp add: gather_linear_body_def g c Let_def F F1 H H1 s len)
qed

lemma gather_linear_returns:
  assumes total: "\<forall>m F e grids st. add m F e grids st \<noteq> None"
    and len: "length y = length x" "length z = length x"
      "length (Ex_out out) = length x" "length (Ey_out out) = length x"
      "length (Ez_out out) = length x" "length (Bx_out out) = length x"
      "length (By_out out) = length x" "length (Bz_out out) = length x"
  shows "\<exists>out'. gather_field_numba_linear add G g x y z out = Some out'"
proof -
  let ?I = "\<lambda>s. length (Ex_out s) = length x \<and> length (Ey_out s) = length x
      \<and> length (Ez_out s) = length x \<and> length (Bx_out s) = length x
      \<and> length (By_out s) = length x \<and> length (Bz_out s) = length x"
  have "\<exists>s'. for_each (gather_linear_body add G g x y z) [0 .. int (length x) - 1] out = Some s'
          \<and> ?I s'"
  proof (rule for_each_total [where I = ?I])
    show "?I out" using len by simp
    show "\<forall>i s. i \<in> set [0 .. int (length x) - 1] \<longrightarrow> ?I s \<longrightarrow>
        (\<exists>s'. gather_linear_body add G g x y z i s = Some s' \<and> ?I s')"
    proof (intro allI impI)
      fix i :: int and s :: eb_out
      assume "i \<in> set [0 .. int (length x) - 1]" and "?I s"
      then show "\<exists>s'. gather_linear_body add G g x y z i s = Some s' \<and> ?I s'"
        using gather_linear_body_returns [OF total, of i x y z s G g] len(1,2) by simp
    qed
  qed
  then show ?thesis by (auto simp: gather_field_numba_linear_def)
qed

lemma envelope_mode_linear_returns:
  assumes total: "\<forall>m F e a st. add m F e a st \<noteq> None"
    and a: "py_get (a_grids g) m \<noteq> None"
    and gr: "gather_gradient \<longrightarrow> py_get (grad_a_r g) m \<noteq> None
        \<and> py_get (grad_a_t g) m \<noteq> None \<and> py_get (grad_a_z g) m \<noteq> None"
  shows "\<exists>acc'. envelope_mode_linear add g gather_gradient cs sn st m acc = Some acc'"
proof -
  obtain F Fr Ft Fz where acc: "acc = (F, Fr, Ft, Fz)" by (cases acc)
  from a obtain a_m where a_m: "py_get (a_grids g) m = Some a_m" by blast
  from total obtain F' where F': "add m F (exptheta cs sn m) a_m st = Some F'" by blast
  show ?thesis
  proof (cases gather_gradient)
    case False
    then show ?thesis by (simp add: envelope_mode_linear_def acc a_m F' Let_def)
  next
    case True
    with gr obtain gr_m gt_m gz_m where
      gs: "py_get (grad_a_r g) m = Some gr_m" "py_get (grad_a_t g) m = Some gt_m"
        "py_get (grad_a_z g) m = Some gz_m" by blast
    from total obtain Fr' where Fr': "add m Fr (exptheta cs sn m) gr_m st = Some Fr'" by blast
    from total obtain Ft' where Ft': "add m Ft (exptheta cs sn m) gt_m st = Some Ft'" by blast
    from total obtain Fz' where Fz': "add m Fz (exptheta cs sn m) gz_m st = Some Fz'" by blast
    show ?thesis
      using True by (simp add: envelope_mode_linear_def acc a_m F' gs Fr' Ft' Fz' Let_def)
  qed
qed

lemma envelope_linear_modes_return:
  assumes total: "\<forall>m F e a st. add m F e a st \<noteq> None"
    and modes: "\<forall>m \<in> set m_array. py_get (a_grids g) m \<noteq> None
        \<and> (gather_gradient \<longrightarrow> py_get (grad_a_r g) m \<noteq> None
              \<and> py_get (grad_a_t g) m \<noteq> None \<and> py_get (grad_a_z g) m \<noteq> None)"
  shows "\<exists>acc'. for_each (envelope_mode_linear add g gather_gradient cs sn st) m_array acc
           = Some acc'"
proof -
  have "\<exists>s'. for_each (envelope_mode_linear add g gather_gradient cs sn st) m_array acc = Some s'
          \<and> True"
  proof (rule for_each_total [where I = "\<lambda>s. True"])
    show "\<forall>m s. m \<in> set m_array \<longrightarrow> True \<longrightarrow>
        (\<exists>s'. envelope_mode_linear add g gather_gradient cs sn st m s = Some s' \<and> True)"
      using envelope_mode_linear_returns [OF total] modes by simp
  qed simp
  then show ?thesis by simp
qed

lemma envelope_store_returns:
  assumes "0 \<le> i" "i < int (length (a2_out out))"
    and "gather_gradient \<longrightarrow> i < int (length (grad_a2_x out))
        \<and> i < int (length (grad_a2_y out)) \<and> i < int (length (grad_a2_z out))"
  shows "\<exists>out'. envelope_store gather_gradient average_a2 cs sn i acc out = Some out'
      \<and> length (a2_out out') = length (a2_out out)
      \<and> length (grad_a2_x out') = length (grad_a2_x out)
      \<and> length (grad_a2_y out') = length (grad_a2_y out)
      \<and> length (grad_a2_z out') = length (grad_a2_z out)"
proof -
  obtain F Fr Ft Fz where acc: "acc = (F, Fr, Ft, Fz)" by (cases acc)
  show ?thesis
    using assms
    by (cases gather_gradient; cases average_a2)
       (simp_all add: envelope_store_def acc Let_def py_set_nonneg py_get_nonneg)
qed

lemma gather_envelope_linear_body_returns:
  assumes total: "\<forall>m F e a st. add m F e a st \<noteq> None"
    and modes: "\<forall>m \<in> set m_array. py_get (a_grids g) m \<noteq> None
        \<and> (gather_gradient \<longrightarrow> py_get (grad_a_r g) m \<noteq> None
              \<and> py_get (grad_a_t g) m \<noteq> None \<and> py_get (grad_a_z g) m \<noteq> None)"
    and i: "0 \<le> i" "i < int (length x)"
    and len: "length y = length x" "length z = length x" "length (a2_out out) = length x"
    and glen: "gather_gradient \<longrightarrow> length (grad_a2_x out) = length x
        \<and> length (grad_a2_y out) = length x \<and> length (grad_a2_z out) = length x"
  shows "\<exists>out'. gather_envelope_linear_body add G g m_array gather_gradient average_a2 x y z i out
          = Some out'
      \<and> length (a2_out out') = length (a2_out out)
      \<and> length (grad_a2_x out') = length (grad_a2_x out)
      \<and> length (grad_a2_y out') = length (grad_a2_y out)
      \<and> length (grad_a2_z out') = length (grad_a2_z out)"
proof -
  obtain rj cs sn where c: "cyl_conv (x ! nat i) (y ! nat i) = (rj, cs, sn)"
    by (cases "cyl_conv (x ! nat i) (y ! nat i)")
  have g: "py_get x i = Some (x ! nat i)" "py_get y i = Some (y ! nat i)"
    "py_get z i = Some (z ! nat i)"
    using i len by (simp_all add: py_get_nonneg)
  from envelope_linear_modes_return [OF total modes] obtain acc where
    acc: "for_each (envelope_mode_linear add g gather_gradient cs sn
            (linear_shape G rj (z ! nat i))) m_array (0, 0, 0, 0) = Some acc"
    by blast
  have "\<exists>out'. envelope_store gather_gradient average_a2 cs sn i acc out = Some out'
      \<and> length (a2_out out') = length (a2_out out)
      \<and> length (grad_a2_x out') = length (grad_a2_x out)
      \<and> length (grad_a2_y out') = length (grad_a2_y out)
      \<and> length (grad_a2_z out') = length (grad_a2_z out)"
    using i len glen by (intro envelope_store_returns) simp_all
  then show ?thesis
    by (simp add: gather_envelope_linear_body_def g c acc Let_def)
qed

lemma gather_envelope_linear_returns:
  assumes total: "\<forall>m F e a st. add m F e a st \<noteq> None"
    and modes: "\<forall>m \<in> set m_array. py_get (a_grids g) m \<noteq> None
        \<and> (gather_gradient \<longrightarrow> py_get (grad_a_r g) m \<noteq> None
              \<and> py_get (grad_a_t g) m \<noteq> None \<and> py_get (grad_a_z g) m \<noteq> None)"
    and len: "length y = length x" "length z = length x" "length (a2_out out) = length x"
    and glen: "gather_gradient \<longrightarrow> length (grad_a2_x out) = length x
        \<and> length (grad_a2_y out) = length x \<and> length (grad_a2_z out) = length x"
  shows "\<exists>out'. gather_envelope_field_numba_linear add G g m_array x y z out gather_gradient
           average_a2 = Some out'"
proof -
  let ?I = "\<lambda>s. length (a2_out s) = length x
      \<and> (gather_gradient \<longrightarrow> length (grad_a2_x s) = length x
        \<and> length (grad_a2_y s) = length x \<and> length (grad_a2_z s) = length x)"
  let ?b = "gather_envelope_linear_body add G g m_array gather_gradient average_a2 x y z"
  have "\<exists>s'. for_each ?b [0 .. int (length x) - 1] out = Some s' \<and> ?I s'"
  proof (rule for_each_total [where I = ?I])
    show "?I out" using len glen by simp
    show "\<forall>i s. i \<in> set [0 .. int (length x) - 1] \<longrightarrow> ?I s \<longrightarrow>
        (\<exists>s'. ?b i s = Some s' \<and> ?I s')"
    proof (intro allI impI)
      fix i :: int and s :: envelope_out
      assume "i \<in> set [0 .. int (length x) - 1]" and I: "?I s"
      then have i: "0 \<le> i" "i < int (length x)" by simp_all
      from gather_envelope_linear_body_returns [OF total modes i len(1,2), where out = s
          and ?average_a2.0 = average_a2 and G = G] I
      show "\<exists>s'. ?b i s = Some s' \<and> ?I s'" by auto
    qed
  qed
  then show ?thesis by (auto simp: gather_envelope_field_numba_linear_def)
qed

subsection \<open>The whole call of the cubic kernels, seen from one particle\<close>

lemma gather_cubic_as_loop:
  assumes "chunk_partition idx nthreads N" and s: "length S = 4" "length T = 4"
  shows "gather_field_numba_cubic add G g x y z out junk nthreads idx
      = map_option (\<lambda>s. snd (snd s))
          (for_each (gather_cubic_body add G g x y z) [0 .. N - 1] (S, T, out))"
proof -
  have p: "0 \<le> nthreads" "int (length idx) = nthreads + 1"
    "idx ! 0 = 0" "idx ! nat nthreads = N" "sorted idx"
    using assms(1) by (simp_all add: chunk_partition_def)
  have n: "Suc (nat nthreads) \<le> length idx" using p(1,2) by simp
  let ?b = "gather_cubic_body add G g x y z"
  have "gather_field_numba_cubic add G g x y z out junk nthreads idx
      = for_each (gather_cubic_chunk add G g x y z junk idx) [0 .. int (nat nthreads) - 1] out"
    using p(1) by (simp add: gather_field_numba_cubic_def)
  also have "\<dots> = map_option (\<lambda>s. snd (snd s))
           (for_each ?b [idx ! 0 .. idx ! nat nthreads - 1] (S, T, out))"
  proof (rule chunk_threads [where body = ?b and junk = junk and idx = idx
        and chunk = "gather_cubic_chunk add G g x y z junk idx", OF _ _ _ p(5) n s])
    show "\<forall>i Sr Sz Sr' Sz' out. length Sr = 4 \<longrightarrow> length Sz = 4 \<longrightarrow>
        length Sr' = 4 \<longrightarrow> length Sz' = 4 \<longrightarrow> ?b i (Sr, Sz, out) = ?b i (Sr', Sz', out)"
      by (intro allI impI) (rule gather_cubic_body_scratch)
    show "\<forall>i Sr Sz out Sr' Sz' out'. length Sr = 4 \<longrightarrow> length Sz = 4 \<longrightarrow>
        ?b i (Sr, Sz, out) = Some (Sr', Sz', out') \<longrightarrow> length Sr' = 4 \<and> length Sz' = 4"
      by (intro allI impI) (rule gather_cubic_body_length)
    show "\<forall>nt out. 0 \<le> nt \<longrightarrow> nt + 1 < int (length idx) \<longrightarrow>
        gather_cubic_chunk add G g x y z junk idx nt out
        = map_option (\<lambda>s. snd (snd s))
           (for_each ?b [idx ! nat nt .. idx ! nat (nt + 1) - 1]
              (np_empty (fst (junk nt)) 4, np_empty (snd (junk nt)) 4, out))"
      by (intro allI impI) (rule gather_cubic_chunk_range)
  qed
  also have "\<dots> = map_option (\<lambda>s. snd (snd s)) (for_each ?b [0 .. N - 1] (S, T, out))"
    using p by simp
  finally show ?thesis .
qed

lemma gather_envelope_cubic_as_loop:
  assumes "chunk_partition idx nthreads N" and s: "length S = 4" "length T = 4"
  shows "gather_envelope_field_numba_cubic add G g m_array x y z out junk nthreads idx
           gather_gradient average_a2
      = map_option (\<lambda>s. snd (snd s))
          (for_each (gather_envelope_cubic_body add G g m_array gather_gradient average_a2 x y z)
             [0 .. N - 1] (S, T, out))"
proof -
  have p: "0 \<le> nthreads" "int (length idx) = nthreads + 1"
    "idx ! 0 = 0" "idx ! nat nthreads = N" "sorted idx"
    using assms(1) by (simp_all add: chunk_partition_def)
  have n: "Suc (nat nthreads) \<le> length idx" using p(1,2) by simp
  let ?e = "gather_envelope_cubic_body add G g m_array gather_gradient average_a2 x y z"
  let ?c = "gather_envelope_cubic_chunk add G g m_array gather_gradient average_a2 x y z"
  have "gather_envelope_field_numba_cubic add G g m_array x y z out junk nthreads idx
          gather_gradient average_a2
      = for_each (?c junk idx) [0 .. int (nat nthreads) - 1] out"
    using p(1) by (simp add: gather_envelope_field_numba_cubic_def)
  also have "\<dots> = map_option (\<lambda>s. snd (snd s))
           (for_each ?e [idx ! 0 .. idx ! nat nthreads - 1] (S, T, out))"
  proof (rule chunk_threads [where body = ?e and junk = junk and idx = idx
        and chunk = "?c junk idx", OF _ _ _ p(5) n s])
    show "\<forall>i Sr Sz Sr' Sz' out. length Sr = 4 \<longrightarrow> length Sz = 4 \<longrightarrow>
        length Sr' = 4 \<longrightarrow> length Sz' = 4 \<longrightarrow> ?e i (Sr, Sz, out) = ?e i (Sr', Sz', out)"
      by (intro allI impI) (rule gather_envelope_cubic_body_scratch)
    show "\<forall>i Sr Sz out Sr' Sz' out'. length Sr = 4 \<longrightarrow> length Sz = 4 \<longrightarrow>
        ?e i (Sr, Sz, out) = Some (Sr', Sz', out') \<longrightarrow> length Sr' = 4 \<and> length Sz' = 4"
      by (intro allI impI) (rule gather_envelope_cubic_body_length)
    show "\<forall>nt out. 0 \<le> nt \<longrightarrow> nt + 1 < int (length idx) \<longrightarrow>
        ?c junk idx nt out
        = map_option (\<lambda>s. snd (snd s))
           (for_each ?e [idx ! nat nt .. idx ! nat (nt + 1) - 1]
              (np_empty (fst (junk nt)) 4, np_empty (snd (junk nt)) 4, out))"
      by (intro allI impI) (rule gather_envelope_cubic_chunk_range)
  qed
  also have "\<dots> = map_option (\<lambda>s. snd (snd s)) (for_each ?e [0 .. N - 1] (S, T, out))"
    using p by simp
  finally show ?thesis .
qed

lemma gather_cubic_at:
  assumes "chunk_partition idx nthreads N"
    and "gather_field_numba_cubic add G g x y z out junk nthreads idx = Some out'"
    and i: "0 \<le> i" "i < N"
  shows "\<exists>rj cs sn Fr Ft Fz Gr Gt Gz.
      cyl_conv (x ! nat i) (y ! nat i) = (rj, cs, sn)
      \<and> cubic_sums add (Er_m0 g, Et_m0 g, Ez_m0 g) (Er_m1 g, Et_m1 g, Ez_m1 g) cs sn
            (cubic_lowest (r_cell G rj)) (cubic_lowest (z_cell G (z ! nat i)))
            (cubic_weights (r_cell G rj - of_int (cubic_lowest (r_cell G rj))))
            (cubic_weights (z_cell G (z ! nat i) - of_int (cubic_lowest (z_cell G (z ! nat i)))))
            (Nr G) (Nz G) = Some (Fr, Ft, Fz)
      \<and> cubic_sums add (Br_m0 g, Bt_m0 g, Bz_m0 g) (Br_m1 g, Bt_m1 g, Bz_m1 g) cs sn
            (cubic_lowest (r_cell G rj)) (cubic_lowest (z_cell G (z ! nat i)))
            (cubic_weights (r_cell G rj - of_int (cubic_lowest (r_cell G rj))))
            (cubic_weights (z_cell G (z ! nat i) - of_int (cubic_lowest (z_cell G (z ! nat i)))))
            (Nr G) (Nz G) = Some (Gr, Gt, Gz)
      \<and> py_get (Ex_out out') i = Some (cs * Fr - sn * Ft)
      \<and> py_get (Ey_out out') i = Some (sn * Fr + cs * Ft)
      \<and> py_get (Ez_out out') i = Some Fz
      \<and> py_get (Bx_out out') i = Some (cs * Gr - sn * Gt)
      \<and> py_get (By_out out') i = Some (sn * Gr + cs * Gt)
      \<and> py_get (Bz_out out') i = Some Gz"
proof -
  let ?S = "np_empty (fst (junk 0)) 4"
  let ?T = "np_empty (snd (junk 0)) 4"
  have s: "length ?S = 4" "length ?T = 4" by (simp_all add: np_empty_length)
  from assms(2) gather_cubic_as_loop [OF assms(1) s, of add G g x y z out junk]
  obtain Sr' Sz' where
    "for_each (gather_cubic_body add G g x y z) [0 .. N - 1] (?S, ?T, out) = Some (Sr', Sz', out')"
    by auto
  from gather_cubic_loop_at [OF this s i] obtain ex ey ez bx by' bz where
    f: "cubic_particle_fields add G g (x ! nat i) (y ! nat i) (z ! nat i)
        = Some (ex, ey, ez, bx, by', bz)"
      "py_get (Ex_out out') i = Some ex" "py_get (Ey_out out') i = Some ey"
      "py_get (Ez_out out') i = Some ez" "py_get (Bx_out out') i = Some bx"
      "py_get (By_out out') i = Some by'" "py_get (Bz_out out') i = Some bz"
    by blast
  obtain rj cs sn where c: "cyl_conv (x ! nat i) (y ! nat i) = (rj, cs, sn)"
    by (cases "cyl_conv (x ! nat i) (y ! nat i)")
  from f(1) c obtain Fr Ft Fz Gr Gt Gz where
    "cubic_sums add (Er_m0 g, Et_m0 g, Ez_m0 g) (Er_m1 g, Et_m1 g, Ez_m1 g) cs sn
            (cubic_lowest (r_cell G rj)) (cubic_lowest (z_cell G (z ! nat i)))
            (cubic_weights (r_cell G rj - of_int (cubic_lowest (r_cell G rj))))
            (cubic_weights (z_cell G (z ! nat i) - of_int (cubic_lowest (z_cell G (z ! nat i)))))
            (Nr G) (Nz G) = Some (Fr, Ft, Fz)"
    "cubic_sums add (Br_m0 g, Bt_m0 g, Bz_m0 g) (Br_m1 g, Bt_m1 g, Bz_m1 g) cs sn
            (cubic_lowest (r_cell G rj)) (cubic_lowest (z_cell G (z ! nat i)))
            (cubic_weights (r_cell G rj - of_int (cubic_lowest (r_cell G rj))))
            (cubic_weights (z_cell G (z ! nat i) - of_int (cubic_lowest (z_cell G (z ! nat i)))))
            (Nr G) (Nz G) = Some (Gr, Gt, Gz)"
    "ex = cs * Fr - sn * Ft" "ey = sn * Fr + cs * Ft" "ez = Fz"
    "bx = cs * Gr - sn * Gt" "by' = sn * Gr + cs * Gt" "bz = Gz"
    by (auto simp: cubic_particle_fields_def Let_def split: Option.bind_split_asm prod.split_asm)
  then show ?thesis using c f(2-7) by blast
qed

lemma gather_envelope_cubic_body_other:
  assumes "gather_envelope_cubic_body add G g m_array gather_gradient average_a2 x y z j
             (Sr, Sz, out) = Some (Sr', Sz', out')"
    and "0 \<le> j" "0 \<le> k" "k \<noteq> j"
  shows "py_get (a2_out out') k = py_get (a2_out out) k
    \<and> py_get (grad_a2_x out') k = py_get (grad_a2_x out) k
    \<and> py_get (grad_a2_y out') k = py_get (grad_a2_y out) k
    \<and> py_get (grad_a2_z out') k = py_get (grad_a2_z out) k"
proof -
  from gather_envelope_cubic_body_Some [OF assms(1)] obtain cs sn acc where
    "envelope_store gather_gradient average_a2 cs sn j acc out = Some out'" by blast
  then show ?thesis by (rule envelope_store_other) (use assms in auto)
qed

lemma gather_envelope_cubic_body_no_gradient:
  assumes "gather_envelope_cubic_body add G g m_array False average_a2 x y z j (Sr, Sz, out)
             = Some (Sr', Sz', out')"
  shows "grad_a2_x out' = grad_a2_x out \<and> grad_a2_y out' = grad_a2_y out
    \<and> grad_a2_z out' = grad_a2_z out"
proof -
  from gather_envelope_cubic_body_Some [OF assms(1)] obtain cs sn F Fr Ft Fz where
    "envelope_store False average_a2 cs sn j (F, Fr, Ft, Fz) out = Some out'"
    by (metis prod_cases4)
  from envelope_store_Some [OF this] show ?thesis by simp
qed

lemma gather_envelope_cubic_loop_no_gradient:
  assumes "for_each (gather_envelope_cubic_body add G g m_array False average_a2 x y z) js
             (Sr, Sz, out) = Some (Sr', Sz', out')"
  shows "grad_a2_x out' = grad_a2_x out \<and> grad_a2_y out' = grad_a2_y out
    \<and> grad_a2_z out' = grad_a2_z out"
proof -
  let ?rd = "\<lambda>s :: real list \<times> real list \<times> envelope_out.
      (grad_a2_x (snd (snd s)), grad_a2_y (snd (snd s)), grad_a2_z (snd (snd s)))"
  have "?rd (Sr', Sz', out') = ?rd (Sr, Sz, out)"
  proof (rule for_each_frame [where rd = ?rd, OF _ assms])
    fix j :: int and s s' :: "real list \<times> real list \<times> envelope_out"
    assume "gather_envelope_cubic_body add G g m_array False average_a2 x y z j s = Some s'"
    then show "?rd s' = ?rd s"
      using gather_envelope_cubic_body_no_gradient [of add G g m_array average_a2 x y z j
          "fst s" "fst (snd s)" "snd (snd s)" "fst s'" "fst (snd s')" "snd (snd s')"]
      by simp
  qed
  then show ?thesis by simp
qed

lemma envelope_cubic_sums_scratch:
  assumes "length Sr = 4" "length Sz = 4" "length Sr' = 4" "length Sz' = 4"
  shows "envelope_cubic_sums add G g m_array gather_gradient xj yj zj Sr Sz
       = envelope_cubic_sums add G g m_array gather_gradient xj yj zj Sr' Sz'"
  using assms by (simp add: envelope_cubic_sums_def cubic_shape_length4)

lemma gather_envelope_cubic_loop_at:
  assumes "for_each (gather_envelope_cubic_body add G g m_array gather_gradient average_a2 x y z)
             [0 .. N - 1] (Sr, Sz, out) = Some (Sr', Sz', out')"
    and "length Sr = 4" "length Sz = 4" "0 \<le> i" "i < N"
    and "length S0 = 4" "length T0 = 4"
  shows "\<exists>F Fr Ft Fz old cs sn.
      envelope_cubic_sums add G g m_array gather_gradient (x ! nat i) (y ! nat i) (z ! nat i)
        S0 T0 = Some (F, Fr, Ft, Fz)
      \<and> cs = fst (snd (cyl_conv (x ! nat i) (y ! nat i)))
      \<and> sn = snd (snd (cyl_conv (x ! nat i) (y ! nat i)))
      \<and> py_get (a2_out out) i = Some old
      \<and> py_get (a2_out out') i
            = Some (if average_a2 then 0.5 * (old + Re (F * cnj F)) else Re (F * cnj F))
      \<and> (if gather_gradient then
            py_get (grad_a2_x out') i
              = Some (2 * Re ((of_real cs * Fr - of_real sn * Ft) * cnj F))
            \<and> py_get (grad_a2_y out') i
              = Some (2 * Re ((of_real sn * Fr + of_real cs * Ft) * cnj F))
            \<and> py_get (grad_a2_z out') i = Some (2 * Re (Fz * cnj F))
          else grad_a2_x out' = grad_a2_x out \<and> grad_a2_y out' = grad_a2_y out
            \<and> grad_a2_z out' = grad_a2_z out)"
proof -
  let ?b = "gather_envelope_cubic_body add G g m_array gather_gradient average_a2 x y z"
  let ?rd = "\<lambda>s :: real list \<times> real list \<times> envelope_out.
      (py_get (a2_out (snd (snd s))) i, py_get (grad_a2_x (snd (snd s))) i,
       py_get (grad_a2_y (snd (snd s))) i, py_get (grad_a2_z (snd (snd s))) i)"
  from for_each_upto_at [OF assms(1,4,5)] obtain s1 s2 where
    l: "for_each ?b [0 .. i - 1] (Sr, Sz, out) = Some s1" "?b i s1 = Some s2"
       "for_each ?b [i + 1 .. N - 1] s2 = Some (Sr', Sz', out')"
    by blast
  obtain Sr1 Sz1 out1 where s1: "s1 = (Sr1, Sz1, out1)" by (cases s1)
  obtain Sr2 Sz2 out2 where s2: "s2 = (Sr2, Sz2, out2)" by (cases s2)
  have len1: "length Sr1 = 4 \<and> length Sz1 = 4"
  proof (rule chunk_loop_length [where body = ?b and Sr = Sr and Sz = Sz and out = out
        and ?is = "[0 .. i - 1]" and out' = out1, OF _ assms(2,3)])
    show "\<forall>i Sr Sz out Sr' Sz' out'. length Sr = 4 \<longrightarrow> length Sz = 4 \<longrightarrow>
        ?b i (Sr, Sz, out) = Some (Sr', Sz', out') \<longrightarrow> length Sr' = 4 \<and> length Sz' = 4"
      by (intro allI impI) (rule gather_envelope_cubic_body_length)
    show "for_each ?b [0 .. i - 1] (Sr, Sz, out) = Some (Sr1, Sz1, out1)"
      using l(1) s1 by simp
  qed
  have before: "?rd s1 = ?rd (Sr, Sz, out)"
  proof (rule for_each_frame [where rd = ?rd, OF _ l(1)])
    fix j :: int and s s' :: "real list \<times> real list \<times> envelope_out"
    assume "j \<in> set [0 .. i - 1]" "?b j s = Some s'"
    then show "?rd s' = ?rd s"
      using gather_envelope_cubic_body_other [of add G g m_array gather_gradient average_a2
          x y z j "fst s" "fst (snd s)" "snd (snd s)" "fst s'" "fst (snd s')" "snd (snd s')" i]
        assms(4) by auto
  qed
  have after: "?rd (Sr', Sz', out') = ?rd s2"
  proof (rule for_each_frame [where rd = ?rd, OF _ l(3)])
    fix j :: int and s s' :: "real list \<times> real list \<times> envelope_out"
    assume "j \<in> set [i + 1 .. N - 1]" "?b j s = Some s'"
    then show "?rd s' = ?rd s"
      using gather_envelope_cubic_body_other [of add G g m_array gather_gradient average_a2
          x y z j "fst s" "fst (snd s)" "snd (snd s)" "fst s'" "fst (snd s')" "snd (snd s')" i]
        assms(4) by auto
  qed
  from gather_envelope_cubic_body_at [of add G g m_array gather_gradient average_a2 x y z i
      Sr1 Sz1 out1 Sr2 Sz2 out2] l(2) s1 s2
  obtain xj yj zj rj cs sn F Fr Ft Fz old where
    p: "py_get x i = Some xj" "py_get y i = Some yj" "py_get z i = Some zj"
       "cyl_conv xj yj = (rj, cs, sn)"
       "envelope_cubic_sums add G g m_array gather_gradient xj yj zj Sr1 Sz1
          = Some (F, Fr, Ft, Fz)"
       "py_get (a2_out out1) i = Some old"
       "py_get (a2_out out2) i
            = Some (if average_a2 then 0.5 * (old + Re (F * cnj F)) else Re (F * cnj F))"
       "if gather_gradient then
            py_get (grad_a2_x out2) i
              = Some (2 * Re ((of_real cs * Fr - of_real sn * Ft) * cnj F))
            \<and> py_get (grad_a2_y out2) i
              = Some (2 * Re ((of_real sn * Fr + of_real cs * Ft) * cnj F))
            \<and> py_get (grad_a2_z out2) i = Some (2 * Re (Fz * cnj F))
          else grad_a2_x out2 = grad_a2_x out1 \<and> grad_a2_y out2 = grad_a2_y out1
            \<and> grad_a2_z out2 = grad_a2_z out1"
    by auto
  have xyz: "xj = x ! nat i" "yj = y ! nat i" "zj = z ! nat i"
    using p(1-3) assms(4) by (auto simp: py_get_def Let_def split: if_splits)
  have sums: "envelope_cubic_sums add G g m_array gather_gradient (x ! nat i) (y ! nat i)
       (z ! nat i) S0 T0 = Some (F, Fr, Ft, Fz)"
    using p(5) xyz len1 assms(6,7)
      envelope_cubic_sums_scratch [of Sr1 Sz1 S0 T0 add G g m_array gather_gradient xj yj zj]
    by simp
  have cs: "cs = fst (snd (cyl_conv (x ! nat i) (y ! nat i)))"
    "sn = snd (snd (cyl_conv (x ! nat i) (y ! nat i)))"
    using p(4) xyz by simp_all
  have a2: "py_get (a2_out out) i = Some old"
    "py_get (a2_out out') i
       = Some (if average_a2 then 0.5 * (old + Re (F * cnj F)) else Re (F * cnj F))"
    using p(6,7) before after s1 s2 by simp_all
  have grad: "if gather_gradient then
            py_get (grad_a2_x out') i
              = Some (2 * Re ((of_real cs * Fr - of_real sn * Ft) * cnj F))
            \<and> py_get (grad_a2_y out') i
              = Some (2 * Re ((of_real sn * Fr + of_real cs * Ft) * cnj F))
            \<and> py_get (grad_a2_z out') i = Some (2 * Re (Fz * cnj F))
          else grad_a2_x out' = grad_a2_x out \<and> grad_a2_y out' = grad_a2_y out
            \<and> grad_a2_z out' = grad_a2_z out"
  proof (cases gather_gradient)
    case True
    then show ?thesis using p(8) after s2 by simp
  next
    case False
    then show ?thesis using gather_envelope_cubic_loop_no_gradient assms(1) by simp
  qed
  show ?thesis using sums cs a2 grad by blast
qed

lemma gather_envelope_cubic_at:
  assumes "chunk_partition idx nthreads N"
    and "gather_envelope_field_numba_cubic add G g m_array x y z out junk nthreads idx
           gather_gradient average_a2 = Some out'"
    and i: "0 \<le> i" "i < N"
    and s0: "length S0 = 4" "length T0 = 4"
  shows "\<exists>F Fr Ft Fz old cs sn.
      envelope_cubic_sums add G g m_array gather_gradient (x ! nat i) (y ! nat i) (z ! nat i)
        S0 T0 = Some (F, Fr, Ft, Fz)
      \<and> cs = fst (snd (cyl_conv (x ! nat i) (y ! nat i)))
      \<and> sn = snd (snd (cyl_conv (x ! nat i) (y ! nat i)))
      \<and> py_get (a2_out out) i = Some old
      \<and> py_get (a2_out out') i
            = Some (if average_a2 then 0.5 * (old + Re (F * cnj F)) else Re (F * cnj F))
      \<and> (if gather_gradient then
            py_get (grad_a2_x out') i
              = Some (2 * Re ((of_real cs * Fr - of_real sn * Ft) * cnj F))
            \<and> py_get (grad_a2_y out') i
              = Some (2 * Re ((of_real sn * Fr + of_real cs * Ft) * cnj F))
            \<and> py_get (grad_a2_z out') i = Some (2 * Re (Fz * cnj F))
          else grad_a2_x out' = grad_a2_x out \<and> grad_a2_y out' = grad_a2_y out
            \<and> grad_a2_z out' = grad_a2_z out)"
proof -
  from assms(2) gather_envelope_cubic_as_loop [OF assms(1) s0, of add G g m_array x y z out junk
      gather_gradient average_a2]
  obtain Sr' Sz' where
    "for_each (gather_envelope_cubic_body add G g m_array gather_gradient average_a2 x y z)
       [0 .. N - 1] (S0, T0, out) = Some (Sr', Sz', out')"
    by auto
  from gather_envelope_cubic_loop_at [OF this s0 i s0] show ?thesis .
qed

subsection \<open>A particle on the axis of the example grid\<close>

lemma cyl_conv_origin: "cyl_conv 0 0 = (0, 1, 0)"
  by (simp add: cyl_conv_def)

lemma example_shape_leftover:
  "linear_shape example_geometry 0 (- (13 / 2)) =
     \<lparr> iz_lower = - 3, iz_upper = - 2, ir_lower = 0, ir_upper = 0,
       S_ll = 0, S_lu = 1 / 2, S_lg = 1 / 2, S_ul = 0, S_uu = 0, S_ug = 0 \<rparr>"
  by (simp add: linear_shape_def linear_weights_def radial_bounds_def axial_bounds_def
        example_geometry_def r_cell_def z_cell_def Let_def)

lemma example_sum_leftover:
  "linear_stencil_sum mem (uniform_grid v)
     \<lparr> iz_lower = - 3, iz_upper = - 2, ir_lower = 0, ir_upper = 0,
       S_ll = 0, S_lu = 1 / 2, S_lg = 1 / 2, S_ul = 0, S_uu = 0, S_ug = 0 \<rparr> = v / 2"
  by (simp add: linear_stencil_sum_def grid_read_def py_get_def uniform_grid_def)

lemma example_add_leftover:
  "(add_linear_gather_for_mode mem) m (Fr, Ft, Fz) e (uniform_grid u, uniform_grid v, uniform_grid w)
     \<lparr> iz_lower = - 3, iz_upper = - 2, ir_lower = 0, ir_upper = 0,
       S_ll = 0, S_lu = 1 / 2, S_lg = 1 / 2, S_ul = 0, S_uu = 0, S_ug = 0 \<rparr>
   = Some (Fr + Re (e * (u / 2)), Ft + Re (e * (v / 2)), Fz + Re (e * (w / 2)))"
  by (simp add: add_linear_gather_for_mode_def example_sum_leftover)

lemma example_body_leftover:
  "gather_linear_body (add_linear_gather_for_mode mem) example_geometry example_eb_grids
     [0] [0] [- (13 / 2)] 0 example_eb_out
   = Some \<lparr> Ex_out = [1], Ey_out = [0], Ez_out = [0], Bx_out = [0], By_out = [0], Bz_out = [0] \<rparr>"
  by (simp add: gather_linear_body_def py_get_def py_set_def cyl_conv_origin Let_def
        example_shape_leftover example_eb_grids_def example_add_leftover example_eb_out_def
        exptheta1_def)

lemma example_shape_far:
  "linear_shape example_geometry 0 (- (29 / 2)) =
     \<lparr> iz_lower = - 11, iz_upper = - 10, ir_lower = 0, ir_upper = 0,
       S_ll = 0, S_lu = 1 / 2, S_lg = 1 / 2, S_ul = 0, S_uu = 0, S_ug = 0 \<rparr>"
  by (simp add: linear_shape_def linear_weights_def radial_bounds_def axial_bounds_def
        example_geometry_def r_cell_def z_cell_def Let_def)

lemma example_sum_far:
  "linear_stencil_sum example_memory (uniform_grid v)
     \<lparr> iz_lower = - 11, iz_upper = - 10, ir_lower = 0, ir_upper = 0,
       S_ll = 0, S_lu = 1 / 2, S_lg = 1 / 2, S_ul = 0, S_uu = 0, S_ug = 0 \<rparr> = 1"
  by (simp add: linear_stencil_sum_def grid_read_def py_get_def uniform_grid_def
        example_memory_def)

lemma example_add_far:
  "add_linear_gather_for_mode example_memory m (Fr, Ft, Fz) e
     (uniform_grid u, uniform_grid v, uniform_grid w)
     \<lparr> iz_lower = - 11, iz_upper = - 10, ir_lower = 0, ir_upper = 0,
       S_ll = 0, S_lu = 1 / 2, S_lg = 1 / 2, S_ul = 0, S_uu = 0, S_ug = 0 \<rparr>
   = Some (Fr + Re e, Ft + Re e, Fz + Re e)"
  by (simp add: add_linear_gather_for_mode_def example_sum_far)

lemma example_call_far:
  "gather_field_numba_linear (add_linear_gather_for_mode example_memory) example_geometry
     example_eb_grids [0] [0] [- (29 / 2)] example_eb_out
   = Some \<lparr> Ex_out = [2], Ey_out = [2], Ez_out = [2], Bx_out = [2], By_out = [2], Bz_out = [2] \<rparr>"
  by (simp add: gather_field_numba_linear_def upto.simps gather_linear_body_def py_get_def
        py_set_def cyl_conv_origin Let_def example_shape_far example_eb_grids_def example_add_far
        example_eb_out_def exptheta1_def)

lemma example_add_envelope_far:
  "add_linear_envelope_gather_for_mode example_memory m F e (uniform_grid v)
     \<lparr> iz_lower = - 11, iz_upper = - 10, ir_lower = 0, ir_upper = 0,
       S_ll = 0, S_lu = 1 / 2, S_lg = 1 / 2, S_ul = 0, S_uu = 0, S_ug = 0 \<rparr>
   = Some (F + e)"
  by (simp add: add_linear_envelope_gather_for_mode_def example_sum_far)

lemma example_envelope_modes_far:
  "for_each (envelope_mode_linear (add_linear_envelope_gather_for_mode example_memory)
       example_envelope_grids True 1 0
       \<lparr> iz_lower = - 11, iz_upper = - 10, ir_lower = 0, ir_upper = 0,
         S_ll = 0, S_lu = 1 / 2, S_lg = 1 / 2, S_ul = 0, S_uu = 0, S_ug = 0 \<rparr>)
     example_m_array (0, 0, 0, 0)
   = Some (3, 3, 3, 3)"
  by (simp add: example_m_array_def envelope_mode_linear_def example_envelope_grids_def
        py_get_def example_add_envelope_far exptheta_def Let_def)

lemma example_envelope_call_far:
  "gather_envelope_field_numba_linear (add_linear_envelope_gather_for_mode example_memory)
     example_geometry example_envelope_grids example_m_array [0] [0] [- (29 / 2)]
     example_envelope_out1 True True
   = Some \<lparr> a2_out = [7], grad_a2_x = [18], grad_a2_y = [18], grad_a2_z = [18] \<rparr>"
  by (simp add: gather_envelope_field_numba_linear_def upto.simps gather_envelope_linear_body_def
        py_get_def py_set_def cyl_conv_origin Let_def example_shape_far
        example_envelope_modes_far envelope_store_def example_envelope_out1_def)



subsection \<open>Two particles in the middle of the example grid\<close>

lemma cyl_conv_example: "cyl_conv 2 0 = (2, 1, 0)" "cyl_conv 0 2 = (2, 0, 1)"
  by (simp_all add: cyl_conv_def)

lemma example_cubic_weights: "cubic_weights (3 / 2) = example_weights"
  by (simp add: cubic_weights_def example_weights_def power3_eq_cube power2_eq_square)

lemma example_cubic_shape:
  "length Sr = 4 \<Longrightarrow> length Sz = 4 \<Longrightarrow>
   cubic_shape example_geometry 2 2 Sr Sz = Some (0, 0, example_weights, example_weights)"
proof -
  have c: "r_cell example_geometry 2 = 3 / 2" "z_cell example_geometry 2 = 3 / 2"
    by (simp_all add: r_cell_def z_cell_def example_geometry_def)
  have f: "cubic_lowest (3 / 2) = 0" by (simp add: cubic_lowest_def)
  show "length Sr = 4 \<Longrightarrow> length Sz = 4 \<Longrightarrow>
   cubic_shape example_geometry 2 2 Sr Sz = Some (0, 0, example_weights, example_weights)"
    by (simp add: cubic_shape_length4 c f example_cubic_weights)
qed

lemma example_cubic_sum:
  "cubic_stencil_sum mem (uniform_grid v) 0 0 example_weights example_weights 4 = Some v"
  by (simp add: cubic_stencil_sum_def cubic_point_def grid_read_def py_get_def uniform_grid_def
        example_weights_def algebra_simps)

lemma example_add_cubic:
  "(add_cubic_gather_for_mode mem) m (Fr, Ft, Fz) e (uniform_grid u, uniform_grid v, uniform_grid w)
     0 0 example_weights example_weights 4 4
   = Some (Fr + Re (e * u), Ft + Re (e * v), Fz + Re (e * w))"
  by (simp add: add_cubic_gather_for_mode_def example_cubic_sum)

lemma example_geometry_sizes: "Nr example_geometry = 4" "Nz example_geometry = 4"
  by (simp_all add: example_geometry_def)

lemma example_cubic_body0:
  assumes "length Sr = 4" "length Sz = 4"
  shows "gather_cubic_body (add_cubic_gather_for_mode mem) example_geometry example_eb_grids
     example_x example_y example_z 0 (Sr, Sz, example_eb_out2)
   = Some (example_weights, example_weights,
       \<lparr> Ex_out = [2, 9], Ey_out = [0, 9], Ez_out = [0, 9],
         Bx_out = [0, 9], By_out = [0, 9], Bz_out = [0, 9] \<rparr>)"
  using assms
  by (simp add: gather_cubic_body_def example_x_def example_y_def example_z_def py_get_def
        py_set_def cyl_conv_example example_cubic_shape example_eb_grids_def example_add_cubic
        example_geometry_sizes exptheta1_def example_eb_out2_def)

lemma example_cubic_body1:
  assumes "length Sr = 4" "length Sz = 4"
  shows "gather_cubic_body (add_cubic_gather_for_mode mem) example_geometry example_eb_grids
     example_x example_y example_z 1 (Sr, Sz,
       \<lparr> Ex_out = [2, 9], Ey_out = [0, 9], Ez_out = [0, 9],
         Bx_out = [0, 9], By_out = [0, 9], Bz_out = [0, 9] \<rparr>)
   = Some (example_weights, example_weights,
       \<lparr> Ex_out = [2, 0], Ey_out = [0, 2], Ez_out = [0, 0],
         Bx_out = [0, 0], By_out = [0, 0], Bz_out = [0, 0] \<rparr>)"
  using assms
  by (simp add: gather_cubic_body_def example_x_def example_y_def example_z_def py_get_def
        py_set_def cyl_conv_example example_cubic_shape example_eb_grids_def example_add_cubic
        example_geometry_sizes exptheta1_def)

lemma example_weights_length: "length example_weights = 4"
  by (simp add: example_weights_def)

lemma example_cubic_single_chunk:
  "gather_field_numba_cubic (add_cubic_gather_for_mode mem) example_geometry example_eb_grids
     example_x example_y example_z example_eb_out2 junk 1 [0, 2]
   = Some \<lparr> Ex_out = [2, 0], Ey_out = [0, 2], Ez_out = [0, 0],
         Bx_out = [0, 0], By_out = [0, 0], Bz_out = [0, 0] \<rparr>"
proof -
  have u: "[0 .. (1::int)] = [0, 1]"
    by (simp add: upto.simps)
  show ?thesis
    by (simp add: gather_field_numba_cubic_def gather_cubic_chunk_def u py_get_def Let_def
          example_cubic_body0 example_cubic_body1 np_empty_length example_weights_length)
qed

subsection \<open>The linear kernels on the two particles\<close>

lemma example_linear_shape: "linear_shape example_geometry 2 2 = example_stencil"
  by (simp add: linear_shape_def linear_weights_def radial_bounds_def axial_bounds_def
        example_geometry_def r_cell_def z_cell_def Let_def example_stencil_def)

lemma example_linear_sum: "linear_stencil_sum mem (uniform_grid v) example_stencil = v"
  by (simp add: linear_stencil_sum_def grid_read_def py_get_def uniform_grid_def
        example_stencil_def)

lemma example_add_linear:
  "(add_linear_gather_for_mode mem) m (Fr, Ft, Fz) e (uniform_grid u, uniform_grid v, uniform_grid w)
     example_stencil
   = Some (Fr + Re (e * u), Ft + Re (e * v), Fz + Re (e * w))"
  by (simp add: add_linear_gather_for_mode_def example_linear_sum)

lemma example_add_linear_envelope:
  "(add_linear_envelope_gather_for_mode mem) m F e (uniform_grid v) example_stencil = Some (F + e * v)"
  by (simp add: add_linear_envelope_gather_for_mode_def example_linear_sum)

lemma example_envelope_linear_modes:
  "for_each (envelope_mode_linear (add_linear_envelope_gather_for_mode mem) example_envelope_grids
       gather_gradient cs sn example_stencil) example_m_array (0, 0, 0, 0)
   = Some (of_real (sqrt 3), if gather_gradient then 1 else 0, 0, 0)"
  by (simp add: example_m_array_def envelope_mode_linear_def example_envelope_grids_def
        py_get_def example_add_linear_envelope exptheta_def Let_def)

lemma example_envelope_linear_sums:
  "envelope_linear_sums (add_linear_envelope_gather_for_mode mem) example_geometry
     example_envelope_grids example_m_array gather_gradient 2 0 2
   = Some (of_real (sqrt 3), if gather_gradient then 1 else 0, 0, 0)"
  "envelope_linear_sums (add_linear_envelope_gather_for_mode mem) example_geometry
     example_envelope_grids example_m_array gather_gradient 0 2 2
   = Some (of_real (sqrt 3), if gather_gradient then 1 else 0, 0, 0)"
  by (simp_all add: envelope_linear_sums_def cyl_conv_example example_linear_shape
        example_envelope_linear_modes)

lemma example_envelope_linear_body0:
  "gather_envelope_linear_body (add_linear_envelope_gather_for_mode mem) example_geometry
     example_envelope_grids example_m_array True True example_x example_y example_z 0
     \<lparr> a2_out = [p, q], grad_a2_x = [g1, g2], grad_a2_y = [g3, g4], grad_a2_z = [g5, g6] \<rparr>
   = Some \<lparr> a2_out = [(p + 3) / 2, q], grad_a2_x = [2 * sqrt 3, g2], grad_a2_y = [0, g4],
            grad_a2_z = [0, g6] \<rparr>"
  by (simp add: gather_envelope_linear_body_def example_x_def example_y_def example_z_def
        py_get_def py_set_def cyl_conv_example example_linear_shape
        example_envelope_linear_modes envelope_store_def Let_def)

lemma example_envelope_linear_body1:
  "gather_envelope_linear_body (add_linear_envelope_gather_for_mode mem) example_geometry
     example_envelope_grids example_m_array True True example_x example_y example_z 1
     \<lparr> a2_out = [p, q], grad_a2_x = [g1, g2], grad_a2_y = [g3, g4], grad_a2_z = [g5, g6] \<rparr>
   = Some \<lparr> a2_out = [p, (q + 3) / 2], grad_a2_x = [g1, 0], grad_a2_y = [g3, 2 * sqrt 3],
            grad_a2_z = [g5, 0] \<rparr>"
  by (simp add: gather_envelope_linear_body_def example_x_def example_y_def example_z_def
        py_get_def py_set_def cyl_conv_example example_linear_shape
        example_envelope_linear_modes envelope_store_def Let_def)

lemma example_envelope_linear_call:
  "gather_envelope_field_numba_linear (add_linear_envelope_gather_for_mode mem) example_geometry
     example_envelope_grids example_m_array example_x example_y example_z
     \<lparr> a2_out = [p, q], grad_a2_x = [g1, g2], grad_a2_y = [g3, g4], grad_a2_z = [g5, g6] \<rparr>
     True True
   = Some \<lparr> a2_out = [(p + 3) / 2, (q + 3) / 2], grad_a2_x = [2 * sqrt 3, 0],
            grad_a2_y = [0, 2 * sqrt 3], grad_a2_z = [0, 0] \<rparr>"
proof -
  have u: "[0 .. int (length example_x) - 1] = [0, 1]"
    by (simp add: example_x_def upto.simps)
  show ?thesis
    by (simp add: gather_envelope_field_numba_linear_def u example_envelope_linear_body0
          example_envelope_linear_body1)
qed

subsection \<open>The envelope kernels on the two particles\<close>

lemma example_add_cubic_envelope:
  "(add_cubic_envelope_gather_for_mode mem) m F e (uniform_grid v) 0 0 example_weights example_weights
     4 4 = Some (F + e * v)"
  by (simp add: add_cubic_envelope_gather_for_mode_def example_cubic_sum)

lemma example_envelope_cubic_modes:
  "for_each (envelope_mode_cubic (add_cubic_envelope_gather_for_mode mem) example_geometry
       example_envelope_grids gather_gradient cs sn 0 0 example_weights example_weights)
     example_m_array (0, 0, 0, 0)
   = Some (of_real (sqrt 3), if gather_gradient then 1 else 0, 0, 0)"
  by (simp add: example_m_array_def envelope_mode_cubic_def example_envelope_grids_def
        py_get_def example_add_cubic_envelope exptheta_def Let_def example_geometry_sizes)

lemma example_envelope_cubic_body0:
  assumes "length Sr = 4" "length Sz = 4"
  shows "gather_envelope_cubic_body (add_cubic_envelope_gather_for_mode mem) example_geometry
     example_envelope_grids example_m_array True True example_x example_y example_z 0
     (Sr, Sz, example_envelope_out)
   = Some (example_weights, example_weights,
       \<lparr> a2_out = [4, 5], grad_a2_x = [2 * sqrt 3, 9], grad_a2_y = [0, 9],
         grad_a2_z = [0, 9] \<rparr>)"
  using assms
  by (simp add: gather_envelope_cubic_body_def example_x_def example_y_def example_z_def
        py_get_def py_set_def cyl_conv_example example_cubic_shape
        example_envelope_cubic_modes envelope_store_def Let_def example_envelope_out_def)

lemma example_envelope_mode_step:
  "envelope_mode_linear (add_linear_envelope_gather_for_mode mem) example_envelope_grids True 0 1
     example_stencil (- 1) (of_real (sqrt 3), 1, 0, 0) = Some (of_real (sqrt 3), 1, 0, 0)"
  by (simp add: envelope_mode_linear_def example_envelope_grids_def py_get_def
        example_add_linear_envelope exptheta_def Let_def)

lemma example_envelope_first_call:
  "gather_envelope_field_numba_linear (add_linear_envelope_gather_for_mode mem)
      example_geometry example_envelope_grids example_m_array example_x example_y example_z
      example_envelope_out True True = Some example_envelope_result"
  using example_envelope_linear_call [of _ 5 5 9 9 9 9 9 9]
  by (simp add: example_envelope_out_def example_envelope_result_def)

lemma example_range: "(0::int) \<le> 1" "1 < int (length example_x)"
  by (simp_all add: example_x_def)

lemma example_envelope_second_call:
  "gather_envelope_field_numba_linear (add_linear_envelope_gather_for_mode mem)
      example_geometry example_envelope_grids example_m_array example_x example_y example_z
      example_envelope_result True True = Some example_envelope_result2"
  using example_envelope_linear_call [of _ 4 4 "2 * sqrt 3" 0 0 "2 * sqrt 3" 0 0]
  by (simp add: example_envelope_result_def example_envelope_result2_def)

lemma example_range0: "(0::int) \<le> 0" "0 < int (length example_x)"
  by (simp_all add: example_x_def)

lemma example_envelope_cubic_body1:
  assumes "length Sr = 4" "length Sz = 4"
  shows "gather_envelope_cubic_body (add_cubic_envelope_gather_for_mode mem) example_geometry
     example_envelope_grids example_m_array True True example_x example_y example_z 1
     (Sr, Sz, example_envelope_body_result)
   = Some (example_weights, example_weights, example_envelope_result)"
  using assms
  by (simp add: gather_envelope_cubic_body_def example_x_def example_y_def example_z_def
        py_get_def py_set_def cyl_conv_example example_cubic_shape
        example_envelope_cubic_modes envelope_store_def Let_def example_envelope_body_result_def
        example_envelope_result_def)

lemma example_envelope_cubic_single_chunk:
  "gather_envelope_field_numba_cubic (add_cubic_envelope_gather_for_mode mem) example_geometry
     example_envelope_grids example_m_array example_x example_y example_z example_envelope_out
     junk 1 [0, 2] True True = Some example_envelope_result"
proof -
  have u: "[0 .. (1::int)] = [0, 1]"
    by (simp add: upto.simps)
  have b0: "gather_envelope_cubic_body (add_cubic_envelope_gather_for_mode mem) example_geometry
     example_envelope_grids example_m_array True True example_x example_y example_z 0
     (np_empty (fst (junk 0)) 4, np_empty (snd (junk 0)) 4, example_envelope_out)
   = Some (example_weights, example_weights, example_envelope_body_result)"
    by (simp add: example_envelope_cubic_body0 np_empty_length example_envelope_body_result_def)
  show ?thesis
    by (simp add: gather_envelope_field_numba_cubic_def gather_envelope_cubic_chunk_def u
          py_get_def Let_def b0 example_envelope_cubic_body1 example_weights_length)
qed

subsection \<open>The cubic envelope kernel with two threads\<close>

lemma upto_01: "[0 .. (1::int)] = [0, 1]" "[0 .. (0::int)] = [0]" "[1 .. (1::int)] = [1]"
  by (simp_all add: upto.simps)

lemma example_envelope_cubic_body0_any:
  assumes "length Sr = 4" "length Sz = 4"
  shows "gather_envelope_cubic_body (add_cubic_envelope_gather_for_mode mem) example_geometry
     example_envelope_grids example_m_array True True example_x example_y example_z 0
     (Sr, Sz, \<lparr> a2_out = [p, q], grad_a2_x = [g1, g2], grad_a2_y = [g3, g4],
                grad_a2_z = [g5, g6] \<rparr>)
   = Some (example_weights, example_weights,
       \<lparr> a2_out = [(p + 3) / 2, q], grad_a2_x = [2 * sqrt 3, g2], grad_a2_y = [0, g4],
         grad_a2_z = [0, g6] \<rparr>)"
  using assms
  by (simp add: gather_envelope_cubic_body_def example_x_def example_y_def example_z_def
        py_get_def py_set_def cyl_conv_example example_cubic_shape
        example_envelope_cubic_modes envelope_store_def Let_def)

lemma example_envelope_cubic_body1_any:
  assumes "length Sr = 4" "length Sz = 4"
  shows "gather_envelope_cubic_body (add_cubic_envelope_gather_for_mode mem) example_geometry
     example_envelope_grids example_m_array True True example_x example_y example_z 1
     (Sr, Sz, \<lparr> a2_out = [p, q], grad_a2_x = [g1, g2], grad_a2_y = [g3, g4],
                grad_a2_z = [g5, g6] \<rparr>)
   = Some (example_weights, example_weights,
       \<lparr> a2_out = [p, (q + 3) / 2], grad_a2_x = [g1, 0], grad_a2_y = [g3, 2 * sqrt 3],
         grad_a2_z = [g5, 0] \<rparr>)"
  using assms
  by (simp add: gather_envelope_cubic_body_def example_x_def example_y_def example_z_def
        py_get_def py_set_def cyl_conv_example example_cubic_shape
        example_envelope_cubic_modes envelope_store_def Let_def)

lemma example_envelope_cubic_call:
  "gather_envelope_field_numba_cubic (add_cubic_envelope_gather_for_mode mem) example_geometry
     example_envelope_grids example_m_array example_x example_y example_z
     \<lparr> a2_out = [p, q], grad_a2_x = [g1, g2], grad_a2_y = [g3, g4], grad_a2_z = [g5, g6] \<rparr>
     junk 2 [0, 1, 2] True True
   = Some \<lparr> a2_out = [(p + 3) / 2, (q + 3) / 2], grad_a2_x = [2 * sqrt 3, 0],
            grad_a2_y = [0, 2 * sqrt 3], grad_a2_z = [0, 0] \<rparr>"
  by (simp add: gather_envelope_field_numba_cubic_def gather_envelope_cubic_chunk_def upto_01
        py_get_def Let_def example_envelope_cubic_body0_any example_envelope_cubic_body1_any
        np_empty_length)

lemma example_envelope_cubic_first_call:
  "gather_envelope_field_numba_cubic (add_cubic_envelope_gather_for_mode mem) example_geometry
     example_envelope_grids example_m_array example_x example_y example_z example_envelope_out
     junk 2 [0, 1, 2] True True = Some example_envelope_result"
  using example_envelope_cubic_call [of mem 5 5 9 9 9 9 9 9 junk]
  by (simp add: example_envelope_out_def example_envelope_result_def)

lemma example_envelope_cubic_second_call:
  "gather_envelope_field_numba_cubic (add_cubic_envelope_gather_for_mode mem) example_geometry
     example_envelope_grids example_m_array example_x example_y example_z example_envelope_result
     junk 2 [0, 1, 2] True True = Some example_envelope_result2"
  using example_envelope_cubic_call [of mem 4 4 "2 * sqrt 3" 0 0 "2 * sqrt 3" 0 0 junk]
  by (simp add: example_envelope_result_def example_envelope_result2_def)

lemma example_envelope_cubic_sums:
  assumes "length S = 4" "length T = 4"
  shows "envelope_cubic_sums (add_cubic_envelope_gather_for_mode mem) example_geometry
     example_envelope_grids example_m_array gather_gradient 2 0 2 S T
   = Some (of_real (sqrt 3), if gather_gradient then 1 else 0, 0, 0)"
    and "envelope_cubic_sums (add_cubic_envelope_gather_for_mode mem) example_geometry
     example_envelope_grids example_m_array gather_gradient 0 2 2 S T
   = Some (of_real (sqrt 3), if gather_gradient then 1 else 0, 0, 0)"
  using assms
  by (simp_all add: envelope_cubic_sums_def cyl_conv_example example_cubic_shape
        example_envelope_cubic_modes)

lemma example_range2: "(0::int) \<le> 0" "(0::int) < 2" "(0::int) \<le> 1" "(1::int) < 2"
  by simp_all

lemma oblique_partition: "chunk_partition [0, 1, 2] 2 2"
  by (simp add: chunk_partition_def)

subsection \<open>The four kernels on a particle at an oblique angle\<close>

lemma cyl_conv_oblique: "cyl_conv (6 / 5) (8 / 5) = (2, 3 / 5, 4 / 5)"
proof -
  have "(6 / 5 :: real)\<^sup>2 + (8 / 5)\<^sup>2 = 2\<^sup>2" by (simp add: power2_eq_square)
  then have "sqrt ((6 / 5 :: real)\<^sup>2 + (8 / 5)\<^sup>2) = 2" by (simp only: real_sqrt_abs)
  then show ?thesis by (simp add: cyl_conv_def)
qed

lemma oblique_linear_body0:
  "gather_linear_body (add_linear_gather_for_mode mem) example_geometry oblique_eb_grids
     oblique_x oblique_y example_z 0 example_eb_out2
   = Some \<lparr> Ex_out = [11 / 5, 9], Ey_out = [23 / 5, 9], Ez_out = [3, 9],
         Bx_out = [- 1, 9], By_out = [2, 9], Bz_out = [4, 9] \<rparr>"
  by (simp add: gather_linear_body_def oblique_x_def oblique_y_def example_z_def py_get_def
        py_set_def cyl_conv_oblique example_linear_shape oblique_eb_grids_def example_add_linear
        exptheta1_def example_eb_out2_def Let_def)

lemma oblique_linear_body1:
  "gather_linear_body (add_linear_gather_for_mode mem) example_geometry oblique_eb_grids
     oblique_x oblique_y example_z 1
     \<lparr> Ex_out = [11 / 5, 9], Ey_out = [23 / 5, 9], Ez_out = [3, 9],
         Bx_out = [- 1, 9], By_out = [2, 9], Bz_out = [4, 9] \<rparr>
   = Some oblique_eb_result"
  by (simp add: gather_linear_body_def oblique_x_def oblique_y_def example_z_def py_get_def
        py_set_def cyl_conv_example example_linear_shape oblique_eb_grids_def example_add_linear
        exptheta1_def oblique_eb_result_def Let_def)

lemma oblique_linear_call:
  "gather_field_numba_linear (add_linear_gather_for_mode mem) example_geometry oblique_eb_grids
     oblique_x oblique_y example_z example_eb_out2 = Some oblique_eb_result"
proof -
  have u: "[0 .. int (length oblique_x) - 1] = [0, 1]"
    by (simp add: oblique_x_def upto.simps)
  show ?thesis
    by (simp add: gather_field_numba_linear_def u oblique_linear_body0 oblique_linear_body1)
qed

lemma oblique_cubic_body0:
  assumes "length Sr = 4" "length Sz = 4"
  shows "gather_cubic_body (add_cubic_gather_for_mode mem) example_geometry oblique_eb_grids
     oblique_x oblique_y example_z 0 (Sr, Sz, example_eb_out2)
   = Some (example_weights, example_weights,
       \<lparr> Ex_out = [11 / 5, 9], Ey_out = [23 / 5, 9], Ez_out = [3, 9],
         Bx_out = [- 1, 9], By_out = [2, 9], Bz_out = [4, 9] \<rparr>)"
  using assms
  by (simp add: gather_cubic_body_def oblique_x_def oblique_y_def example_z_def py_get_def
        py_set_def cyl_conv_oblique example_cubic_shape oblique_eb_grids_def example_add_cubic
        example_geometry_sizes exptheta1_def example_eb_out2_def)

lemma oblique_cubic_body1:
  assumes "length Sr = 4" "length Sz = 4"
  shows "gather_cubic_body (add_cubic_gather_for_mode mem) example_geometry oblique_eb_grids
     oblique_x oblique_y example_z 1 (Sr, Sz,
       \<lparr> Ex_out = [11 / 5, 9], Ey_out = [23 / 5, 9], Ez_out = [3, 9],
         Bx_out = [- 1, 9], By_out = [2, 9], Bz_out = [4, 9] \<rparr>)
   = Some (example_weights, example_weights, oblique_eb_result)"
  using assms
  by (simp add: gather_cubic_body_def oblique_x_def oblique_y_def example_z_def py_get_def
        py_set_def cyl_conv_example example_cubic_shape oblique_eb_grids_def example_add_cubic
        example_geometry_sizes exptheta1_def oblique_eb_result_def)

lemma oblique_cubic_call:
  "gather_field_numba_cubic (add_cubic_gather_for_mode mem) example_geometry oblique_eb_grids
     oblique_x oblique_y example_z example_eb_out2 junk 2 [0, 1, 2] = Some oblique_eb_result"
  by (simp add: gather_field_numba_cubic_def gather_cubic_chunk_def upto_01 py_get_def Let_def
        oblique_cubic_body0 oblique_cubic_body1 np_empty_length)

lemma oblique_envelope_linear_modes:
  "for_each (envelope_mode_linear (add_linear_envelope_gather_for_mode mem) oblique_envelope_grids
       True cs sn example_stencil) example_m_array (0, 0, 0, 0)
   = Some (of_real (sqrt 3), 1, 2, 3)"
  by (simp add: example_m_array_def envelope_mode_linear_def oblique_envelope_grids_def
        py_get_def example_add_linear_envelope exptheta_def Let_def)

lemma oblique_envelope_linear_body0:
  "gather_envelope_linear_body (add_linear_envelope_gather_for_mode mem) example_geometry
     oblique_envelope_grids example_m_array True False oblique_x oblique_y example_z 0
     example_envelope_out
   = Some \<lparr> a2_out = [3, 5], grad_a2_x = [- (2 * sqrt 3), 9], grad_a2_y = [4 * sqrt 3, 9],
            grad_a2_z = [6 * sqrt 3, 9] \<rparr>"
  by (simp add: gather_envelope_linear_body_def oblique_x_def oblique_y_def example_z_def
        py_get_def py_set_def cyl_conv_oblique example_linear_shape
        oblique_envelope_linear_modes envelope_store_def Let_def example_envelope_out_def)

lemma oblique_envelope_linear_body1:
  "gather_envelope_linear_body (add_linear_envelope_gather_for_mode mem) example_geometry
     oblique_envelope_grids example_m_array True False oblique_x oblique_y example_z 1
     \<lparr> a2_out = [3, 5], grad_a2_x = [- (2 * sqrt 3), 9], grad_a2_y = [4 * sqrt 3, 9],
            grad_a2_z = [6 * sqrt 3, 9] \<rparr>
   = Some oblique_envelope_result"
  by (simp add: gather_envelope_linear_body_def oblique_x_def oblique_y_def example_z_def
        py_get_def py_set_def cyl_conv_example example_linear_shape
        oblique_envelope_linear_modes envelope_store_def Let_def oblique_envelope_result_def)

lemma oblique_envelope_linear_call:
  "gather_envelope_field_numba_linear (add_linear_envelope_gather_for_mode mem) example_geometry
     oblique_envelope_grids example_m_array oblique_x oblique_y example_z example_envelope_out
     True False = Some oblique_envelope_result"
proof -
  have u: "[0 .. int (length oblique_x) - 1] = [0, 1]"
    by (simp add: oblique_x_def upto.simps)
  show ?thesis
    by (simp add: gather_envelope_field_numba_linear_def u oblique_envelope_linear_body0
          oblique_envelope_linear_body1)
qed

lemma oblique_envelope_cubic_modes:
  "for_each (envelope_mode_cubic (add_cubic_envelope_gather_for_mode mem) example_geometry
       oblique_envelope_grids True cs sn 0 0 example_weights example_weights)
     example_m_array (0, 0, 0, 0)
   = Some (of_real (sqrt 3), 1, 2, 3)"
  by (simp add: example_m_array_def envelope_mode_cubic_def oblique_envelope_grids_def
        py_get_def example_add_cubic_envelope exptheta_def Let_def example_geometry_sizes)

lemma oblique_envelope_cubic_body0:
  assumes "length Sr = 4" "length Sz = 4"
  shows "gather_envelope_cubic_body (add_cubic_envelope_gather_for_mode mem) example_geometry
     oblique_envelope_grids example_m_array True False oblique_x oblique_y example_z 0
     (Sr, Sz, example_envelope_out)
   = Some (example_weights, example_weights,
       \<lparr> a2_out = [3, 5], grad_a2_x = [- (2 * sqrt 3), 9], grad_a2_y = [4 * sqrt 3, 9],
            grad_a2_z = [6 * sqrt 3, 9] \<rparr>)"
  using assms
  by (simp add: gather_envelope_cubic_body_def oblique_x_def oblique_y_def example_z_def
        py_get_def py_set_def cyl_conv_oblique example_cubic_shape
        oblique_envelope_cubic_modes envelope_store_def Let_def example_envelope_out_def)

lemma oblique_envelope_cubic_body1:
  assumes "length Sr = 4" "length Sz = 4"
  shows "gather_envelope_cubic_body (add_cubic_envelope_gather_for_mode mem) example_geometry
     oblique_envelope_grids example_m_array True False oblique_x oblique_y example_z 1
     (Sr, Sz, \<lparr> a2_out = [3, 5], grad_a2_x = [- (2 * sqrt 3), 9], grad_a2_y = [4 * sqrt 3, 9],
            grad_a2_z = [6 * sqrt 3, 9] \<rparr>)
   = Some (example_weights, example_weights, oblique_envelope_result)"
  using assms
  by (simp add: gather_envelope_cubic_body_def oblique_x_def oblique_y_def example_z_def
        py_get_def py_set_def cyl_conv_example example_cubic_shape
        oblique_envelope_cubic_modes envelope_store_def Let_def oblique_envelope_result_def)

lemma oblique_envelope_cubic_call:
  "gather_envelope_field_numba_cubic (add_cubic_envelope_gather_for_mode mem) example_geometry
     oblique_envelope_grids example_m_array oblique_x oblique_y example_z example_envelope_out
     junk 2 [0, 1, 2] True False = Some oblique_envelope_result"
  by (simp add: gather_envelope_field_numba_cubic_def gather_envelope_cubic_chunk_def upto_01
        py_get_def Let_def oblique_envelope_cubic_body0 oblique_envelope_cubic_body1
        np_empty_length)

lemma oblique_range: "(0::int) \<le> 0" "0 < int (length oblique_x)" "(0::int) < 2"
  by (simp_all add: oblique_x_def)

lemma oblique_values:
  "cyl_conv (oblique_x ! nat 0) (oblique_y ! nat 0) = (2, 3 / 5, 4 / 5)"
  "py_get (Ex_out oblique_eb_result) 0 = Some (11 / 5)"
  "py_get (Ey_out oblique_eb_result) 0 = Some (23 / 5)"
  "py_get (Bx_out oblique_eb_result) 0 = Some (- 1)"
  "py_get (By_out oblique_eb_result) 0 = Some 2"
  "py_get (grad_a2_x oblique_envelope_result) 0 = Some (- (2 * sqrt 3))"
  "py_get (grad_a2_y oblique_envelope_result) 0 = Some (4 * sqrt 3)"
  by (simp_all add: oblique_x_def oblique_y_def cyl_conv_oblique oblique_eb_result_def
        oblique_envelope_result_def py_get_def)

subsection \<open>Shape weights\<close>

text \<open>
  C6. Before any boundary treatment the weights along one axis sum to one in exact
  arithmetic: the two linear weights of any cell coordinate, and the four cubic
  weights \<open>S[0] + S[1] + S[2] + S[3]\<close> of the local coordinate that the kernel
  computes from any cell coordinate (indeed of any local coordinate).
\<close>

theorem shape_weights_sum_to_one:
  "(case linear_weights c of (i_lower, i_upper, S_lower, S_upper) \<Rightarrow> S_lower + S_upper) = 1
   \<and> sum_list (cubic_weights u) = 1
   \<and> sum_list (cubic_weights (c - of_int (cubic_lowest c))) = 1
   \<and> length (cubic_weights u) = 4"
  by (simp add: linear_weights_def cubic_weights_def cubic_lowest_def Let_def
        power3_eq_cube power2_eq_square algebra_simps)

subsection \<open>The angle of a particle\<close>

text \<open>
  C3. A particle with \<open>sqrt (x\<^sup>2 + y\<^sup>2) = 0\<close> gets the fixed convention
  \<open>cos = 1\<close>, \<open>sin = 0\<close> (the branch that divides by the radius is not taken), and
  a particle of radius \<open>r \<noteq> 0\<close> gets \<open>cos = x / r\<close>, \<open>sin = y / r\<close>. All four kernels
  compute the angle with \<open>cyl_conv\<close>. In both cases the radius is not negative,
  \<open>(cos, sin)\<close> is a unit vector and \<open>(x, y) = (r * cos, r * sin)\<close>.
\<close>

theorem cyl_conv_convention:
  "cyl_conv xj yj =
     (if sqrt (xj\<^sup>2 + yj\<^sup>2) = 0 then (0, 1, 0)
      else (sqrt (xj\<^sup>2 + yj\<^sup>2), xj / sqrt (xj\<^sup>2 + yj\<^sup>2), yj / sqrt (xj\<^sup>2 + yj\<^sup>2)))
   \<and> (case cyl_conv xj yj of (rj, cs, sn) \<Rightarrow>
         0 \<le> rj \<and> cs\<^sup>2 + sn\<^sup>2 = 1 \<and> xj = rj * cs \<and> yj = rj * sn)"
proof -
  define r where "r = sqrt (xj\<^sup>2 + yj\<^sup>2)"
  have c: "cyl_conv xj yj = (if r = 0 then (0, 1, 0) else (r, xj / r, yj / r))"
    by (simp add: cyl_conv_def Let_def r_def)
  have r0: "0 \<le> r" by (simp add: r_def)
  have z: "xj = 0 \<and> yj = 0" if "r = 0"
    using that by (simp add: r_def sum_power2_eq_zero_iff)
  have u: "(xj / r)\<^sup>2 + (yj / r)\<^sup>2 = 1" if "r \<noteq> 0"
  proof -
    have e: "xj\<^sup>2 + yj\<^sup>2 = r\<^sup>2" by (simp add: r_def)
    have "r\<^sup>2 \<noteq> 0" using that by simp
    then have "r\<^sup>2 / r\<^sup>2 = 1" by (rule divide_self)
    then have "(xj\<^sup>2 + yj\<^sup>2) / r\<^sup>2 = 1" by (simp only: e)
    then show ?thesis by (simp only: power_divide add_divide_distrib)
  qed
  have p: "case cyl_conv xj yj of (rj, cs, sn) \<Rightarrow>
         0 \<le> rj \<and> cs\<^sup>2 + sn\<^sup>2 = 1 \<and> xj = rj * cs \<and> yj = rj * sn"
    using r0 z u by (simp add: c)
  show ?thesis using c p unfolding r_def by simp
qed

theorem cyl_conv_convention_witness:
  "cyl_conv 0 0 = (0, 1, 0) \<and> cyl_conv 3 4 = (5, 3 / 5, 4 / 5)"
proof -
  have "sqrt ((3::real)\<^sup>2 + 4\<^sup>2) = sqrt (5\<^sup>2)" by simp
  then have s: "sqrt ((3::real)\<^sup>2 + 4\<^sup>2) = 5" by (simp only: real_sqrt_abs)
  show ?thesis
    using cyl_conv_convention [of 0 0] cyl_conv_convention [of 3 4] s by simp
qed

subsection \<open>The axial boundary\<close>

text \<open>
  C4 (as amended). The linear kernel shifts each of the two axial indices
  \<open>k = \<lfloor>z_cell\<rfloor>\<close> and \<open>k = \<lfloor>z_cell\<rfloor> + 1\<close> by \<open>Nz\<close> at most once. With
  \<open>Nz \<ge> 1\<close>: an index with \<open>- Nz \<le> k \<le> 2 * Nz - 1\<close> becomes \<open>k mod Nz\<close>, which
  lies in \<open>[0, Nz - 1]\<close>; an index \<open>k < - Nz\<close> becomes \<open>k + Nz\<close>, which is negative;
  an index \<open>k > 2 * Nz - 1\<close> becomes \<open>k - Nz\<close>, which is greater than \<open>Nz - 1\<close>.
  The cubic kernel computes the lowest axial index \<open>\<lfloor>z_cell\<rfloor> - 1\<close> and does not wrap
  it.
\<close>

theorem axial_wraparound_window:
  "(1 \<le> Nz G \<longrightarrow>
      (- Nz G \<le> \<lfloor>z_cell G zj\<rfloor> \<and> \<lfloor>z_cell G zj\<rfloor> \<le> 2 * Nz G - 1 \<longrightarrow>
         iz_lower (linear_shape G rj zj) = \<lfloor>z_cell G zj\<rfloor> mod Nz G
         \<and> 0 \<le> iz_lower (linear_shape G rj zj) \<and> iz_lower (linear_shape G rj zj) \<le> Nz G - 1)
      \<and> (\<lfloor>z_cell G zj\<rfloor> < - Nz G \<longrightarrow>
         iz_lower (linear_shape G rj zj) = \<lfloor>z_cell G zj\<rfloor> + Nz G
         \<and> iz_lower (linear_shape G rj zj) < 0)
      \<and> (2 * Nz G - 1 < \<lfloor>z_cell G zj\<rfloor> \<longrightarrow>
         iz_lower (linear_shape G rj zj) = \<lfloor>z_cell G zj\<rfloor> - Nz G
         \<and> Nz G - 1 < iz_lower (linear_shape G rj zj))
      \<and> (- Nz G \<le> \<lfloor>z_cell G zj\<rfloor> + 1 \<and> \<lfloor>z_cell G zj\<rfloor> + 1 \<le> 2 * Nz G - 1 \<longrightarrow>
         iz_upper (linear_shape G rj zj) = (\<lfloor>z_cell G zj\<rfloor> + 1) mod Nz G
         \<and> 0 \<le> iz_upper (linear_shape G rj zj) \<and> iz_upper (linear_shape G rj zj) \<le> Nz G - 1)
      \<and> (\<lfloor>z_cell G zj\<rfloor> + 1 < - Nz G \<longrightarrow>
         iz_upper (linear_shape G rj zj) = \<lfloor>z_cell G zj\<rfloor> + 1 + Nz G
         \<and> iz_upper (linear_shape G rj zj) < 0)
      \<and> (2 * Nz G - 1 < \<lfloor>z_cell G zj\<rfloor> + 1 \<longrightarrow>
         iz_upper (linear_shape G rj zj) = \<lfloor>z_cell G zj\<rfloor> + 1 - Nz G
         \<and> Nz G - 1 < iz_upper (linear_shape G rj zj)))
   \<and> (length Sr = 4 \<and> length Sz = 4 \<longrightarrow>
      (\<exists>ir Sr' Sz'. cubic_shape G rj zj Sr Sz = Some (ir, \<lfloor>z_cell G zj\<rfloor> - 1, Sr', Sz')))"
proof -
  have lo: "(- Nz G \<le> \<lfloor>z_cell G zj\<rfloor> \<and> \<lfloor>z_cell G zj\<rfloor> \<le> 2 * Nz G - 1 \<longrightarrow>
         iz_lower (linear_shape G rj zj) = \<lfloor>z_cell G zj\<rfloor> mod Nz G
         \<and> 0 \<le> iz_lower (linear_shape G rj zj) \<and> iz_lower (linear_shape G rj zj) \<le> Nz G - 1)
      \<and> (\<lfloor>z_cell G zj\<rfloor> < - Nz G \<longrightarrow>
         iz_lower (linear_shape G rj zj) = \<lfloor>z_cell G zj\<rfloor> + Nz G
         \<and> iz_lower (linear_shape G rj zj) < 0)
      \<and> (2 * Nz G - 1 < \<lfloor>z_cell G zj\<rfloor> \<longrightarrow>
         iz_lower (linear_shape G rj zj) = \<lfloor>z_cell G zj\<rfloor> - Nz G
         \<and> Nz G - 1 < iz_lower (linear_shape G rj zj))" if n: "1 \<le> Nz G"
    by (rule shift_once_cases [OF n linear_shape_axial_once(1) [OF n]])
  have up: "(- Nz G \<le> \<lfloor>z_cell G zj\<rfloor> + 1 \<and> \<lfloor>z_cell G zj\<rfloor> + 1 \<le> 2 * Nz G - 1 \<longrightarrow>
         iz_upper (linear_shape G rj zj) = (\<lfloor>z_cell G zj\<rfloor> + 1) mod Nz G
         \<and> 0 \<le> iz_upper (linear_shape G rj zj) \<and> iz_upper (linear_shape G rj zj) \<le> Nz G - 1)
      \<and> (\<lfloor>z_cell G zj\<rfloor> + 1 < - Nz G \<longrightarrow>
         iz_upper (linear_shape G rj zj) = \<lfloor>z_cell G zj\<rfloor> + 1 + Nz G
         \<and> iz_upper (linear_shape G rj zj) < 0)
      \<and> (2 * Nz G - 1 < \<lfloor>z_cell G zj\<rfloor> + 1 \<longrightarrow>
         iz_upper (linear_shape G rj zj) = \<lfloor>z_cell G zj\<rfloor> + 1 - Nz G
         \<and> Nz G - 1 < iz_upper (linear_shape G rj zj))" if n: "1 \<le> Nz G"
    by (rule shift_once_cases [OF n linear_shape_axial_once(2) [OF n]])
  have c4: "length Sr = 4 \<and> length Sz = 4 \<longrightarrow>
      (\<exists>ir Sr' Sz'. cubic_shape G rj zj Sr Sz = Some (ir, \<lfloor>z_cell G zj\<rfloor> - 1, Sr', Sz'))"
    by (simp add: cubic_shape_length4 cubic_lowest_def)
  show ?thesis using lo up c4 by blast
qed

text \<open>
  On the grid of four cells: \<open>\<lfloor>z_cell\<rfloor> = - 2\<close> gives the indices 2 and 3;
  \<open>\<lfloor>z_cell\<rfloor> = - 8\<close> gives \<open>- 4\<close> and \<open>- 3\<close>; \<open>\<lfloor>z_cell\<rfloor> = 7\<close> gives the
  lower index 3 and the upper index 4; \<open>\<lfloor>z_cell\<rfloor> = 10\<close> gives 6 and 7.
\<close>

theorem axial_wraparound_window_witness:
  "iz_lower (linear_shape example_geometry 0 (- 3 / 2)) = 2
   \<and> iz_upper (linear_shape example_geometry 0 (- 3 / 2)) = 3
   \<and> iz_lower (linear_shape example_geometry 0 (- 15 / 2)) = - 4
   \<and> iz_upper (linear_shape example_geometry 0 (- 15 / 2)) = - 3
   \<and> iz_lower (linear_shape example_geometry 0 (15 / 2)) = 3
   \<and> iz_upper (linear_shape example_geometry 0 (15 / 2)) = 4
   \<and> iz_lower (linear_shape example_geometry 0 (21 / 2)) = 6
   \<and> iz_upper (linear_shape example_geometry 0 (21 / 2)) = 7
   \<and> (\<exists>ir Sr' Sz'. cubic_shape example_geometry 0 (- 3 / 2) [7, 7, 7, 7] [8, 8, 8, 8]
          = Some (ir, - 3, Sr', Sz'))"
  using axial_wraparound_window [of example_geometry "- 3 / 2" 0 "[7, 7, 7, 7]" "[8, 8, 8, 8]"]
    axial_wraparound_window [of example_geometry "- 15 / 2" 0 "[7, 7, 7, 7]" "[8, 8, 8, 8]"]
    axial_wraparound_window [of example_geometry "15 / 2" 0 "[7, 7, 7, 7]" "[8, 8, 8, 8]"]
    axial_wraparound_window [of example_geometry "21 / 2" 0 "[7, 7, 7, 7]" "[8, 8, 8, 8]"]
  by (simp add: example_geometry_def z_cell_def)

text \<open>
  The claim as stated, for every particle position, fails eight cells below \<open>zmin\<close> on a
  grid of four cells: the lower index stays at \<open>- 4\<close>.
\<close>

theorem axial_wraparound_counterexample:
  "\<not> (iz_lower (linear_shape example_geometry 0 (- 15 / 2))
        = \<lfloor>z_cell example_geometry (- 15 / 2)\<rfloor> mod Nz example_geometry
      \<and> 0 \<le> iz_lower (linear_shape example_geometry 0 (- 15 / 2)))"
  by (simp add: linear_shape_def linear_weights_def radial_bounds_def axial_bounds_def
        example_geometry_def r_cell_def z_cell_def Let_def)

subsection \<open>An axial index left out of range\<close>

text \<open>
  C5 (as amended). The linear kernels do not test the axial indices after the shift by
  \<open>Nz\<close>, and treat no index as fatal. When the per-mode routine returns on every argument,
  the arrays of the particles and of the outputs have one length and every mode of
  \<open>m_array\<close> has its grids, the call of \<open>gather_field_numba_linear\<close> and the call of
  \<open>gather_envelope_field_numba_linear\<close> return for every position of the particles. For
  the particle \<open>i\<close> the routine is called with the stencil \<open>st\<close> of the particle as it
  is, and what the routine returns is what is written; in that stencil (with \<open>Nz \<ge> 1\<close>)
  an index \<open>k < - Nz\<close> is left at \<open>k + Nz < 0\<close> and an index \<open>k > 2 * Nz - 1\<close> at
  \<open>k - Nz > Nz - 1\<close>, for \<open>k = \<lfloor>z_cell\<rfloor>\<close> and for \<open>k = \<lfloor>z_cell\<rfloor> + 1\<close>.
\<close>

theorem leftover_axial_index:
  assumes "\<forall>m F e grids st. add m F e grids st \<noteq> None"
    and "\<forall>m F e a st. adde m F e a st \<noteq> None"
    and "length y = length x" and "length z = length x"
    and "length (Ex_out out) = length x" and "length (Ey_out out) = length x"
    and "length (Ez_out out) = length x" and "length (Bx_out out) = length x"
    and "length (By_out out) = length x" and "length (Bz_out out) = length x"
    and "length (a2_out eout) = length x" and "length (grad_a2_x eout) = length x"
    and "length (grad_a2_y eout) = length x" and "length (grad_a2_z eout) = length x"
    and "\<forall>m \<in> set m_array. py_get (a_grids eg) m \<noteq> None
        \<and> py_get (grad_a_r eg) m \<noteq> None \<and> py_get (grad_a_t eg) m \<noteq> None
        \<and> py_get (grad_a_z eg) m \<noteq> None"
    and "0 \<le> i" and "i < int (length x)"
    and "py_get x i = Some xj" and "py_get y i = Some yj" and "py_get z i = Some zj"
    and "cyl_conv xj yj = (rj, cs, sn)"
    and "st = linear_shape G rj zj"
    and "1 \<le> Nz G"
  shows "(\<exists>out' Fr Ft Fz Gr Gt Gz.
        gather_field_numba_linear add G g x y z out = Some out'
        \<and> linear_sums add (Er_m0 g, Et_m0 g, Ez_m0 g) (Er_m1 g, Et_m1 g, Ez_m1 g) cs sn st
            = Some (Fr, Ft, Fz)
        \<and> linear_sums add (Br_m0 g, Bt_m0 g, Bz_m0 g) (Br_m1 g, Bt_m1 g, Bz_m1 g) cs sn st
            = Some (Gr, Gt, Gz)
        \<and> py_get (Ex_out out') i = Some (cs * Fr - sn * Ft)
        \<and> py_get (Ey_out out') i = Some (sn * Fr + cs * Ft)
        \<and> py_get (Ez_out out') i = Some Fz
        \<and> py_get (Bx_out out') i = Some (cs * Gr - sn * Gt)
        \<and> py_get (By_out out') i = Some (sn * Gr + cs * Gt)
        \<and> py_get (Bz_out out') i = Some Gz)
    \<and> (\<exists>eout' F Fr Ft Fz old.
        gather_envelope_field_numba_linear adde G eg m_array x y z eout gather_gradient
          average_a2 = Some eout'
        \<and> for_each (envelope_mode_linear adde eg gather_gradient cs sn st) m_array (0, 0, 0, 0)
            = Some (F, Fr, Ft, Fz)
        \<and> py_get (a2_out eout) i = Some old
        \<and> py_get (a2_out eout') i
            = Some (if average_a2 then 0.5 * (old + Re (F * cnj F)) else Re (F * cnj F)))
    \<and> (\<lfloor>z_cell G zj\<rfloor> < - Nz G \<longrightarrow>
          iz_lower st = \<lfloor>z_cell G zj\<rfloor> + Nz G \<and> iz_lower st < 0)
    \<and> (2 * Nz G - 1 < \<lfloor>z_cell G zj\<rfloor> \<longrightarrow>
          iz_lower st = \<lfloor>z_cell G zj\<rfloor> - Nz G \<and> Nz G - 1 < iz_lower st)
    \<and> (\<lfloor>z_cell G zj\<rfloor> + 1 < - Nz G \<longrightarrow>
          iz_upper st = \<lfloor>z_cell G zj\<rfloor> + 1 + Nz G \<and> iz_upper st < 0)
    \<and> (2 * Nz G - 1 < \<lfloor>z_cell G zj\<rfloor> + 1 \<longrightarrow>
          iz_upper st = \<lfloor>z_cell G zj\<rfloor> + 1 - Nz G \<and> Nz G - 1 < iz_upper st)"
proof -
  note i = assms(16,17)
  have xyz: "xj = x ! nat i" "yj = y ! nat i" "zj = z ! nat i"
    using assms(18-20) i assms(3,4) by (simp_all add: py_get_nonneg)
  have c: "cyl_conv (x ! nat i) (y ! nat i) = (rj, cs, sn)"
    using assms(21) xyz by simp
  have st: "st = linear_shape G rj (z ! nat i)"
    using assms(22) xyz by simp
  note nz = assms(23)
  from gather_linear_returns [OF assms(1,3-10)] obtain out' where
    call: "gather_field_numba_linear add G g x y z out = Some out'" by blast
  have eb: "\<exists>out' Fr Ft Fz Gr Gt Gz.
        gather_field_numba_linear add G g x y z out = Some out'
        \<and> linear_sums add (Er_m0 g, Et_m0 g, Ez_m0 g) (Er_m1 g, Et_m1 g, Ez_m1 g) cs sn st
            = Some (Fr, Ft, Fz)
        \<and> linear_sums add (Br_m0 g, Bt_m0 g, Bz_m0 g) (Br_m1 g, Bt_m1 g, Bz_m1 g) cs sn st
            = Some (Gr, Gt, Gz)
        \<and> py_get (Ex_out out') i = Some (cs * Fr - sn * Ft)
        \<and> py_get (Ey_out out') i = Some (sn * Fr + cs * Ft)
        \<and> py_get (Ez_out out') i = Some Fz
        \<and> py_get (Bx_out out') i = Some (cs * Gr - sn * Gt)
        \<and> py_get (By_out out') i = Some (sn * Gr + cs * Gt)
        \<and> py_get (Bz_out out') i = Some Gz"
    using gather_linear_at [OF call i] call c st by auto
  have modes: "\<forall>m \<in> set m_array. py_get (a_grids eg) m \<noteq> None
        \<and> (gather_gradient \<longrightarrow> py_get (grad_a_r eg) m \<noteq> None
              \<and> py_get (grad_a_t eg) m \<noteq> None \<and> py_get (grad_a_z eg) m \<noteq> None)"
    using assms(15) by simp
  have glen: "gather_gradient \<longrightarrow> length (grad_a2_x eout) = length x
        \<and> length (grad_a2_y eout) = length x \<and> length (grad_a2_z eout) = length x"
    using assms(12-14) by simp
  from gather_envelope_linear_returns [OF assms(2) modes assms(3,4,11) glen] obtain eout' where
    ecall: "gather_envelope_field_numba_linear adde G eg m_array x y z eout gather_gradient
          average_a2 = Some eout'" by blast
  from gather_envelope_linear_at [OF ecall i] obtain F Fr Ft Fz old where
    e: "envelope_linear_sums adde G eg m_array gather_gradient (x ! nat i) (y ! nat i)
          (z ! nat i) = Some (F, Fr, Ft, Fz)"
       "py_get (a2_out eout) i = Some old"
       "py_get (a2_out eout') i
            = Some (if average_a2 then 0.5 * (old + Re (F * cnj F)) else Re (F * cnj F))"
    by blast
  have "for_each (envelope_mode_linear adde eg gather_gradient cs sn st) m_array (0, 0, 0, 0)
            = Some (F, Fr, Ft, Fz)"
    using e(1) c st by (simp add: envelope_linear_sums_def)
  then have env: "\<exists>eout' F Fr Ft Fz old.
        gather_envelope_field_numba_linear adde G eg m_array x y z eout gather_gradient
          average_a2 = Some eout'
        \<and> for_each (envelope_mode_linear adde eg gather_gradient cs sn st) m_array (0, 0, 0, 0)
            = Some (F, Fr, Ft, Fz)
        \<and> py_get (a2_out eout) i = Some old
        \<and> py_get (a2_out eout') i
            = Some (if average_a2 then 0.5 * (old + Re (F * cnj F)) else Re (F * cnj F))"
    using ecall e(2,3) by blast
  have lo: "(\<lfloor>z_cell G zj\<rfloor> < - Nz G \<longrightarrow>
          iz_lower st = \<lfloor>z_cell G zj\<rfloor> + Nz G \<and> iz_lower st < 0)
    \<and> (2 * Nz G - 1 < \<lfloor>z_cell G zj\<rfloor> \<longrightarrow>
          iz_lower st = \<lfloor>z_cell G zj\<rfloor> - Nz G \<and> Nz G - 1 < iz_lower st)"
    using shift_once_cases [OF nz linear_shape_axial_once(1) [OF nz, of rj zj]]
    unfolding assms(22) by blast
  have up: "(\<lfloor>z_cell G zj\<rfloor> + 1 < - Nz G \<longrightarrow>
          iz_upper st = \<lfloor>z_cell G zj\<rfloor> + 1 + Nz G \<and> iz_upper st < 0)
    \<and> (2 * Nz G - 1 < \<lfloor>z_cell G zj\<rfloor> + 1 \<longrightarrow>
          iz_upper st = \<lfloor>z_cell G zj\<rfloor> + 1 - Nz G \<and> Nz G - 1 < iz_upper st)"
    using shift_once_cases [OF nz linear_shape_axial_once(2) [OF nz, of rj zj]]
    unfolding assms(22) by blast
  show ?thesis using eb env lo up by (intro conjI) blast+
qed

text \<open>
  A particle fifteen cells below \<open>zmin\<close> on the grid of four cells: the indices left are
  \<open>- 11\<close> and \<open>- 10\<close>, the routines of the spec read outside the grids, where the memory
  of the examples holds 2, and both calls return.
\<close>

theorem leftover_axial_index_witness:
  "gather_field_numba_linear (add_linear_gather_for_mode example_memory) example_geometry
     example_eb_grids [0] [0] [- (29 / 2)] example_eb_out = Some example_far_result
   \<and> gather_envelope_field_numba_linear (add_linear_envelope_gather_for_mode example_memory)
     example_geometry example_envelope_grids example_m_array [0] [0] [- (29 / 2)]
     example_envelope_out1 True True = Some example_envelope_far_result
   \<and> \<lfloor>z_cell example_geometry (- (29 / 2))\<rfloor> = - 15
   \<and> Nz example_geometry = 4
   \<and> iz_lower (linear_shape example_geometry 0 (- (29 / 2))) = - 11
   \<and> iz_upper (linear_shape example_geometry 0 (- (29 / 2))) = - 10
   \<and> (\<exists>out' Fr Ft Fz Gr Gt Gz.
        gather_field_numba_linear (add_linear_gather_for_mode example_memory) example_geometry
          example_eb_grids [0] [0] [- (29 / 2)] example_eb_out = Some out'
        \<and> linear_sums (add_linear_gather_for_mode example_memory)
            (Er_m0 example_eb_grids, Et_m0 example_eb_grids, Ez_m0 example_eb_grids)
            (Er_m1 example_eb_grids, Et_m1 example_eb_grids, Ez_m1 example_eb_grids) 1 0
            (linear_shape example_geometry 0 (- (29 / 2))) = Some (Fr, Ft, Fz)
        \<and> linear_sums (add_linear_gather_for_mode example_memory)
            (Br_m0 example_eb_grids, Bt_m0 example_eb_grids, Bz_m0 example_eb_grids)
            (Br_m1 example_eb_grids, Bt_m1 example_eb_grids, Bz_m1 example_eb_grids) 1 0
            (linear_shape example_geometry 0 (- (29 / 2))) = Some (Gr, Gt, Gz)
        \<and> py_get (Ex_out out') 0 = Some (1 * Fr - 0 * Ft)
        \<and> py_get (Ey_out out') 0 = Some (0 * Fr + 1 * Ft)
        \<and> py_get (Ez_out out') 0 = Some Fz
        \<and> py_get (Bx_out out') 0 = Some (1 * Gr - 0 * Gt)
        \<and> py_get (By_out out') 0 = Some (0 * Gr + 1 * Gt)
        \<and> py_get (Bz_out out') 0 = Some Gz)"
proof -
  have t1: "\<forall>m F e grids st. add_linear_gather_for_mode example_memory m F e grids st \<noteq> None"
    by (simp add: add_linear_gather_for_mode_def split: prod.splits)
  have t2: "\<forall>m F e a st. add_linear_envelope_gather_for_mode example_memory m F e a st \<noteq> None"
    by (simp add: add_linear_envelope_gather_for_mode_def)
  have modes: "\<forall>m \<in> set example_m_array. py_get (a_grids example_envelope_grids) m \<noteq> None
        \<and> py_get (grad_a_r example_envelope_grids) m \<noteq> None
        \<and> py_get (grad_a_t example_envelope_grids) m \<noteq> None
        \<and> py_get (grad_a_z example_envelope_grids) m \<noteq> None"
    by (simp add: example_m_array_def example_envelope_grids_def py_get_def)
  have nz: "1 \<le> Nz example_geometry" "Nz example_geometry = 4"
    by (simp_all add: example_geometry_def)
  have fl: "\<lfloor>z_cell example_geometry (- (29 / 2))\<rfloor> = - 15"
    by (simp add: z_cell_def example_geometry_def)
  note T = leftover_axial_index [where add = "add_linear_gather_for_mode example_memory"
      and adde = "add_linear_envelope_gather_for_mode example_memory"
      and x = "[0]" and y = "[0]" and z = "[- (29 / 2)]" and out = example_eb_out
      and eout = example_envelope_out1 and m_array = example_m_array
      and eg = example_envelope_grids and i = 0 and xj = 0 and yj = 0 and zj = "- (29 / 2)"
      and rj = 0 and cs = 1 and sn = 0 and G = example_geometry and g = example_eb_grids
      and gather_gradient = True and ?average_a2.0 = True
      and st = "linear_shape example_geometry 0 (- (29 / 2))", OF t1 t2 _ _ _ _ _ _ _ _ _ _ _ _
      modes _ _ _ _ _ cyl_conv_origin refl nz(1)]
  have T': "(\<exists>out' Fr Ft Fz Gr Gt Gz.
        gather_field_numba_linear (add_linear_gather_for_mode example_memory) example_geometry
          example_eb_grids [0] [0] [- (29 / 2)] example_eb_out = Some out'
        \<and> linear_sums (add_linear_gather_for_mode example_memory)
            (Er_m0 example_eb_grids, Et_m0 example_eb_grids, Ez_m0 example_eb_grids)
            (Er_m1 example_eb_grids, Et_m1 example_eb_grids, Ez_m1 example_eb_grids) 1 0
            (linear_shape example_geometry 0 (- (29 / 2))) = Some (Fr, Ft, Fz)
        \<and> linear_sums (add_linear_gather_for_mode example_memory)
            (Br_m0 example_eb_grids, Bt_m0 example_eb_grids, Bz_m0 example_eb_grids)
            (Br_m1 example_eb_grids, Bt_m1 example_eb_grids, Bz_m1 example_eb_grids) 1 0
            (linear_shape example_geometry 0 (- (29 / 2))) = Some (Gr, Gt, Gz)
        \<and> py_get (Ex_out out') 0 = Some (1 * Fr - 0 * Ft)
        \<and> py_get (Ey_out out') 0 = Some (0 * Fr + 1 * Ft)
        \<and> py_get (Ez_out out') 0 = Some Fz
        \<and> py_get (Bx_out out') 0 = Some (1 * Gr - 0 * Gt)
        \<and> py_get (By_out out') 0 = Some (0 * Gr + 1 * Gt)
        \<and> py_get (Bz_out out') 0 = Some Gz)
      \<and> iz_lower (linear_shape example_geometry 0 (- (29 / 2)))
          = \<lfloor>z_cell example_geometry (- (29 / 2))\<rfloor> + Nz example_geometry"
    using T fl nz(2)
    by (simp add: example_eb_out_def example_envelope_out1_def py_get_def)
  have lo: "iz_lower (linear_shape example_geometry 0 (- (29 / 2))) = - 11"
    using T' fl nz(2) by simp
  have up: "iz_upper (linear_shape example_geometry 0 (- (29 / 2))) = - 10"
    by (simp add: example_shape_far)
  show ?thesis
    using example_call_far example_envelope_call_far fl nz(2) lo up T'
    unfolding example_far_result_def example_envelope_far_result_def by blast
qed

text \<open>
  The claim as stated fails for a particle seven cells below \<open>zmin\<close> on the grid of four
  cells: both axial indices stay negative, outside \<open>[0, Nz - 1]\<close>, and the call returns
  its six arrays as if nothing had happened.
\<close>

theorem leftover_axial_index_counterexample:
  "iz_lower (linear_shape example_geometry 0 (- (13 / 2))) = - 3
   \<and> iz_upper (linear_shape example_geometry 0 (- (13 / 2))) = - 2
   \<and> Nz example_geometry = 4
   \<and> gather_field_numba_linear (add_linear_gather_for_mode example_memory) example_geometry example_eb_grids
        [0] [0] [- (13 / 2)] example_eb_out
      = Some \<lparr> Ex_out = [1], Ey_out = [0], Ez_out = [0], Bx_out = [0], By_out = [0], Bz_out = [0] \<rparr>"
proof -
  have "Nz example_geometry = 4" by (simp add: example_geometry_def)
  then show ?thesis
    by (simp add: gather_field_numba_linear_def example_body_leftover example_shape_leftover
          upto.simps)
qed

subsection \<open>The stencil point below the axis\<close>




subsection \<open>Chunks of particles\<close>

text \<open>
  C1. For every array of chunk boundaries that divides \<open>[0, N)\<close> into contiguous
  ranges, for any number of threads and whatever the fresh scratch arrays of the threads
  hold, \<open>gather_field_numba_cubic\<close> returns the same six output arrays as a run with
  the single chunk \<open>[0, N)\<close> (and fails when that run fails). The per-mode routine is
  any function of its arguments. The same holds for the four output arrays of
  \<open>gather_envelope_field_numba_cubic\<close>. In a call of \<open>gather_field_numba_cubic\<close> that
  returns, the six values of every particle \<open>i\<close> in \<open>[0, N)\<close> are those of
  \<open>cubic_particle_fields\<close> at the position of the particle: a function of that
  position and the grids, in which neither the chunks nor the other particles occur.
\<close>

theorem chunking_invariance:
  assumes "chunk_partition ptcl_chunk_indices nthreads N"
  shows "gather_field_numba_cubic add G g x y z out junk nthreads ptcl_chunk_indices
       = gather_field_numba_cubic add G g x y z out junk' 1 [0, N]
     \<and> gather_envelope_field_numba_cubic adde G eg m_array x y z eout junk nthreads
         ptcl_chunk_indices gather_gradient average_a2
       = gather_envelope_field_numba_cubic adde G eg m_array x y z eout junk' 1 [0, N]
         gather_gradient average_a2
     \<and> (0 \<le> i \<and> i < N
          \<and> gather_field_numba_cubic add G g x y z out junk nthreads ptcl_chunk_indices
              = Some out' \<longrightarrow>
         (\<exists>ex ey ez bx by' bz.
            cubic_particle_fields add G g (x ! nat i) (y ! nat i) (z ! nat i)
              = Some (ex, ey, ez, bx, by', bz)
            \<and> py_get (Ex_out out') i = Some ex \<and> py_get (Ey_out out') i = Some ey
            \<and> py_get (Ez_out out') i = Some ez \<and> py_get (Bx_out out') i = Some bx
            \<and> py_get (By_out out') i = Some by' \<and> py_get (Bz_out out') i = Some bz))"
proof -
  let ?S = "np_empty (fst (junk' 0)) 4"
  let ?T = "np_empty (snd (junk' 0)) 4"
  let ?idx = ptcl_chunk_indices
  have p: "0 \<le> nthreads" "int (length ?idx) = nthreads + 1"
    "?idx ! 0 = 0" "?idx ! nat nthreads = N" "sorted ?idx"
    using assms by (simp_all add: chunk_partition_def)
  have n: "Suc (nat nthreads) \<le> length ?idx" using p(1,2) by simp
  have s: "length ?S = 4" "length ?T = 4" by (simp_all add: np_empty_length)
  let ?b = "gather_cubic_body add G g x y z"
  have "gather_field_numba_cubic add G g x y z out junk nthreads ?idx
      = for_each (gather_cubic_chunk add G g x y z junk ?idx) [0 .. int (nat nthreads) - 1] out"
    using p(1) by (simp add: gather_field_numba_cubic_def)
  also have "\<dots> = map_option (\<lambda>s. snd (snd s))
           (for_each ?b [?idx ! 0 .. ?idx ! nat nthreads - 1] (?S, ?T, out))"
  proof (rule chunk_threads [where body = ?b and junk = junk and idx = ?idx
        and chunk = "gather_cubic_chunk add G g x y z junk ?idx", OF _ _ _ p(5) n s])
    show "\<forall>i Sr Sz Sr' Sz' out. length Sr = 4 \<longrightarrow> length Sz = 4 \<longrightarrow>
        length Sr' = 4 \<longrightarrow> length Sz' = 4 \<longrightarrow> ?b i (Sr, Sz, out) = ?b i (Sr', Sz', out)"
      by (intro allI impI) (rule gather_cubic_body_scratch)
    show "\<forall>i Sr Sz out Sr' Sz' out'. length Sr = 4 \<longrightarrow> length Sz = 4 \<longrightarrow>
        ?b i (Sr, Sz, out) = Some (Sr', Sz', out') \<longrightarrow> length Sr' = 4 \<and> length Sz' = 4"
      by (intro allI impI) (rule gather_cubic_body_length)
    show "\<forall>nt out. 0 \<le> nt \<longrightarrow> nt + 1 < int (length ?idx) \<longrightarrow>
        gather_cubic_chunk add G g x y z junk ?idx nt out
        = map_option (\<lambda>s. snd (snd s))
           (for_each ?b [?idx ! nat nt .. ?idx ! nat (nt + 1) - 1]
              (np_empty (fst (junk nt)) 4, np_empty (snd (junk nt)) 4, out))"
      by (intro allI impI) (rule gather_cubic_chunk_range)
  qed
  also have "\<dots> = map_option (\<lambda>s. snd (snd s)) (for_each ?b [0 .. N - 1] (?S, ?T, out))"
    using p by simp
  finally have loop: "gather_field_numba_cubic add G g x y z out junk nthreads ?idx
      = map_option (\<lambda>s. snd (snd s)) (for_each ?b [0 .. N - 1] (?S, ?T, out))" .
  have "map_option (\<lambda>s. snd (snd s)) (for_each ?b [0 .. N - 1] (?S, ?T, out))
      = gather_cubic_chunk add G g x y z junk' [0, N] 0 out"
    using gather_cubic_chunk_range [of 0 "[0, N]" add G g x y z junk' out] by simp
  also have "\<dots> = gather_field_numba_cubic add G g x y z out junk' 1 [0, N]"
    by (simp add: gather_field_numba_cubic_def split: option.splits)
  finally have eb: "gather_field_numba_cubic add G g x y z out junk nthreads ?idx
       = gather_field_numba_cubic add G g x y z out junk' 1 [0, N]"
    using loop by simp
  have at: "\<exists>ex ey ez bx by' bz.
            cubic_particle_fields add G g (x ! nat i) (y ! nat i) (z ! nat i)
              = Some (ex, ey, ez, bx, by', bz)
            \<and> py_get (Ex_out out') i = Some ex \<and> py_get (Ey_out out') i = Some ey
            \<and> py_get (Ez_out out') i = Some ez \<and> py_get (Bx_out out') i = Some bx
            \<and> py_get (By_out out') i = Some by' \<and> py_get (Bz_out out') i = Some bz"
    if i: "0 \<le> i" "i < N"
      and call: "gather_field_numba_cubic add G g x y z out junk nthreads ?idx = Some out'"
  proof -
    from call loop obtain Sr' Sz' where
      "for_each ?b [0 .. N - 1] (?S, ?T, out) = Some (Sr', Sz', out')"
      by auto
    then show ?thesis
      by (rule gather_cubic_loop_at [OF _ s i])
  qed
  let ?e = "gather_envelope_cubic_body adde G eg m_array gather_gradient average_a2 x y z"
  let ?c = "gather_envelope_cubic_chunk adde G eg m_array gather_gradient average_a2 x y z"
  have "gather_envelope_field_numba_cubic adde G eg m_array x y z eout junk nthreads ?idx
          gather_gradient average_a2
      = for_each (?c junk ?idx) [0 .. int (nat nthreads) - 1] eout"
    using p(1) by (simp add: gather_envelope_field_numba_cubic_def)
  also have "\<dots> = map_option (\<lambda>s. snd (snd s))
           (for_each ?e [?idx ! 0 .. ?idx ! nat nthreads - 1] (?S, ?T, eout))"
  proof (rule chunk_threads [where body = ?e and junk = junk and idx = ?idx
        and chunk = "?c junk ?idx", OF _ _ _ p(5) n s])
    show "\<forall>i Sr Sz Sr' Sz' out. length Sr = 4 \<longrightarrow> length Sz = 4 \<longrightarrow>
        length Sr' = 4 \<longrightarrow> length Sz' = 4 \<longrightarrow> ?e i (Sr, Sz, out) = ?e i (Sr', Sz', out)"
      by (intro allI impI) (rule gather_envelope_cubic_body_scratch)
    show "\<forall>i Sr Sz out Sr' Sz' out'. length Sr = 4 \<longrightarrow> length Sz = 4 \<longrightarrow>
        ?e i (Sr, Sz, out) = Some (Sr', Sz', out') \<longrightarrow> length Sr' = 4 \<and> length Sz' = 4"
      by (intro allI impI) (rule gather_envelope_cubic_body_length)
    show "\<forall>nt out. 0 \<le> nt \<longrightarrow> nt + 1 < int (length ?idx) \<longrightarrow>
        ?c junk ?idx nt out
        = map_option (\<lambda>s. snd (snd s))
           (for_each ?e [?idx ! nat nt .. ?idx ! nat (nt + 1) - 1]
              (np_empty (fst (junk nt)) 4, np_empty (snd (junk nt)) 4, out))"
      by (intro allI impI) (rule gather_envelope_cubic_chunk_range)
  qed
  also have "\<dots> = map_option (\<lambda>s. snd (snd s)) (for_each ?e [0 .. N - 1] (?S, ?T, eout))"
    using p by simp
  also have "\<dots> = ?c junk' [0, N] 0 eout"
    using gather_envelope_cubic_chunk_range [of 0 "[0, N]" adde G eg m_array gather_gradient
        average_a2 x y z junk' eout] by simp
  also have "\<dots> = gather_envelope_field_numba_cubic adde G eg m_array x y z eout junk' 1 [0, N]
        gather_gradient average_a2"
    by (simp add: gather_envelope_field_numba_cubic_def split: option.splits)
  finally show ?thesis using eb at by blast
qed

theorem chunking_invariance_witness:
  "chunk_partition [0, 1, 2] 2 2
   \<and> gather_field_numba_cubic (add_cubic_gather_for_mode example_memory) example_geometry example_eb_grids
        example_x example_y example_z example_eb_out2 (\<lambda>nt. (\<lambda>k. 7, \<lambda>k. 8)) 2 [0, 1, 2]
      = Some example_eb_result
   \<and> gather_envelope_field_numba_cubic (add_cubic_envelope_gather_for_mode example_memory) example_geometry
        example_envelope_grids example_m_array example_x example_y example_z
        example_envelope_out (\<lambda>nt. (\<lambda>k. 7, \<lambda>k. 8)) 2 [0, 1, 2] True True
      = Some example_envelope_result
   \<and> (\<exists>ex ey ez bx by' bz.
        cubic_particle_fields (add_cubic_gather_for_mode example_memory) example_geometry example_eb_grids
          (example_x ! nat 1) (example_y ! nat 1) (example_z ! nat 1)
          = Some (ex, ey, ez, bx, by', bz)
        \<and> py_get (Ex_out example_eb_result) 1 = Some ex
        \<and> py_get (Ey_out example_eb_result) 1 = Some ey
        \<and> py_get (Ez_out example_eb_result) 1 = Some ez
        \<and> py_get (Bx_out example_eb_result) 1 = Some bx
        \<and> py_get (By_out example_eb_result) 1 = Some by'
        \<and> py_get (Bz_out example_eb_result) 1 = Some bz)"
proof -
  have p: "chunk_partition [0, 1, 2] 2 2"
    by (simp add: chunk_partition_def)
  note T = chunking_invariance [OF p, where add = "add_cubic_gather_for_mode example_memory"
      and G = example_geometry and g = example_eb_grids and x = example_x and y = example_y
      and z = example_z and out = example_eb_out2 and junk = "\<lambda>nt. (\<lambda>k. 7, \<lambda>k. 8)"
      and junk' = "\<lambda>nt. (\<lambda>k. 0, \<lambda>k. 0)" and adde = "add_cubic_envelope_gather_for_mode example_memory"
      and eg = example_envelope_grids and m_array = example_m_array
      and eout = example_envelope_out and gather_gradient = True and ?average_a2.0 = True
      and i = 1 and out' = example_eb_result]
  have eb: "gather_field_numba_cubic (add_cubic_gather_for_mode example_memory) example_geometry
      example_eb_grids example_x example_y example_z example_eb_out2
      (\<lambda>nt. (\<lambda>k. 7, \<lambda>k. 8)) 2 [0, 1, 2] = Some example_eb_result"
    using T by (simp add: example_cubic_single_chunk example_eb_result_def)
  have env: "gather_envelope_field_numba_cubic (add_cubic_envelope_gather_for_mode example_memory)
      example_geometry example_envelope_grids example_m_array example_x example_y example_z
      example_envelope_out (\<lambda>nt. (\<lambda>k. 7, \<lambda>k. 8)) 2 [0, 1, 2] True True
      = Some example_envelope_result"
    using T by (simp add: example_envelope_cubic_single_chunk)
  have r: "(0::int) \<le> 1 \<and> (1::int) < 2" by simp
  show ?thesis using p eb env T r by blast
qed

subsection \<open>Intensity and gradient of the envelope\<close>

text \<open>
  C9. After a call of the linear envelope kernel that returns, for every particle \<open>i\<close>:
  with \<open>F\<close> the complex amplitude accumulated over the modes and \<open>(Fr, Ft, Fz)\<close> the
  accumulated gradient, the newly computed intensity is \<open>Re (F * cnj F)\<close>, stored as the
  flag \<open>average_a2\<close> says; with \<open>gather_gradient\<close> the three gradient outputs are
  \<open>2 * Re (c * cnj F)\<close> for the Cartesian components \<open>c\<close> of the gradient, and without it
  the three gradient arrays are left as they were. In the loop over the modes the
  per-mode routine receives the factor \<open>(cos - i sin) ^ |m|\<close>, conjugated when \<open>m < 0\<close>.
\<close>

theorem envelope_intensity_and_gradient:
  "(gather_envelope_field_numba_linear add G g m_array x y z out gather_gradient average_a2
      = Some out' \<and> 0 \<le> i \<and> i < int (length x) \<longrightarrow>
    (\<exists>F Fr Ft Fz old cs sn.
      envelope_linear_sums add G g m_array gather_gradient (x ! nat i) (y ! nat i) (z ! nat i)
        = Some (F, Fr, Ft, Fz)
      \<and> cs = fst (snd (cyl_conv (x ! nat i) (y ! nat i)))
      \<and> sn = snd (snd (cyl_conv (x ! nat i) (y ! nat i)))
      \<and> py_get (a2_out out) i = Some old
      \<and> py_get (a2_out out') i
            = Some (if average_a2 then 0.5 * (old + Re (F * cnj F)) else Re (F * cnj F))
      \<and> (if gather_gradient then
            py_get (grad_a2_x out') i
              = Some (2 * Re ((of_real cs * Fr - of_real sn * Ft) * cnj F))
            \<and> py_get (grad_a2_y out') i
              = Some (2 * Re ((of_real sn * Fr + of_real cs * Ft) * cnj F))
            \<and> py_get (grad_a2_z out') i = Some (2 * Re (Fz * cnj F))
          else grad_a2_x out' = grad_a2_x out \<and> grad_a2_y out' = grad_a2_y out
            \<and> grad_a2_z out' = grad_a2_z out)))
   \<and> (envelope_mode_linear add g gather_gradient cs' sn' st m (F0, Fr0, Ft0, Fz0)
             = Some (F1, Fr1, Ft1, Fz1) \<longrightarrow>
      (\<exists>a_m. py_get (a_grids g) m = Some a_m
        \<and> add m F0 (if m < 0 then cnj ((of_real cs' - \<i> * of_real sn') ^ nat \<bar>m\<bar>)
                     else (of_real cs' - \<i> * of_real sn') ^ nat \<bar>m\<bar>) a_m st = Some F1))"
  using gather_envelope_linear_at [of add G g m_array x y z out gather_gradient average_a2 out' i]
    envelope_mode_linear_phase [of add g gather_gradient cs' sn' st m F0 Fr0 Ft0 Fz0 F1 Fr1 Ft1 Fz1]
  by blast

theorem envelope_intensity_and_gradient_witness:
  "gather_envelope_field_numba_linear (add_linear_envelope_gather_for_mode example_memory)
      example_geometry example_envelope_grids example_m_array example_x example_y example_z
      example_envelope_out True True = Some example_envelope_result
   \<and> (\<exists>F Fr Ft Fz old cs sn.
      envelope_linear_sums (add_linear_envelope_gather_for_mode example_memory) example_geometry
        example_envelope_grids example_m_array True (example_x ! nat 1) (example_y ! nat 1)
        (example_z ! nat 1) = Some (F, Fr, Ft, Fz)
      \<and> cs = fst (snd (cyl_conv (example_x ! nat 1) (example_y ! nat 1)))
      \<and> sn = snd (snd (cyl_conv (example_x ! nat 1) (example_y ! nat 1)))
      \<and> py_get (a2_out example_envelope_out) 1 = Some old
      \<and> py_get (a2_out example_envelope_result) 1 = Some (0.5 * (old + Re (F * cnj F)))
      \<and> py_get (grad_a2_x example_envelope_result) 1
           = Some (2 * Re ((of_real cs * Fr - of_real sn * Ft) * cnj F))
      \<and> py_get (grad_a2_y example_envelope_result) 1
           = Some (2 * Re ((of_real sn * Fr + of_real cs * Ft) * cnj F))
      \<and> py_get (grad_a2_z example_envelope_result) 1 = Some (2 * Re (Fz * cnj F)))
   \<and> (\<exists>a_m. py_get (a_grids example_envelope_grids) (- 1) = Some a_m
        \<and> (add_linear_envelope_gather_for_mode example_memory) (- 1) (of_real (sqrt 3))
            (if (- 1 :: int) < 0 then cnj ((of_real 0 - \<i> * of_real 1) ^ nat \<bar>- 1\<bar>)
             else (of_real 0 - \<i> * of_real 1) ^ nat \<bar>- 1\<bar>) a_m example_stencil
          = Some (of_real (sqrt 3)))"
  using envelope_intensity_and_gradient [of "add_linear_envelope_gather_for_mode example_memory"
        example_geometry example_envelope_grids example_m_array example_x example_y example_z
        example_envelope_out True True example_envelope_result 1 0 1 example_stencil "- 1"
        "of_real (sqrt 3)" 1 0 0 "of_real (sqrt 3)" 1 0 0, unfolded if_True]
      example_envelope_first_call example_range example_envelope_mode_step
  by blast

subsection \<open>Overwriting or averaging the intensity\<close>

text \<open>
  C8. In a call of \<open>gather_envelope_field_numba_linear\<close> that returns, and in a call of
  \<open>gather_envelope_field_numba_cubic\<close> that returns, whatever the division into chunks,
  for every particle \<open>i\<close>: with \<open>average_a2\<close> the stored intensity becomes
  \<open>0.5 * (old + new)\<close>, without it the new intensity \<open>Re (F * cnj F)\<close> replaces the
  stored one. When the stored value is 5 and the grids give the intensity 3, the stored
  value is 4 after one averaged call and 7/2 after a second identical call.
\<close>

theorem envelope_average_policy:
  "(gather_envelope_field_numba_linear add G g m_array x y z out gather_gradient average_a2
      = Some out1 \<and> 0 \<le> i \<and> i < int (length x) \<longrightarrow>
    (\<exists>F Fr Ft Fz old.
      envelope_linear_sums add G g m_array gather_gradient (x ! nat i) (y ! nat i) (z ! nat i)
        = Some (F, Fr, Ft, Fz)
      \<and> py_get (a2_out out) i = Some old
      \<and> py_get (a2_out out1) i
            = Some (if average_a2 then 0.5 * (old + Re (F * cnj F)) else Re (F * cnj F))
      \<and> (average_a2 \<and> old = 5 \<and> Re (F * cnj F) = 3 \<longrightarrow>
            py_get (a2_out out1) i = Some 4
            \<and> (\<forall>out2. gather_envelope_field_numba_linear add G g m_array x y z out1
                        gather_gradient average_a2 = Some out2
                 \<longrightarrow> py_get (a2_out out2) i = Some (7 / 2)))))
   \<and> (chunk_partition idx nthreads N
       \<and> gather_envelope_field_numba_cubic addc G g m_array x y z cout junk nthreads idx
            gather_gradient average_a2 = Some cout1
       \<and> 0 \<le> i \<and> i < N \<longrightarrow>
    (\<exists>F Fr Ft Fz old.
      envelope_cubic_sums addc G g m_array gather_gradient (x ! nat i) (y ! nat i) (z ! nat i)
        (np_empty (fst (junk 0)) 4) (np_empty (snd (junk 0)) 4) = Some (F, Fr, Ft, Fz)
      \<and> py_get (a2_out cout) i = Some old
      \<and> py_get (a2_out cout1) i
            = Some (if average_a2 then 0.5 * (old + Re (F * cnj F)) else Re (F * cnj F))
      \<and> (average_a2 \<and> old = 5 \<and> Re (F * cnj F) = 3 \<longrightarrow>
            py_get (a2_out cout1) i = Some 4
            \<and> (\<forall>cout2. gather_envelope_field_numba_cubic addc G g m_array x y z cout1 junk
                         nthreads idx gather_gradient average_a2 = Some cout2
                 \<longrightarrow> py_get (a2_out cout2) i = Some (7 / 2)))))"
proof -
  have lin: "\<exists>F Fr Ft Fz old.
      envelope_linear_sums add G g m_array gather_gradient (x ! nat i) (y ! nat i) (z ! nat i)
        = Some (F, Fr, Ft, Fz)
      \<and> py_get (a2_out out) i = Some old
      \<and> py_get (a2_out out1) i
            = Some (if average_a2 then 0.5 * (old + Re (F * cnj F)) else Re (F * cnj F))
      \<and> (average_a2 \<and> old = 5 \<and> Re (F * cnj F) = 3 \<longrightarrow>
            py_get (a2_out out1) i = Some 4
            \<and> (\<forall>out2. gather_envelope_field_numba_linear add G g m_array x y z out1
                        gather_gradient average_a2 = Some out2
                 \<longrightarrow> py_get (a2_out out2) i = Some (7 / 2)))"
    if call: "gather_envelope_field_numba_linear add G g m_array x y z out gather_gradient
        average_a2 = Some out1" and i: "0 \<le> i" "i < int (length x)"
  proof -
    from gather_envelope_linear_at [OF call i] obtain F Fr Ft Fz old where
      f: "envelope_linear_sums add G g m_array gather_gradient (x ! nat i) (y ! nat i)
            (z ! nat i) = Some (F, Fr, Ft, Fz)"
         "py_get (a2_out out) i = Some old"
         "py_get (a2_out out1) i
            = Some (if average_a2 then 0.5 * (old + Re (F * cnj F)) else Re (F * cnj F))"
      by blast
    have second: "py_get (a2_out out2) i = Some (7 / 2)"
      if s: "average_a2" "old = 5" "Re (F * cnj F) = 3"
        and call2: "gather_envelope_field_numba_linear add G g m_array x y z out1
                        gather_gradient average_a2 = Some out2" for out2
    proof -
      from gather_envelope_linear_at [OF call2 i] obtain F' Fr' Ft' Fz' old' where
        f': "envelope_linear_sums add G g m_array gather_gradient (x ! nat i) (y ! nat i)
            (z ! nat i) = Some (F', Fr', Ft', Fz')"
         "py_get (a2_out out1) i = Some old'"
         "py_get (a2_out out2) i
            = Some (if average_a2 then 0.5 * (old' + Re (F' * cnj F')) else Re (F' * cnj F'))"
        by blast
      have "F' = F" using f(1) f'(1) by simp
      moreover have "old' = 4" using f(3) f'(2) s by simp
      ultimately show ?thesis using f'(3) s by simp
    qed
    have first: "average_a2 \<and> old = 5 \<and> Re (F * cnj F) = 3 \<longrightarrow> py_get (a2_out out1) i = Some 4"
      using f(3) by simp
    show ?thesis using f first second by blast
  qed
  have s: "length (np_empty (fst (junk 0)) 4) = 4" "length (np_empty (snd (junk 0)) 4) = 4"
    by (simp_all add: np_empty_length)
  have cub: "\<exists>F Fr Ft Fz old.
      envelope_cubic_sums addc G g m_array gather_gradient (x ! nat i) (y ! nat i) (z ! nat i)
        (np_empty (fst (junk 0)) 4) (np_empty (snd (junk 0)) 4) = Some (F, Fr, Ft, Fz)
      \<and> py_get (a2_out cout) i = Some old
      \<and> py_get (a2_out cout1) i
            = Some (if average_a2 then 0.5 * (old + Re (F * cnj F)) else Re (F * cnj F))
      \<and> (average_a2 \<and> old = 5 \<and> Re (F * cnj F) = 3 \<longrightarrow>
            py_get (a2_out cout1) i = Some 4
            \<and> (\<forall>cout2. gather_envelope_field_numba_cubic addc G g m_array x y z cout1 junk
                         nthreads idx gather_gradient average_a2 = Some cout2
                 \<longrightarrow> py_get (a2_out cout2) i = Some (7 / 2)))"
    if p: "chunk_partition idx nthreads N"
      and call: "gather_envelope_field_numba_cubic addc G g m_array x y z cout junk nthreads idx
            gather_gradient average_a2 = Some cout1" and i: "0 \<le> i" "i < N"
  proof -
    from gather_envelope_cubic_at [OF p call i s] obtain F Fr Ft Fz old where
      f: "envelope_cubic_sums addc G g m_array gather_gradient (x ! nat i) (y ! nat i)
            (z ! nat i) (np_empty (fst (junk 0)) 4) (np_empty (snd (junk 0)) 4)
            = Some (F, Fr, Ft, Fz)"
         "py_get (a2_out cout) i = Some old"
         "py_get (a2_out cout1) i
            = Some (if average_a2 then 0.5 * (old + Re (F * cnj F)) else Re (F * cnj F))"
      by blast
    have second: "py_get (a2_out cout2) i = Some (7 / 2)"
      if t: "average_a2" "old = 5" "Re (F * cnj F) = 3"
        and call2: "gather_envelope_field_numba_cubic addc G g m_array x y z cout1 junk
                         nthreads idx gather_gradient average_a2 = Some cout2" for cout2
    proof -
      from gather_envelope_cubic_at [OF p call2 i s] obtain F' Fr' Ft' Fz' old' where
        f': "envelope_cubic_sums addc G g m_array gather_gradient (x ! nat i) (y ! nat i)
            (z ! nat i) (np_empty (fst (junk 0)) 4) (np_empty (snd (junk 0)) 4)
            = Some (F', Fr', Ft', Fz')"
         "py_get (a2_out cout1) i = Some old'"
         "py_get (a2_out cout2) i
            = Some (if average_a2 then 0.5 * (old' + Re (F' * cnj F')) else Re (F' * cnj F'))"
        by blast
      have "F' = F" using f(1) f'(1) by simp
      moreover have "old' = 4" using f(3) f'(2) t by simp
      ultimately show ?thesis using f'(3) t by simp
    qed
    have first: "average_a2 \<and> old = 5 \<and> Re (F * cnj F) = 3 \<longrightarrow> py_get (a2_out cout1) i = Some 4"
      using f(3) by simp
    show ?thesis using f first second by blast
  qed
  show ?thesis using lin cub by blast
qed

text \<open>
  The two particles of the example, whose stored intensity is 5 and whose computed
  intensity is 3: both kernels, the cubic one with two threads, return the intensity 4
  after the first call and 7/2 after the second.
\<close>

theorem envelope_average_policy_witness:
  "gather_envelope_field_numba_linear (add_linear_envelope_gather_for_mode example_memory)
      example_geometry example_envelope_grids example_m_array example_x example_y example_z
      example_envelope_out True True = Some example_envelope_result
   \<and> gather_envelope_field_numba_linear (add_linear_envelope_gather_for_mode example_memory)
      example_geometry example_envelope_grids example_m_array example_x example_y example_z
      example_envelope_result True True = Some example_envelope_result2
   \<and> chunk_partition [0, 1, 2] 2 2
   \<and> gather_envelope_field_numba_cubic (add_cubic_envelope_gather_for_mode example_memory)
      example_geometry example_envelope_grids example_m_array example_x example_y example_z
      example_envelope_out example_junk 2 [0, 1, 2] True True = Some example_envelope_result
   \<and> gather_envelope_field_numba_cubic (add_cubic_envelope_gather_for_mode example_memory)
      example_geometry example_envelope_grids example_m_array example_x example_y example_z
      example_envelope_result example_junk 2 [0, 1, 2] True True = Some example_envelope_result2
   \<and> py_get (a2_out example_envelope_out) 0 = Some 5
   \<and> py_get (a2_out example_envelope_result) 0 = Some 4
   \<and> py_get (a2_out example_envelope_result2) 0 = Some (7 / 2)
   \<and> (\<exists>F Fr Ft Fz old.
        envelope_linear_sums (add_linear_envelope_gather_for_mode example_memory)
          example_geometry example_envelope_grids example_m_array True (example_x ! nat 0)
          (example_y ! nat 0) (example_z ! nat 0) = Some (F, Fr, Ft, Fz)
        \<and> Re (F * cnj F) = 3
        \<and> py_get (a2_out example_envelope_out) 0 = Some old
        \<and> py_get (a2_out example_envelope_result) 0 = Some (0.5 * (old + Re (F * cnj F))))
   \<and> (\<exists>F Fr Ft Fz old.
        envelope_cubic_sums (add_cubic_envelope_gather_for_mode example_memory)
          example_geometry example_envelope_grids example_m_array True (example_x ! nat 0)
          (example_y ! nat 0) (example_z ! nat 0)
          (np_empty (fst (example_junk 0)) 4) (np_empty (snd (example_junk 0)) 4)
          = Some (F, Fr, Ft, Fz)
        \<and> Re (F * cnj F) = 3
        \<and> py_get (a2_out example_envelope_out) 0 = Some old
        \<and> py_get (a2_out example_envelope_result) 0 = Some (0.5 * (old + Re (F * cnj F))))"
proof -
  note T = envelope_average_policy [where add = "add_linear_envelope_gather_for_mode example_memory"
      and G = example_geometry and g = example_envelope_grids and m_array = example_m_array
      and x = example_x and y = example_y and z = example_z and out = example_envelope_out
      and gather_gradient = True and ?average_a2.0 = True and ?out1.0 = example_envelope_result
      and i = 0 and addc = "add_cubic_envelope_gather_for_mode example_memory"
      and idx = "[0, 1, 2]" and nthreads = 2 and N = 2 and junk = example_junk
      and cout = example_envelope_out and ?cout1.0 = example_envelope_result, unfolded if_True]
  note l1 = example_envelope_first_call [of example_memory]
  note l2 = example_envelope_second_call [of example_memory]
  note c1 = example_envelope_cubic_first_call [of example_memory example_junk]
  note c2 = example_envelope_cubic_second_call [of example_memory example_junk]
  note p = oblique_partition
  from T l1 example_range0 obtain F Fr Ft Fz old where
    f: "envelope_linear_sums (add_linear_envelope_gather_for_mode example_memory)
          example_geometry example_envelope_grids example_m_array True (example_x ! nat 0)
          (example_y ! nat 0) (example_z ! nat 0) = Some (F, Fr, Ft, Fz)"
       "py_get (a2_out example_envelope_out) 0 = Some old"
       "py_get (a2_out example_envelope_result) 0 = Some (0.5 * (old + Re (F * cnj F)))"
       "old = 5 \<and> Re (F * cnj F) = 3 \<longrightarrow>
          py_get (a2_out example_envelope_result) 0 = Some 4
          \<and> (\<forall>out2. gather_envelope_field_numba_linear
                (add_linear_envelope_gather_for_mode example_memory)
                example_geometry example_envelope_grids example_m_array example_x example_y
                example_z example_envelope_result True True = Some out2
               \<longrightarrow> py_get (a2_out out2) 0 = Some (7 / 2))"
    by blast
  have "F = of_real (sqrt 3)"
    using f(1) example_envelope_linear_sums(1) [of example_memory True]
    by (simp add: example_x_def example_y_def example_z_def)
  then have three: "Re (F * cnj F) = 3" by simp
  have five: "old = 5" using f(2) by (simp add: example_envelope_out_def py_get_def)
  have a: "py_get (a2_out example_envelope_result) 0 = Some 4"
    "py_get (a2_out example_envelope_result2) 0 = Some (7 / 2)"
    using f(4) three five l2 by blast+
  have lin: "\<exists>F Fr Ft Fz old.
        envelope_linear_sums (add_linear_envelope_gather_for_mode example_memory)
          example_geometry example_envelope_grids example_m_array True (example_x ! nat 0)
          (example_y ! nat 0) (example_z ! nat 0) = Some (F, Fr, Ft, Fz)
        \<and> Re (F * cnj F) = 3
        \<and> py_get (a2_out example_envelope_out) 0 = Some old
        \<and> py_get (a2_out example_envelope_result) 0 = Some (0.5 * (old + Re (F * cnj F)))"
    using f(1-3) three by blast
  from T p c1 example_range2(1,2) obtain F' Fr' Ft' Fz' old' where
    g: "envelope_cubic_sums (add_cubic_envelope_gather_for_mode example_memory)
          example_geometry example_envelope_grids example_m_array True (example_x ! nat 0)
          (example_y ! nat 0) (example_z ! nat 0)
          (np_empty (fst (example_junk 0)) 4) (np_empty (snd (example_junk 0)) 4)
          = Some (F', Fr', Ft', Fz')"
       "py_get (a2_out example_envelope_out) 0 = Some old'"
       "py_get (a2_out example_envelope_result) 0 = Some (0.5 * (old' + Re (F' * cnj F')))"
       "old' = 5 \<and> Re (F' * cnj F') = 3 \<longrightarrow>
          py_get (a2_out example_envelope_result) 0 = Some 4
          \<and> (\<forall>cout2. gather_envelope_field_numba_cubic
                (add_cubic_envelope_gather_for_mode example_memory)
                example_geometry example_envelope_grids example_m_array example_x example_y
                example_z example_envelope_result example_junk 2 [0, 1, 2] True True = Some cout2
               \<longrightarrow> py_get (a2_out cout2) 0 = Some (7 / 2))"
    by blast
  have "F' = of_real (sqrt 3)"
    using g(1) example_envelope_cubic_sums(1) [of "np_empty (fst (example_junk 0)) 4"
        "np_empty (snd (example_junk 0)) 4" example_memory True]
    by (simp add: example_x_def example_y_def example_z_def np_empty_length)
  then have three': "Re (F' * cnj F') = 3" by simp
  have five': "old' = 5" using g(2) by (simp add: example_envelope_out_def py_get_def)
  have b: "py_get (a2_out example_envelope_result2) 0 = Some (7 / 2)"
    using g(4) three' five' c2 by blast
  have cub: "\<exists>F Fr Ft Fz old.
        envelope_cubic_sums (add_cubic_envelope_gather_for_mode example_memory)
          example_geometry example_envelope_grids example_m_array True (example_x ! nat 0)
          (example_y ! nat 0) (example_z ! nat 0)
          (np_empty (fst (example_junk 0)) 4) (np_empty (snd (example_junk 0)) 4)
          = Some (F, Fr, Ft, Fz)
        \<and> Re (F * cnj F) = 3
        \<and> py_get (a2_out example_envelope_out) 0 = Some old
        \<and> py_get (a2_out example_envelope_result) 0 = Some (0.5 * (old + Re (F * cnj F)))"
    using g(1-3) three' by blast
  show ?thesis
    using l1 l2 p c1 c2 f(2) five a b lin cub by (intro conjI) simp_all
qed

subsection \<open>The gradient outputs under averaging\<close>

text \<open>
  C10. With both \<open>gather_gradient\<close> and \<open>average_a2\<close> set, in a call of
  \<open>gather_envelope_field_numba_linear\<close> that returns, and in a call of
  \<open>gather_envelope_field_numba_cubic\<close> that returns, the three gradient outputs of every
  particle are the freshly computed values, whatever the arrays held before: a call
  started from any other output arrays gives the same three values. Only the intensity
  is averaged with its stored value.
\<close>

theorem envelope_gradient_overwritten:
  "(gather_envelope_field_numba_linear add G g m_array x y z out True True = Some out'
      \<and> 0 \<le> i \<and> i < int (length x) \<longrightarrow>
    (\<exists>F Fr Ft Fz old cs sn.
      envelope_linear_sums add G g m_array True (x ! nat i) (y ! nat i) (z ! nat i)
        = Some (F, Fr, Ft, Fz)
      \<and> cs = fst (snd (cyl_conv (x ! nat i) (y ! nat i)))
      \<and> sn = snd (snd (cyl_conv (x ! nat i) (y ! nat i)))
      \<and> py_get (grad_a2_x out') i = Some (2 * Re ((of_real cs * Fr - of_real sn * Ft) * cnj F))
      \<and> py_get (grad_a2_y out') i = Some (2 * Re ((of_real sn * Fr + of_real cs * Ft) * cnj F))
      \<and> py_get (grad_a2_z out') i = Some (2 * Re (Fz * cnj F))
      \<and> py_get (a2_out out) i = Some old
      \<and> py_get (a2_out out') i = Some (0.5 * (old + Re (F * cnj F)))
      \<and> (\<forall>out0 out0'.
            gather_envelope_field_numba_linear add G g m_array x y z out0 True True = Some out0'
            \<longrightarrow> py_get (grad_a2_x out0') i = py_get (grad_a2_x out') i
              \<and> py_get (grad_a2_y out0') i = py_get (grad_a2_y out') i
              \<and> py_get (grad_a2_z out0') i = py_get (grad_a2_z out') i)))
   \<and> (chunk_partition idx nthreads N
       \<and> gather_envelope_field_numba_cubic addc G g m_array x y z cout junk nthreads idx
            True True = Some cout'
       \<and> 0 \<le> i \<and> i < N \<longrightarrow>
    (\<exists>F Fr Ft Fz old cs sn.
      envelope_cubic_sums addc G g m_array True (x ! nat i) (y ! nat i) (z ! nat i)
        (np_empty (fst (junk 0)) 4) (np_empty (snd (junk 0)) 4) = Some (F, Fr, Ft, Fz)
      \<and> cs = fst (snd (cyl_conv (x ! nat i) (y ! nat i)))
      \<and> sn = snd (snd (cyl_conv (x ! nat i) (y ! nat i)))
      \<and> py_get (grad_a2_x cout') i = Some (2 * Re ((of_real cs * Fr - of_real sn * Ft) * cnj F))
      \<and> py_get (grad_a2_y cout') i = Some (2 * Re ((of_real sn * Fr + of_real cs * Ft) * cnj F))
      \<and> py_get (grad_a2_z cout') i = Some (2 * Re (Fz * cnj F))
      \<and> py_get (a2_out cout) i = Some old
      \<and> py_get (a2_out cout') i = Some (0.5 * (old + Re (F * cnj F)))
      \<and> (\<forall>cout0 cout0'.
            gather_envelope_field_numba_cubic addc G g m_array x y z cout0 junk nthreads idx
              True True = Some cout0'
            \<longrightarrow> py_get (grad_a2_x cout0') i = py_get (grad_a2_x cout') i
              \<and> py_get (grad_a2_y cout0') i = py_get (grad_a2_y cout') i
              \<and> py_get (grad_a2_z cout0') i = py_get (grad_a2_z cout') i)))"
proof -
  define cs where "cs = fst (snd (cyl_conv (x ! nat i) (y ! nat i)))"
  define sn where "sn = snd (snd (cyl_conv (x ! nat i) (y ! nat i)))"
  have lin: "\<exists>F Fr Ft Fz old cs sn.
      envelope_linear_sums add G g m_array True (x ! nat i) (y ! nat i) (z ! nat i)
        = Some (F, Fr, Ft, Fz)
      \<and> cs = fst (snd (cyl_conv (x ! nat i) (y ! nat i)))
      \<and> sn = snd (snd (cyl_conv (x ! nat i) (y ! nat i)))
      \<and> py_get (grad_a2_x out') i = Some (2 * Re ((of_real cs * Fr - of_real sn * Ft) * cnj F))
      \<and> py_get (grad_a2_y out') i = Some (2 * Re ((of_real sn * Fr + of_real cs * Ft) * cnj F))
      \<and> py_get (grad_a2_z out') i = Some (2 * Re (Fz * cnj F))
      \<and> py_get (a2_out out) i = Some old
      \<and> py_get (a2_out out') i = Some (0.5 * (old + Re (F * cnj F)))
      \<and> (\<forall>out0 out0'.
            gather_envelope_field_numba_linear add G g m_array x y z out0 True True = Some out0'
            \<longrightarrow> py_get (grad_a2_x out0') i = py_get (grad_a2_x out') i
              \<and> py_get (grad_a2_y out0') i = py_get (grad_a2_y out') i
              \<and> py_get (grad_a2_z out0') i = py_get (grad_a2_z out') i)"
    if call: "gather_envelope_field_numba_linear add G g m_array x y z out True True = Some out'"
      and i: "0 \<le> i" "i < int (length x)"
  proof -
    from gather_envelope_linear_at [OF call i] obtain F Fr Ft Fz old where
      f: "envelope_linear_sums add G g m_array True (x ! nat i) (y ! nat i) (z ! nat i)
            = Some (F, Fr, Ft, Fz)"
         "py_get (a2_out out) i = Some old"
         "py_get (a2_out out') i = Some (0.5 * (old + Re (F * cnj F)))"
         "py_get (grad_a2_x out') i = Some (2 * Re ((of_real cs * Fr - of_real sn * Ft) * cnj F))"
         "py_get (grad_a2_y out') i = Some (2 * Re ((of_real sn * Fr + of_real cs * Ft) * cnj F))"
         "py_get (grad_a2_z out') i = Some (2 * Re (Fz * cnj F))"
      unfolding cs_def sn_def by auto
    have other: "py_get (grad_a2_x out0') i = py_get (grad_a2_x out') i
              \<and> py_get (grad_a2_y out0') i = py_get (grad_a2_y out') i
              \<and> py_get (grad_a2_z out0') i = py_get (grad_a2_z out') i"
      if call0: "gather_envelope_field_numba_linear add G g m_array x y z out0 True True
          = Some out0'" for out0 out0'
    proof -
      from gather_envelope_linear_at [OF call0 i] obtain F' Fr' Ft' Fz' where
        f': "envelope_linear_sums add G g m_array True (x ! nat i) (y ! nat i) (z ! nat i)
            = Some (F', Fr', Ft', Fz')"
         "py_get (grad_a2_x out0') i
            = Some (2 * Re ((of_real cs * Fr' - of_real sn * Ft') * cnj F'))"
         "py_get (grad_a2_y out0') i
            = Some (2 * Re ((of_real sn * Fr' + of_real cs * Ft') * cnj F'))"
         "py_get (grad_a2_z out0') i = Some (2 * Re (Fz' * cnj F'))"
        unfolding cs_def sn_def by auto
      have "F' = F" "Fr' = Fr" "Ft' = Ft" "Fz' = Fz" using f(1) f'(1) by simp_all
      then show ?thesis using f f' by simp
    qed
    show ?thesis using f other unfolding cs_def sn_def by blast
  qed
  have s: "length (np_empty (fst (junk 0)) 4) = 4" "length (np_empty (snd (junk 0)) 4) = 4"
    by (simp_all add: np_empty_length)
  have cub: "\<exists>F Fr Ft Fz old cs sn.
      envelope_cubic_sums addc G g m_array True (x ! nat i) (y ! nat i) (z ! nat i)
        (np_empty (fst (junk 0)) 4) (np_empty (snd (junk 0)) 4) = Some (F, Fr, Ft, Fz)
      \<and> cs = fst (snd (cyl_conv (x ! nat i) (y ! nat i)))
      \<and> sn = snd (snd (cyl_conv (x ! nat i) (y ! nat i)))
      \<and> py_get (grad_a2_x cout') i = Some (2 * Re ((of_real cs * Fr - of_real sn * Ft) * cnj F))
      \<and> py_get (grad_a2_y cout') i = Some (2 * Re ((of_real sn * Fr + of_real cs * Ft) * cnj F))
      \<and> py_get (grad_a2_z cout') i = Some (2 * Re (Fz * cnj F))
      \<and> py_get (a2_out cout) i = Some old
      \<and> py_get (a2_out cout') i = Some (0.5 * (old + Re (F * cnj F)))
      \<and> (\<forall>cout0 cout0'.
            gather_envelope_field_numba_cubic addc G g m_array x y z cout0 junk nthreads idx
              True True = Some cout0'
            \<longrightarrow> py_get (grad_a2_x cout0') i = py_get (grad_a2_x cout') i
              \<and> py_get (grad_a2_y cout0') i = py_get (grad_a2_y cout') i
              \<and> py_get (grad_a2_z cout0') i = py_get (grad_a2_z cout') i)"
    if p: "chunk_partition idx nthreads N"
      and call: "gather_envelope_field_numba_cubic addc G g m_array x y z cout junk nthreads idx
            True True = Some cout'"
      and i: "0 \<le> i" "i < N"
  proof -
    from gather_envelope_cubic_at [OF p call i s] obtain F Fr Ft Fz old where
      f: "envelope_cubic_sums addc G g m_array True (x ! nat i) (y ! nat i) (z ! nat i)
            (np_empty (fst (junk 0)) 4) (np_empty (snd (junk 0)) 4) = Some (F, Fr, Ft, Fz)"
         "py_get (a2_out cout) i = Some old"
         "py_get (a2_out cout') i = Some (0.5 * (old + Re (F * cnj F)))"
         "py_get (grad_a2_x cout') i = Some (2 * Re ((of_real cs * Fr - of_real sn * Ft) * cnj F))"
         "py_get (grad_a2_y cout') i = Some (2 * Re ((of_real sn * Fr + of_real cs * Ft) * cnj F))"
         "py_get (grad_a2_z cout') i = Some (2 * Re (Fz * cnj F))"
      unfolding cs_def sn_def by auto
    have other: "py_get (grad_a2_x cout0') i = py_get (grad_a2_x cout') i
              \<and> py_get (grad_a2_y cout0') i = py_get (grad_a2_y cout') i
              \<and> py_get (grad_a2_z cout0') i = py_get (grad_a2_z cout') i"
      if call0: "gather_envelope_field_numba_cubic addc G g m_array x y z cout0 junk nthreads idx
              True True = Some cout0'" for cout0 cout0'
    proof -
      from gather_envelope_cubic_at [OF p call0 i s] obtain F' Fr' Ft' Fz' where
        f': "envelope_cubic_sums addc G g m_array True (x ! nat i) (y ! nat i) (z ! nat i)
            (np_empty (fst (junk 0)) 4) (np_empty (snd (junk 0)) 4) = Some (F', Fr', Ft', Fz')"
         "py_get (grad_a2_x cout0') i
            = Some (2 * Re ((of_real cs * Fr' - of_real sn * Ft') * cnj F'))"
         "py_get (grad_a2_y cout0') i
            = Some (2 * Re ((of_real sn * Fr' + of_real cs * Ft') * cnj F'))"
         "py_get (grad_a2_z cout0') i = Some (2 * Re (Fz' * cnj F'))"
        unfolding cs_def sn_def by auto
      have "F' = F" "Fr' = Fr" "Ft' = Ft" "Fz' = Fz" using f(1) f'(1) by simp_all
      then show ?thesis using f f' by simp
    qed
    show ?thesis using f other unfolding cs_def sn_def by blast
  qed
  show ?thesis using lin cub by blast
qed

text \<open>
  The second particle of the example: the stored gradient 9 is replaced by 0 and by
  \<open>2 * sqrt 3\<close>, the stored intensity 5 becomes 4, in both kernels.
\<close>

theorem envelope_gradient_overwritten_witness:
  "gather_envelope_field_numba_linear (add_linear_envelope_gather_for_mode example_memory)
      example_geometry example_envelope_grids example_m_array example_x example_y example_z
      example_envelope_out True True = Some example_envelope_result
   \<and> chunk_partition [0, 1, 2] 2 2
   \<and> gather_envelope_field_numba_cubic (add_cubic_envelope_gather_for_mode example_memory)
      example_geometry example_envelope_grids example_m_array example_x example_y example_z
      example_envelope_out example_junk 2 [0, 1, 2] True True = Some example_envelope_result
   \<and> py_get (grad_a2_x example_envelope_out) 1 = Some 9
   \<and> py_get (grad_a2_x example_envelope_result) 1 = Some 0
   \<and> py_get (grad_a2_y example_envelope_out) 1 = Some 9
   \<and> py_get (grad_a2_y example_envelope_result) 1 = Some (2 * sqrt 3)
   \<and> py_get (a2_out example_envelope_out) 1 = Some 5
   \<and> py_get (a2_out example_envelope_result) 1 = Some 4
   \<and> (\<exists>F Fr Ft Fz old cs sn.
      envelope_linear_sums (add_linear_envelope_gather_for_mode example_memory) example_geometry
        example_envelope_grids example_m_array True (example_x ! nat 1) (example_y ! nat 1)
        (example_z ! nat 1) = Some (F, Fr, Ft, Fz)
      \<and> cs = fst (snd (cyl_conv (example_x ! nat 1) (example_y ! nat 1)))
      \<and> sn = snd (snd (cyl_conv (example_x ! nat 1) (example_y ! nat 1)))
      \<and> py_get (grad_a2_x example_envelope_result) 1
           = Some (2 * Re ((of_real cs * Fr - of_real sn * Ft) * cnj F))
      \<and> py_get (grad_a2_y example_envelope_result) 1
           = Some (2 * Re ((of_real sn * Fr + of_real cs * Ft) * cnj F))
      \<and> py_get (grad_a2_z example_envelope_result) 1 = Some (2 * Re (Fz * cnj F))
      \<and> py_get (a2_out example_envelope_out) 1 = Some old
      \<and> py_get (a2_out example_envelope_result) 1 = Some (0.5 * (old + Re (F * cnj F)))
      \<and> (\<forall>out0 out0'.
            gather_envelope_field_numba_linear
              (add_linear_envelope_gather_for_mode example_memory)
              example_geometry example_envelope_grids example_m_array example_x example_y
              example_z out0 True True = Some out0'
            \<longrightarrow> py_get (grad_a2_x out0') 1 = py_get (grad_a2_x example_envelope_result) 1
              \<and> py_get (grad_a2_y out0') 1 = py_get (grad_a2_y example_envelope_result) 1
              \<and> py_get (grad_a2_z out0') 1 = py_get (grad_a2_z example_envelope_result) 1))
   \<and> (\<exists>F Fr Ft Fz old cs sn.
      envelope_cubic_sums (add_cubic_envelope_gather_for_mode example_memory) example_geometry
        example_envelope_grids example_m_array True (example_x ! nat 1) (example_y ! nat 1)
        (example_z ! nat 1)
        (np_empty (fst (example_junk 0)) 4) (np_empty (snd (example_junk 0)) 4)
        = Some (F, Fr, Ft, Fz)
      \<and> cs = fst (snd (cyl_conv (example_x ! nat 1) (example_y ! nat 1)))
      \<and> sn = snd (snd (cyl_conv (example_x ! nat 1) (example_y ! nat 1)))
      \<and> py_get (grad_a2_x example_envelope_result) 1
           = Some (2 * Re ((of_real cs * Fr - of_real sn * Ft) * cnj F))
      \<and> py_get (grad_a2_y example_envelope_result) 1
           = Some (2 * Re ((of_real sn * Fr + of_real cs * Ft) * cnj F))
      \<and> py_get (grad_a2_z example_envelope_result) 1 = Some (2 * Re (Fz * cnj F))
      \<and> py_get (a2_out example_envelope_out) 1 = Some old
      \<and> py_get (a2_out example_envelope_result) 1 = Some (0.5 * (old + Re (F * cnj F)))
      \<and> (\<forall>cout0 cout0'.
            gather_envelope_field_numba_cubic
              (add_cubic_envelope_gather_for_mode example_memory)
              example_geometry example_envelope_grids example_m_array example_x example_y
              example_z cout0 example_junk 2 [0, 1, 2] True True = Some cout0'
            \<longrightarrow> py_get (grad_a2_x cout0') 1 = py_get (grad_a2_x example_envelope_result) 1
              \<and> py_get (grad_a2_y cout0') 1 = py_get (grad_a2_y example_envelope_result) 1
              \<and> py_get (grad_a2_z cout0') 1 = py_get (grad_a2_z example_envelope_result) 1))"
proof -
  note T = envelope_gradient_overwritten [where
      add = "add_linear_envelope_gather_for_mode example_memory"
      and G = example_geometry and g = example_envelope_grids and m_array = example_m_array
      and x = example_x and y = example_y and z = example_z and out = example_envelope_out
      and out' = example_envelope_result and i = 1
      and addc = "add_cubic_envelope_gather_for_mode example_memory"
      and idx = "[0, 1, 2]" and nthreads = 2 and N = 2 and junk = example_junk
      and cout = example_envelope_out and cout' = example_envelope_result]
  note l1 = example_envelope_first_call [of example_memory]
  note c1 = example_envelope_cubic_first_call [of example_memory example_junk]
  note p = oblique_partition
  have v: "py_get (grad_a2_x example_envelope_out) 1 = Some 9"
    "py_get (grad_a2_x example_envelope_result) 1 = Some 0"
    "py_get (grad_a2_y example_envelope_out) 1 = Some 9"
    "py_get (grad_a2_y example_envelope_result) 1 = Some (2 * sqrt 3)"
    "py_get (a2_out example_envelope_out) 1 = Some 5"
    "py_get (a2_out example_envelope_result) 1 = Some 4"
    by (simp_all add: example_envelope_out_def example_envelope_result_def py_get_def)
  note a = T [THEN conjunct1, rule_format, OF conjI [OF l1 conjI [OF example_range]]]
  note b = T [THEN conjunct2, rule_format,
      OF conjI [OF p conjI [OF c1 conjI [OF example_range2(3,4)]]]]
  show ?thesis
    using l1 p c1 v a b by (intro conjI)
qed

subsection \<open>From cylindrical to Cartesian components\<close>

text \<open>
  C7. In a call that returns, each of the four kernels writes for every particle \<open>i\<close> the
  Cartesian components \<open>Fx = cos * Fr - sin * Ft\<close>, \<open>Fy = sin * Fr + cos * Ft\<close> and
  \<open>Fz\<close> of the sums \<open>(Fr, Ft, Fz)\<close> accumulated over the modes at the position of the
  particle: \<open>gather_field_numba_linear\<close> and \<open>gather_field_numba_cubic\<close> for the E field
  and for the B field, and the two envelope kernels (with \<open>gather_gradient\<close>) for the
  gradient, whose components \<open>c\<close> are written as \<open>2 * Re (c * cnj F)\<close>. For the cubic
  kernels this holds for every division of the particles into chunks.
\<close>

theorem cartesian_rotation:
  "(gather_field_numba_linear add G g x y z out = Some out' \<and> 0 \<le> i \<and> i < int (length x) \<longrightarrow>
     (\<exists>rj cs sn Fr Ft Fz Gr Gt Gz.
        cyl_conv (x ! nat i) (y ! nat i) = (rj, cs, sn)
        \<and> linear_sums add (Er_m0 g, Et_m0 g, Ez_m0 g) (Er_m1 g, Et_m1 g, Ez_m1 g) cs sn
            (linear_shape G rj (z ! nat i)) = Some (Fr, Ft, Fz)
        \<and> linear_sums add (Br_m0 g, Bt_m0 g, Bz_m0 g) (Br_m1 g, Bt_m1 g, Bz_m1 g) cs sn
            (linear_shape G rj (z ! nat i)) = Some (Gr, Gt, Gz)
        \<and> py_get (Ex_out out') i = Some (cs * Fr - sn * Ft)
        \<and> py_get (Ey_out out') i = Some (sn * Fr + cs * Ft)
        \<and> py_get (Ez_out out') i = Some Fz
        \<and> py_get (Bx_out out') i = Some (cs * Gr - sn * Gt)
        \<and> py_get (By_out out') i = Some (sn * Gr + cs * Gt)
        \<and> py_get (Bz_out out') i = Some Gz))
   \<and> (chunk_partition idx nthreads N
        \<and> gather_field_numba_cubic addc G g x y z cout junk nthreads idx = Some cout'
        \<and> 0 \<le> i \<and> i < N \<longrightarrow>
     (\<exists>rj cs sn Fr Ft Fz Gr Gt Gz.
        cyl_conv (x ! nat i) (y ! nat i) = (rj, cs, sn)
        \<and> cubic_sums addc (Er_m0 g, Et_m0 g, Ez_m0 g) (Er_m1 g, Et_m1 g, Ez_m1 g) cs sn
            (cubic_lowest (r_cell G rj)) (cubic_lowest (z_cell G (z ! nat i)))
            (cubic_weights (r_cell G rj - of_int (cubic_lowest (r_cell G rj))))
            (cubic_weights (z_cell G (z ! nat i) - of_int (cubic_lowest (z_cell G (z ! nat i)))))
            (Nr G) (Nz G) = Some (Fr, Ft, Fz)
        \<and> cubic_sums addc (Br_m0 g, Bt_m0 g, Bz_m0 g) (Br_m1 g, Bt_m1 g, Bz_m1 g) cs sn
            (cubic_lowest (r_cell G rj)) (cubic_lowest (z_cell G (z ! nat i)))
            (cubic_weights (r_cell G rj - of_int (cubic_lowest (r_cell G rj))))
            (cubic_weights (z_cell G (z ! nat i) - of_int (cubic_lowest (z_cell G (z ! nat i)))))
            (Nr G) (Nz G) = Some (Gr, Gt, Gz)
        \<and> py_get (Ex_out cout') i = Some (cs * Fr - sn * Ft)
        \<and> py_get (Ey_out cout') i = Some (sn * Fr + cs * Ft)
        \<and> py_get (Ez_out cout') i = Some Fz
        \<and> py_get (Bx_out cout') i = Some (cs * Gr - sn * Gt)
        \<and> py_get (By_out cout') i = Some (sn * Gr + cs * Gt)
        \<and> py_get (Bz_out cout') i = Some Gz))
   \<and> (gather_envelope_field_numba_linear adde G eg m_array x y z eout True average_a2
          = Some eout' \<and> 0 \<le> i \<and> i < int (length x) \<longrightarrow>
     (\<exists>rj cs sn F Fr Ft Fz.
        cyl_conv (x ! nat i) (y ! nat i) = (rj, cs, sn)
        \<and> envelope_linear_sums adde G eg m_array True (x ! nat i) (y ! nat i) (z ! nat i)
            = Some (F, Fr, Ft, Fz)
        \<and> py_get (grad_a2_x eout') i
             = Some (2 * Re ((of_real cs * Fr - of_real sn * Ft) * cnj F))
        \<and> py_get (grad_a2_y eout') i
             = Some (2 * Re ((of_real sn * Fr + of_real cs * Ft) * cnj F))
        \<and> py_get (grad_a2_z eout') i = Some (2 * Re (Fz * cnj F))))
   \<and> (chunk_partition idx nthreads N
        \<and> gather_envelope_field_numba_cubic addce G eg m_array x y z ceout junk nthreads idx
             True average_a2 = Some ceout'
        \<and> 0 \<le> i \<and> i < N \<longrightarrow>
     (\<exists>rj cs sn F Fr Ft Fz.
        cyl_conv (x ! nat i) (y ! nat i) = (rj, cs, sn)
        \<and> envelope_cubic_sums addce G eg m_array True (x ! nat i) (y ! nat i) (z ! nat i)
             (np_empty (fst (junk 0)) 4) (np_empty (snd (junk 0)) 4) = Some (F, Fr, Ft, Fz)
        \<and> py_get (grad_a2_x ceout') i
             = Some (2 * Re ((of_real cs * Fr - of_real sn * Ft) * cnj F))
        \<and> py_get (grad_a2_y ceout') i
             = Some (2 * Re ((of_real sn * Fr + of_real cs * Ft) * cnj F))
        \<and> py_get (grad_a2_z ceout') i = Some (2 * Re (Fz * cnj F))))"
proof -
  obtain rj cs sn where c: "cyl_conv (x ! nat i) (y ! nat i) = (rj, cs, sn)"
    by (cases "cyl_conv (x ! nat i) (y ! nat i)")
  have cs: "fst (snd (cyl_conv (x ! nat i) (y ! nat i))) = cs"
    "snd (snd (cyl_conv (x ! nat i) (y ! nat i))) = sn"
    using c by simp_all
  have s: "length (np_empty (fst (junk 0)) 4) = 4" "length (np_empty (snd (junk 0)) 4) = 4"
    by (simp_all add: np_empty_length)
  have el: "\<exists>rj cs sn F Fr Ft Fz.
        cyl_conv (x ! nat i) (y ! nat i) = (rj, cs, sn)
        \<and> envelope_linear_sums adde G eg m_array True (x ! nat i) (y ! nat i) (z ! nat i)
            = Some (F, Fr, Ft, Fz)
        \<and> py_get (grad_a2_x eout') i
             = Some (2 * Re ((of_real cs * Fr - of_real sn * Ft) * cnj F))
        \<and> py_get (grad_a2_y eout') i
             = Some (2 * Re ((of_real sn * Fr + of_real cs * Ft) * cnj F))
        \<and> py_get (grad_a2_z eout') i = Some (2 * Re (Fz * cnj F))"
    if call: "gather_envelope_field_numba_linear adde G eg m_array x y z eout True average_a2
          = Some eout'" and i: "0 \<le> i" "i < int (length x)"
  proof -
    from gather_envelope_linear_at [OF call i] obtain F Fr Ft Fz where
      "envelope_linear_sums adde G eg m_array True (x ! nat i) (y ! nat i) (z ! nat i)
            = Some (F, Fr, Ft, Fz)"
      "py_get (grad_a2_x eout') i
             = Some (2 * Re ((of_real cs * Fr - of_real sn * Ft) * cnj F))"
      "py_get (grad_a2_y eout') i
             = Some (2 * Re ((of_real sn * Fr + of_real cs * Ft) * cnj F))"
      "py_get (grad_a2_z eout') i = Some (2 * Re (Fz * cnj F))"
      unfolding cs by auto
    then show ?thesis using c by blast
  qed
  have ec: "\<exists>rj cs sn F Fr Ft Fz.
        cyl_conv (x ! nat i) (y ! nat i) = (rj, cs, sn)
        \<and> envelope_cubic_sums addce G eg m_array True (x ! nat i) (y ! nat i) (z ! nat i)
             (np_empty (fst (junk 0)) 4) (np_empty (snd (junk 0)) 4) = Some (F, Fr, Ft, Fz)
        \<and> py_get (grad_a2_x ceout') i
             = Some (2 * Re ((of_real cs * Fr - of_real sn * Ft) * cnj F))
        \<and> py_get (grad_a2_y ceout') i
             = Some (2 * Re ((of_real sn * Fr + of_real cs * Ft) * cnj F))
        \<and> py_get (grad_a2_z ceout') i = Some (2 * Re (Fz * cnj F))"
    if p: "chunk_partition idx nthreads N"
      and call: "gather_envelope_field_numba_cubic addce G eg m_array x y z ceout junk nthreads
          idx True average_a2 = Some ceout'" and i: "0 \<le> i" "i < N"
  proof -
    from gather_envelope_cubic_at [OF p call i s] obtain F Fr Ft Fz where
      "envelope_cubic_sums addce G eg m_array True (x ! nat i) (y ! nat i) (z ! nat i)
             (np_empty (fst (junk 0)) 4) (np_empty (snd (junk 0)) 4) = Some (F, Fr, Ft, Fz)"
      "py_get (grad_a2_x ceout') i
             = Some (2 * Re ((of_real cs * Fr - of_real sn * Ft) * cnj F))"
      "py_get (grad_a2_y ceout') i
             = Some (2 * Re ((of_real sn * Fr + of_real cs * Ft) * cnj F))"
      "py_get (grad_a2_z ceout') i = Some (2 * Re (Fz * cnj F))"
      unfolding cs by auto
    then show ?thesis using c by blast
  qed
  show ?thesis
    using gather_linear_at [of add G g x y z out out' i]
      gather_cubic_at [of idx nthreads N addc G g x y z cout junk cout' i] el ec
    by (intro conjI impI) blast+
qed

text \<open>
  The particle at \<open>(6/5, 8/5)\<close>, with \<open>cos = 3/5\<close> and \<open>sin = 4/5\<close>: from
  \<open>(Fr, Ft) = (5, 1)\<close> the kernels write \<open>Ex = 11/5\<close> and \<open>Ey = 23/5\<close>, from
  \<open>(1, 2)\<close> they write \<open>Bx = - 1\<close> and \<open>By = 2\<close>, and the gradient \<open>(1, 2)\<close>
  of the envelope gives \<open>- 2 * sqrt 3\<close> and \<open>4 * sqrt 3\<close>.
\<close>

theorem cartesian_rotation_witness:
  "cyl_conv (oblique_x ! nat 0) (oblique_y ! nat 0) = (2, 3 / 5, 4 / 5)
   \<and> chunk_partition [0, 1, 2] 2 2
   \<and> gather_field_numba_linear (add_linear_gather_for_mode example_memory) example_geometry
        oblique_eb_grids oblique_x oblique_y example_z example_eb_out2 = Some oblique_eb_result
   \<and> gather_field_numba_cubic (add_cubic_gather_for_mode example_memory) example_geometry
        oblique_eb_grids oblique_x oblique_y example_z example_eb_out2
        example_junk 2 [0, 1, 2] = Some oblique_eb_result
   \<and> gather_envelope_field_numba_linear (add_linear_envelope_gather_for_mode example_memory)
        example_geometry oblique_envelope_grids example_m_array oblique_x oblique_y example_z
        example_envelope_out True False = Some oblique_envelope_result
   \<and> gather_envelope_field_numba_cubic (add_cubic_envelope_gather_for_mode example_memory)
        example_geometry oblique_envelope_grids example_m_array oblique_x oblique_y example_z
        example_envelope_out example_junk 2 [0, 1, 2] True False
      = Some oblique_envelope_result
   \<and> py_get (Ex_out oblique_eb_result) 0 = Some (11 / 5)
   \<and> py_get (Ey_out oblique_eb_result) 0 = Some (23 / 5)
   \<and> py_get (Bx_out oblique_eb_result) 0 = Some (- 1)
   \<and> py_get (By_out oblique_eb_result) 0 = Some 2
   \<and> py_get (grad_a2_x oblique_envelope_result) 0 = Some (- (2 * sqrt 3))
   \<and> py_get (grad_a2_y oblique_envelope_result) 0 = Some (4 * sqrt 3)
   \<and> (\<exists>rj cs sn Fr Ft Fz Gr Gt Gz.
        cyl_conv (oblique_x ! nat 0) (oblique_y ! nat 0) = (rj, cs, sn)
        \<and> linear_sums (add_linear_gather_for_mode example_memory)
            (Er_m0 oblique_eb_grids, Et_m0 oblique_eb_grids, Ez_m0 oblique_eb_grids)
            (Er_m1 oblique_eb_grids, Et_m1 oblique_eb_grids, Ez_m1 oblique_eb_grids) cs sn
            (linear_shape example_geometry rj (example_z ! nat 0)) = Some (Fr, Ft, Fz)
        \<and> linear_sums (add_linear_gather_for_mode example_memory)
            (Br_m0 oblique_eb_grids, Bt_m0 oblique_eb_grids, Bz_m0 oblique_eb_grids)
            (Br_m1 oblique_eb_grids, Bt_m1 oblique_eb_grids, Bz_m1 oblique_eb_grids) cs sn
            (linear_shape example_geometry rj (example_z ! nat 0)) = Some (Gr, Gt, Gz)
        \<and> py_get (Ex_out oblique_eb_result) 0 = Some (cs * Fr - sn * Ft)
        \<and> py_get (Ey_out oblique_eb_result) 0 = Some (sn * Fr + cs * Ft)
        \<and> py_get (Ez_out oblique_eb_result) 0 = Some Fz
        \<and> py_get (Bx_out oblique_eb_result) 0 = Some (cs * Gr - sn * Gt)
        \<and> py_get (By_out oblique_eb_result) 0 = Some (sn * Gr + cs * Gt)
        \<and> py_get (Bz_out oblique_eb_result) 0 = Some Gz)
   \<and> (\<exists>rj cs sn Fr Ft Fz Gr Gt Gz.
        cyl_conv (oblique_x ! nat 0) (oblique_y ! nat 0) = (rj, cs, sn)
        \<and> cubic_sums (add_cubic_gather_for_mode example_memory)
            (Er_m0 oblique_eb_grids, Et_m0 oblique_eb_grids, Ez_m0 oblique_eb_grids)
            (Er_m1 oblique_eb_grids, Et_m1 oblique_eb_grids, Ez_m1 oblique_eb_grids) cs sn
            (cubic_lowest (r_cell example_geometry rj))
            (cubic_lowest (z_cell example_geometry (example_z ! nat 0)))
            (cubic_weights (r_cell example_geometry rj
               - of_int (cubic_lowest (r_cell example_geometry rj))))
            (cubic_weights (z_cell example_geometry (example_z ! nat 0)
               - of_int (cubic_lowest (z_cell example_geometry (example_z ! nat 0)))))
            (Nr example_geometry) (Nz example_geometry) = Some (Fr, Ft, Fz)
        \<and> cubic_sums (add_cubic_gather_for_mode example_memory)
            (Br_m0 oblique_eb_grids, Bt_m0 oblique_eb_grids, Bz_m0 oblique_eb_grids)
            (Br_m1 oblique_eb_grids, Bt_m1 oblique_eb_grids, Bz_m1 oblique_eb_grids) cs sn
            (cubic_lowest (r_cell example_geometry rj))
            (cubic_lowest (z_cell example_geometry (example_z ! nat 0)))
            (cubic_weights (r_cell example_geometry rj
               - of_int (cubic_lowest (r_cell example_geometry rj))))
            (cubic_weights (z_cell example_geometry (example_z ! nat 0)
               - of_int (cubic_lowest (z_cell example_geometry (example_z ! nat 0)))))
            (Nr example_geometry) (Nz example_geometry) = Some (Gr, Gt, Gz)
        \<and> py_get (Ex_out oblique_eb_result) 0 = Some (cs * Fr - sn * Ft)
        \<and> py_get (Ey_out oblique_eb_result) 0 = Some (sn * Fr + cs * Ft)
        \<and> py_get (Ez_out oblique_eb_result) 0 = Some Fz
        \<and> py_get (Bx_out oblique_eb_result) 0 = Some (cs * Gr - sn * Gt)
        \<and> py_get (By_out oblique_eb_result) 0 = Some (sn * Gr + cs * Gt)
        \<and> py_get (Bz_out oblique_eb_result) 0 = Some Gz)
   \<and> (\<exists>rj cs sn F Fr Ft Fz.
        cyl_conv (oblique_x ! nat 0) (oblique_y ! nat 0) = (rj, cs, sn)
        \<and> envelope_linear_sums (add_linear_envelope_gather_for_mode example_memory)
            example_geometry oblique_envelope_grids example_m_array True
            (oblique_x ! nat 0) (oblique_y ! nat 0) (example_z ! nat 0) = Some (F, Fr, Ft, Fz)
        \<and> py_get (grad_a2_x oblique_envelope_result) 0
             = Some (2 * Re ((of_real cs * Fr - of_real sn * Ft) * cnj F))
        \<and> py_get (grad_a2_y oblique_envelope_result) 0
             = Some (2 * Re ((of_real sn * Fr + of_real cs * Ft) * cnj F))
        \<and> py_get (grad_a2_z oblique_envelope_result) 0 = Some (2 * Re (Fz * cnj F)))
   \<and> (\<exists>rj cs sn F Fr Ft Fz.
        cyl_conv (oblique_x ! nat 0) (oblique_y ! nat 0) = (rj, cs, sn)
        \<and> envelope_cubic_sums (add_cubic_envelope_gather_for_mode example_memory)
            example_geometry oblique_envelope_grids example_m_array True
            (oblique_x ! nat 0) (oblique_y ! nat 0) (example_z ! nat 0)
            (np_empty (fst (example_junk 0)) 4) (np_empty (snd (example_junk 0)) 4)
            = Some (F, Fr, Ft, Fz)
        \<and> py_get (grad_a2_x oblique_envelope_result) 0
             = Some (2 * Re ((of_real cs * Fr - of_real sn * Ft) * cnj F))
        \<and> py_get (grad_a2_y oblique_envelope_result) 0
             = Some (2 * Re ((of_real sn * Fr + of_real cs * Ft) * cnj F))
        \<and> py_get (grad_a2_z oblique_envelope_result) 0 = Some (2 * Re (Fz * cnj F)))"
proof -
  note T = cartesian_rotation [where add = "add_linear_gather_for_mode example_memory"
      and G = example_geometry and g = oblique_eb_grids
      and x = oblique_x and y = oblique_y and z = example_z and i = 0
      and out = example_eb_out2 and out' = oblique_eb_result
      and idx = "[0, 1, 2]" and nthreads = 2 and N = 2
      and addc = "add_cubic_gather_for_mode example_memory"
      and cout = example_eb_out2 and cout' = oblique_eb_result
      and junk = example_junk
      and adde = "add_linear_envelope_gather_for_mode example_memory"
      and eg = oblique_envelope_grids and m_array = example_m_array
      and ?average_a2.0 = False
      and eout = example_envelope_out and eout' = oblique_envelope_result
      and addce = "add_cubic_envelope_gather_for_mode example_memory"
      and ceout = example_envelope_out and ceout' = oblique_envelope_result]
  note l = oblique_linear_call [of example_memory]
  note c = oblique_cubic_call [of example_memory example_junk]
  note el = oblique_envelope_linear_call [of example_memory]
  note ec = oblique_envelope_cubic_call [of example_memory example_junk]
  note p = oblique_partition
  note r = oblique_range
  from T have T1: "gather_field_numba_linear (add_linear_gather_for_mode example_memory)
        example_geometry oblique_eb_grids oblique_x oblique_y example_z example_eb_out2
        = Some oblique_eb_result \<and> (0::int) \<le> 0 \<and> 0 < int (length oblique_x) \<longrightarrow>
     (\<exists>rj cs sn Fr Ft Fz Gr Gt Gz.
        cyl_conv (oblique_x ! nat 0) (oblique_y ! nat 0) = (rj, cs, sn)
        \<and> linear_sums (add_linear_gather_for_mode example_memory)
            (Er_m0 oblique_eb_grids, Et_m0 oblique_eb_grids, Ez_m0 oblique_eb_grids)
            (Er_m1 oblique_eb_grids, Et_m1 oblique_eb_grids, Ez_m1 oblique_eb_grids) cs sn
            (linear_shape example_geometry rj (example_z ! nat 0)) = Some (Fr, Ft, Fz)
        \<and> linear_sums (add_linear_gather_for_mode example_memory)
            (Br_m0 oblique_eb_grids, Bt_m0 oblique_eb_grids, Bz_m0 oblique_eb_grids)
            (Br_m1 oblique_eb_grids, Bt_m1 oblique_eb_grids, Bz_m1 oblique_eb_grids) cs sn
            (linear_shape example_geometry rj (example_z ! nat 0)) = Some (Gr, Gt, Gz)
        \<and> py_get (Ex_out oblique_eb_result) 0 = Some (cs * Fr - sn * Ft)
        \<and> py_get (Ey_out oblique_eb_result) 0 = Some (sn * Fr + cs * Ft)
        \<and> py_get (Ez_out oblique_eb_result) 0 = Some Fz
        \<and> py_get (Bx_out oblique_eb_result) 0 = Some (cs * Gr - sn * Gt)
        \<and> py_get (By_out oblique_eb_result) 0 = Some (sn * Gr + cs * Gt)
        \<and> py_get (Bz_out oblique_eb_result) 0 = Some Gz)"
    by (rule conjunct1)
  from T have T2: "chunk_partition [0, 1, 2] 2 2
        \<and> gather_field_numba_cubic (add_cubic_gather_for_mode example_memory) example_geometry
        oblique_eb_grids oblique_x oblique_y example_z example_eb_out2
        example_junk 2 [0, 1, 2] = Some oblique_eb_result
        \<and> (0::int) \<le> 0 \<and> (0::int) < 2 \<longrightarrow>
     (\<exists>rj cs sn Fr Ft Fz Gr Gt Gz.
        cyl_conv (oblique_x ! nat 0) (oblique_y ! nat 0) = (rj, cs, sn)
        \<and> cubic_sums (add_cubic_gather_for_mode example_memory)
            (Er_m0 oblique_eb_grids, Et_m0 oblique_eb_grids, Ez_m0 oblique_eb_grids)
            (Er_m1 oblique_eb_grids, Et_m1 oblique_eb_grids, Ez_m1 oblique_eb_grids) cs sn
            (cubic_lowest (r_cell example_geometry rj))
            (cubic_lowest (z_cell example_geometry (example_z ! nat 0)))
            (cubic_weights (r_cell example_geometry rj
               - of_int (cubic_lowest (r_cell example_geometry rj))))
            (cubic_weights (z_cell example_geometry (example_z ! nat 0)
               - of_int (cubic_lowest (z_cell example_geometry (example_z ! nat 0)))))
            (Nr example_geometry) (Nz example_geometry) = Some (Fr, Ft, Fz)
        \<and> cubic_sums (add_cubic_gather_for_mode example_memory)
            (Br_m0 oblique_eb_grids, Bt_m0 oblique_eb_grids, Bz_m0 oblique_eb_grids)
            (Br_m1 oblique_eb_grids, Bt_m1 oblique_eb_grids, Bz_m1 oblique_eb_grids) cs sn
            (cubic_lowest (r_cell example_geometry rj))
            (cubic_lowest (z_cell example_geometry (example_z ! nat 0)))
            (cubic_weights (r_cell example_geometry rj
               - of_int (cubic_lowest (r_cell example_geometry rj))))
            (cubic_weights (z_cell example_geometry (example_z ! nat 0)
               - of_int (cubic_lowest (z_cell example_geometry (example_z ! nat 0)))))
            (Nr example_geometry) (Nz example_geometry) = Some (Gr, Gt, Gz)
        \<and> py_get (Ex_out oblique_eb_result) 0 = Some (cs * Fr - sn * Ft)
        \<and> py_get (Ey_out oblique_eb_result) 0 = Some (sn * Fr + cs * Ft)
        \<and> py_get (Ez_out oblique_eb_result) 0 = Some Fz
        \<and> py_get (Bx_out oblique_eb_result) 0 = Some (cs * Gr - sn * Gt)
        \<and> py_get (By_out oblique_eb_result) 0 = Some (sn * Gr + cs * Gt)
        \<and> py_get (Bz_out oblique_eb_result) 0 = Some Gz)"
    by (elim conjE)
  from T have T3: "gather_envelope_field_numba_linear
          (add_linear_envelope_gather_for_mode example_memory)
          example_geometry oblique_envelope_grids example_m_array oblique_x oblique_y example_z
          example_envelope_out True False = Some oblique_envelope_result
        \<and> (0::int) \<le> 0 \<and> 0 < int (length oblique_x) \<longrightarrow>
     (\<exists>rj cs sn F Fr Ft Fz.
        cyl_conv (oblique_x ! nat 0) (oblique_y ! nat 0) = (rj, cs, sn)
        \<and> envelope_linear_sums (add_linear_envelope_gather_for_mode example_memory)
            example_geometry oblique_envelope_grids example_m_array True
            (oblique_x ! nat 0) (oblique_y ! nat 0) (example_z ! nat 0) = Some (F, Fr, Ft, Fz)
        \<and> py_get (grad_a2_x oblique_envelope_result) 0
             = Some (2 * Re ((of_real cs * Fr - of_real sn * Ft) * cnj F))
        \<and> py_get (grad_a2_y oblique_envelope_result) 0
             = Some (2 * Re ((of_real sn * Fr + of_real cs * Ft) * cnj F))
        \<and> py_get (grad_a2_z oblique_envelope_result) 0 = Some (2 * Re (Fz * cnj F)))"
    by (elim conjE)
  from T have T4: "chunk_partition [0, 1, 2] 2 2
        \<and> gather_envelope_field_numba_cubic (add_cubic_envelope_gather_for_mode example_memory)
        example_geometry oblique_envelope_grids example_m_array oblique_x oblique_y example_z
        example_envelope_out example_junk 2 [0, 1, 2] True False
          = Some oblique_envelope_result
        \<and> (0::int) \<le> 0 \<and> (0::int) < 2 \<longrightarrow>
     (\<exists>rj cs sn F Fr Ft Fz.
        cyl_conv (oblique_x ! nat 0) (oblique_y ! nat 0) = (rj, cs, sn)
        \<and> envelope_cubic_sums (add_cubic_envelope_gather_for_mode example_memory)
            example_geometry oblique_envelope_grids example_m_array True
            (oblique_x ! nat 0) (oblique_y ! nat 0) (example_z ! nat 0)
            (np_empty (fst (example_junk 0)) 4) (np_empty (snd (example_junk 0)) 4)
            = Some (F, Fr, Ft, Fz)
        \<and> py_get (grad_a2_x oblique_envelope_result) 0
             = Some (2 * Re ((of_real cs * Fr - of_real sn * Ft) * cnj F))
        \<and> py_get (grad_a2_y oblique_envelope_result) 0
             = Some (2 * Re ((of_real sn * Fr + of_real cs * Ft) * cnj F))
        \<and> py_get (grad_a2_z oblique_envelope_result) 0 = Some (2 * Re (Fz * cnj F)))"
    by (elim conjE)
  note a = T1 [rule_format, OF conjI [OF l conjI [OF r(1) r(2)]]]
  note b = T2 [rule_format, OF conjI [OF p conjI [OF c conjI [OF r(1) r(3)]]]]
  note d = T3 [rule_format, OF conjI [OF el conjI [OF r(1) r(2)]]]
  note e = T4 [rule_format, OF conjI [OF p conjI [OF ec conjI [OF r(1) r(3)]]]]
  show ?thesis
    using oblique_values p l c el ec a b d e by (intro conjI)
qed

end
